theory Spec2Isabelle
  imports Complex_Main "HOL-Library.AList"
begin

section \<open>Capture log (core/StateLogger.ts)\<close>

text \<open>
  The capture log keeps a JavaScript \<^verbatim>\<open>Map<string, CaptureMetadata[]>\<close> from
  partition key to an array of captures. A JavaScript map iterates in the order in which
  its keys were first inserted, so it is an association list here; \<open>AList.update\<close>
  replaces the value of a present key in place and appends an absent key at the end,
  as \<^verbatim>\<open>Map.prototype.set\<close> does.
\<close>

record Viewport =
  vp_width :: nat
  vp_height :: nat

text \<open>The argument of \<^verbatim>\<open>logCapture\<close>: a capture without \<^verbatim>\<open>id\<close> and \<^verbatim>\<open>timestamp\<close>.\<close>

record CaptureInput =
  cap_name :: string
  screenshotPath :: string
  domSnippet :: string
  environment :: "string option"
  viewport :: "Viewport option"
  testFile :: "string option"
  testTitle :: "string option"
  cap_error :: "string option"

record CaptureMetadata = CaptureInput +
  cap_id :: string
  cap_timestamp :: string

record StateLogger =
  capturesByTestFile :: "(string \<times> CaptureMetadata list) list"

definition maxCapturesPerFile :: nat where
  "maxCapturesPerFile = 1000"

definition newStateLogger :: StateLogger where
  "newStateLogger = \<lparr>capturesByTestFile = []\<rparr>"

text \<open>
  \<^verbatim>\<open>{ ...metadata, id: generateUUID(), timestamp: new Date().toISOString() }\<close>: the
  identifier and the time come from the runtime, so they are arguments of the model.
\<close>

definition stamp :: "CaptureInput \<Rightarrow> string \<Rightarrow> string \<Rightarrow> CaptureMetadata" where
  "stamp metadata uuid now = CaptureInput.extend metadata
     (CaptureMetadata.fields uuid now)"

text \<open>\<^verbatim>\<open>testFile || 'default'\<close>: an absent and an empty test file both select \<open>default\<close>.\<close>

definition fileKeyOf :: "string option \<Rightarrow> string" where
  "fileKeyOf tf = (case tf of None \<Rightarrow> ''default''
                   | Some f \<Rightarrow> (if f = [] then ''default'' else f))"

definition logCapture ::
  "StateLogger \<Rightarrow> CaptureInput \<Rightarrow> string \<Rightarrow> string \<Rightarrow> string option \<Rightarrow> StateLogger" where
  "logCapture st metadata uuid now tf =
     (let capture = stamp metadata uuid now;
          fileKey = fileKeyOf tf;
          m1 = (if map_of (capturesByTestFile st) fileKey = None
                then AList.update fileKey [] (capturesByTestFile st)
                else capturesByTestFile st);
          pushed = (case map_of m1 fileKey of None \<Rightarrow> [] | Some cs \<Rightarrow> cs) @ [capture];
          captures = (if length pushed > maxCapturesPerFile then tl pushed else pushed)
      in st\<lparr>capturesByTestFile := AList.update fileKey captures m1\<rparr>)"

definition getCaptures :: "StateLogger \<Rightarrow> CaptureMetadata list" where
  "getCaptures st = concat (map snd (capturesByTestFile st))"

definition getCapturesByTestFile :: "StateLogger \<Rightarrow> string \<Rightarrow> CaptureMetadata list" where
  "getCapturesByTestFile st tf =
     (case map_of (capturesByTestFile st) tf of None \<Rightarrow> [] | Some cs \<Rightarrow> cs)"

definition getCapturesByName :: "StateLogger \<Rightarrow> string \<Rightarrow> CaptureMetadata list" where
  "getCapturesByName st n = filter (\<lambda>c. cap_name c = n) (getCaptures st)"

definition clear :: "StateLogger \<Rightarrow> StateLogger" where
  "clear st = st\<lparr>capturesByTestFile := []\<rparr>"

definition clearTestFile :: "StateLogger \<Rightarrow> string \<Rightarrow> StateLogger" where
  "clearTestFile st tf = st\<lparr>capturesByTestFile := AList.delete tf (capturesByTestFile st)\<rparr>"

definition size_log :: "StateLogger \<Rightarrow> nat" where
  "size_log st = sum_list (map (\<lambda>kv. length (snd kv)) (capturesByTestFile st))"

definition getTestFiles :: "StateLogger \<Rightarrow> string list" where
  "getTestFiles st = map fst (capturesByTestFile st)"

text \<open>
  One \<^verbatim>\<open>logCapture\<close> call with what the runtime supplied to it: the metadata, the
  generated identifier, the time stamp and the optional test file.
\<close>

type_synonym logCall = "CaptureInput \<times> string \<times> string \<times> string option"

definition callKey :: "logCall \<Rightarrow> string" where
  "callKey c = (case c of (m, u, t, tf) \<Rightarrow> fileKeyOf tf)"

definition callCapture :: "logCall \<Rightarrow> CaptureMetadata" where
  "callCapture c = (case c of (m, u, t, tf) \<Rightarrow> stamp m u t)"

definition logCall :: "StateLogger \<Rightarrow> logCall \<Rightarrow> StateLogger" where
  "logCall st c = (case c of (m, u, t, tf) \<Rightarrow> logCapture st m u t tf)"

definition logAll :: "logCall list \<Rightarrow> StateLogger" where
  "logAll calls = foldl logCall newStateLogger calls"

text \<open>The last \<open>n\<close> elements of a list, in their order.\<close>

definition takeLast :: "nat \<Rightarrow> 'a list \<Rightarrow> 'a list" where
  "takeLast n xs = drop (length xs - n) xs"

text \<open>The captures that a sequence of calls sent to partition \<open>k\<close>, in call order.\<close>

definition sentTo :: "string \<Rightarrow> logCall list \<Rightarrow> CaptureMetadata list" where
  "sentTo k calls = map callCapture (filter (\<lambda>c. callKey c = k) calls)"

text \<open>Two concrete call sequences, used to instantiate the properties below.\<close>

definition demoInput :: CaptureInput where
  "demoInput = \<lparr>cap_name = ''home'', screenshotPath = ''home.png'', domSnippet = ''<html>'',
     environment = None, viewport = None, testFile = None, testTitle = None,
     cap_error = None\<rparr>"

definition smallCalls :: "logCall list" where
  "smallCalls = [(demoInput, ''u1'', ''t1'', None), (demoInput, ''u2'', ''t2'', Some ''a.spec.ts'')]"

definition manyCalls :: "logCall list" where
  "manyCalls = map (\<lambda>i. (demoInput, replicate i CHR ''x'', ''t'', Some [])) [0..<1010]"

subsection \<open>Properties of the capture log\<close>

lemma takeLast_short: "length xs \<le> n \<Longrightarrow> takeLast n xs = xs"
  by (simp add: takeLast_def)

lemma length_takeLast: "length (takeLast n xs) = min n (length xs)"
  by (simp add: takeLast_def)

lemma takeLast_snoc:
  "takeLast n (takeLast n xs @ [x]) = takeLast n (xs @ [x])"
proof (cases "length xs \<le> n")
  case True
  then show ?thesis by (simp add: takeLast_def)
next
  case False
  then have a: "Suc (length xs) - n = Suc (length xs - n)" by arith
  have b: "length xs - (length xs - n) = n" using False by arith
  show ?thesis
  proof (cases n)
    case 0
    then show ?thesis by (simp add: takeLast_def)
  next
    case (Suc k)
    then have ne: "drop (length xs - n) xs \<noteq> []" using False by simp
    show ?thesis using False ne
      by (simp add: takeLast_def a b drop_Suc drop_tl[symmetric])
  qed
qed

lemma evict_is_takeLast:
  assumes "length cs \<le> maxCapturesPerFile"
  shows "(if length (cs @ [c]) > maxCapturesPerFile then tl (cs @ [c]) else cs @ [c])
         = takeLast maxCapturesPerFile (cs @ [c])"
proof (cases "length cs = maxCapturesPerFile")
  case True
  then have ne: "cs \<noteq> []" by (auto simp: maxCapturesPerFile_def)
  have "takeLast maxCapturesPerFile (cs @ [c]) = drop 1 (cs @ [c])"
    using True by (simp add: takeLast_def)
  then show ?thesis using True ne by (simp add: drop_Suc maxCapturesPerFile_def)
next
  case False
  with assms show ?thesis by (simp add: takeLast_def)
qed

lemma map_of_logCapture:
  "map_of (capturesByTestFile (logCapture st m u t tf)) k =
     (if k = fileKeyOf tf
      then Some (let pushed = (case map_of (capturesByTestFile st) k of None \<Rightarrow> [] | Some cs \<Rightarrow> cs)
                       @ [stamp m u t]
                 in if length pushed > maxCapturesPerFile then tl pushed else pushed)
      else map_of (capturesByTestFile st) k)"
  by (auto simp: logCapture_def Let_def update_conv' split: option.splits)

text \<open>
  The content of every partition after any sequence of calls: absent when no call went
  to it, otherwise the last 1000 captures sent to it.
\<close>

lemma map_of_foldl_logCall:
  "map_of (capturesByTestFile (foldl logCall newStateLogger calls)) k =
     (if sentTo k calls = [] then None
      else Some (takeLast maxCapturesPerFile (sentTo k calls)))"
proof (induction calls rule: rev_induct)
  case Nil
  show ?case by (simp add: newStateLogger_def sentTo_def)
next
  case (snoc c calls)
  obtain m u t tf where c: "c = (m, u, t, tf)" by (cases c) auto
  let ?st = "foldl logCall newStateLogger calls"
  show ?case
  proof (cases "k = fileKeyOf tf")
    case False
    then show ?thesis
      using snoc.IH by (simp add: c logCall_def map_of_logCapture sentTo_def callKey_def)
  next
    case True
    let ?old = "case map_of (capturesByTestFile ?st) k of None \<Rightarrow> [] | Some cs \<Rightarrow> cs"
    have old: "?old = takeLast maxCapturesPerFile (sentTo k calls)"
      using snoc.IH by (simp add: takeLast_def)
    have len: "length ?old \<le> maxCapturesPerFile"
      unfolding old by (simp add: length_takeLast)
    have sent: "sentTo k (calls @ [c]) = sentTo k calls @ [stamp m u t]"
      using True by (simp add: sentTo_def c callKey_def callCapture_def)
    have "map_of (capturesByTestFile (foldl logCall newStateLogger (calls @ [c]))) k
          = Some (if length (?old @ [stamp m u t]) > maxCapturesPerFile
                  then tl (?old @ [stamp m u t]) else ?old @ [stamp m u t])"
      using True by (simp add: c logCall_def map_of_logCapture Let_def)
    also have "\<dots> = Some (takeLast maxCapturesPerFile (?old @ [stamp m u t]))"
      using evict_is_takeLast [OF len] by simp
    also have "\<dots> = Some (takeLast maxCapturesPerFile (sentTo k calls @ [stamp m u t]))"
      unfolding old by (simp add: takeLast_snoc)
    finally show ?thesis by (simp add: sent)
  qed
qed

lemma distinct_keys_logCapture:
  "distinct (map fst (capturesByTestFile st)) \<Longrightarrow>
   distinct (map fst (capturesByTestFile (logCapture st m u t tf)))"
  by (simp add: logCapture_def Let_def distinct_update)

lemma distinct_keys_foldl_logCall:
  "distinct (map fst (capturesByTestFile (foldl logCall newStateLogger calls)))"
proof (induction calls rule: rev_induct)
  case Nil
  show ?case by (simp add: newStateLogger_def)
next
  case (snoc c calls)
  then show ?case
    by (cases c) (simp add: logCall_def distinct_keys_logCapture)
qed

lemma single_partition_alist:
  assumes d: "distinct (map fst al)"
    and k: "map_of al k = Some v"
    and others: "\<And>k'. k' \<noteq> k \<Longrightarrow> map_of al k' = None"
  shows "al = [(k, v)]"
proof (cases al)
  case Nil
  with k show ?thesis by simp
next
  case (Cons p rest)
  obtain a b where p: "p = (a, b)" by (cases p) auto
  have "map_of al a = Some b" by (simp add: Cons p)
  with others [of a] have a: "a = k" by (cases "a = k") auto
  with k have b: "b = v" by (simp add: Cons p)
  have "rest = []"
  proof (cases rest)
    case Nil
    then show ?thesis .
  next
    case (Cons q rest')
    obtain a' b' where q: "q = (a', b')" by (cases q) auto
    from d have ne: "a' \<noteq> a" by (auto simp: \<open>al = p # rest\<close> Cons p q)
    then have "map_of al a' = Some b'" by (simp add: \<open>al = p # rest\<close> Cons p q)
    with others [of a'] ne a show ?thesis by simp
  qed
  then show ?thesis by (simp add: Cons p a b)
qed

text \<open>
  C8. After any sequence of \<^verbatim>\<open>logCapture\<close> calls on a fresh log, every partition holds
  at most 1000 records, and they are exactly the last 1000 captures that were logged under
  that partition's key, in insertion order: what a partition loses is its own oldest
  record, whatever was logged to other partitions. In particular, after 1010 calls that
  all go to one partition, \<^verbatim>\<open>size()\<close> is 1000, the 10 oldest captures are gone and
  \<^verbatim>\<open>getCaptures()\<close> returns the other 1000 in insertion order.
\<close>

theorem capture_log_bounded_fifo:
  fixes calls :: "logCall list"
  shows "(\<forall>key cs. map_of (capturesByTestFile (logAll calls)) key = Some cs \<longrightarrow>
           length cs \<le> 1000 \<and> cs = takeLast 1000 (sentTo key calls)) \<and>
         (length calls = 1010 \<and> (\<forall>c \<in> set calls. callKey c = k) \<longrightarrow>
           size_log (logAll calls) = 1000 \<and>
           getCaptures (logAll calls) = drop 10 (map callCapture calls) \<and>
           getCapturesByTestFile (logAll calls) k = drop 10 (map callCapture calls))"
proof (rule conjI)
  show "\<forall>key cs. map_of (capturesByTestFile (logAll calls)) key = Some cs \<longrightarrow>
           length cs \<le> 1000 \<and> cs = takeLast 1000 (sentTo key calls)"
    by (auto simp: logAll_def map_of_foldl_logCall length_takeLast maxCapturesPerFile_def
             split: if_splits)
next
  show "length calls = 1010 \<and> (\<forall>c \<in> set calls. callKey c = k) \<longrightarrow>
           size_log (logAll calls) = 1000 \<and>
           getCaptures (logAll calls) = drop 10 (map callCapture calls) \<and>
           getCapturesByTestFile (logAll calls) k = drop 10 (map callCapture calls)"
  proof
    assume h: "length calls = 1010 \<and> (\<forall>c \<in> set calls. callKey c = k)"
    then have all: "filter (\<lambda>c. callKey c = k) calls = calls" by simp
    have sent: "sentTo k calls = map callCapture calls"
      by (simp add: sentTo_def all)
    have none: "sentTo k' calls = []" if "k' \<noteq> k" for k'
      using h that by (auto simp: sentTo_def filter_empty_conv)
    have ne: "sentTo k calls \<noteq> []" using h by (auto simp: sent)
    let ?last = "takeLast maxCapturesPerFile (map callCapture calls)"
    have "capturesByTestFile (logAll calls) = [(k, ?last)]"
    proof (rule single_partition_alist)
      show "distinct (map fst (capturesByTestFile (logAll calls)))"
        by (simp add: logAll_def distinct_keys_foldl_logCall)
      show "map_of (capturesByTestFile (logAll calls)) k = Some ?last"
        using ne by (simp add: logAll_def map_of_foldl_logCall sent)
      show "map_of (capturesByTestFile (logAll calls)) k' = None" if "k' \<noteq> k" for k'
        using none [OF that] by (simp add: logAll_def map_of_foldl_logCall)
    qed
    moreover have "?last = drop 10 (map callCapture calls)"
      using h by (simp add: takeLast_def maxCapturesPerFile_def)
    ultimately show "size_log (logAll calls) = 1000 \<and>
           getCaptures (logAll calls) = drop 10 (map callCapture calls) \<and>
           getCapturesByTestFile (logAll calls) k = drop 10 (map callCapture calls)"
      using h by (simp add: size_log_def getCaptures_def getCapturesByTestFile_def)
  qed
qed

theorem capture_log_bounded_fifo_witness:
  "map_of (capturesByTestFile (logAll smallCalls)) ''default'' = Some [stamp demoInput ''u1'' ''t1'']
   \<and> length [stamp demoInput ''u1'' ''t1''] \<le> 1000
   \<and> [stamp demoInput ''u1'' ''t1''] = takeLast 1000 (sentTo ''default'' smallCalls)
   \<and> length manyCalls = 1010
   \<and> map callKey manyCalls = replicate 1010 ''default''
   \<and> size_log (logAll manyCalls) = 1000
   \<and> getCaptures (logAll manyCalls) = drop 10 (map callCapture manyCalls)"
proof -
  have small: "map_of (capturesByTestFile (logAll smallCalls)) ''default''
               = Some [stamp demoInput ''u1'' ''t1'']"
    by (simp add: smallCalls_def logAll_def logCall_def logCapture_def fileKeyOf_def
          newStateLogger_def maxCapturesPerFile_def Let_def)
  have len: "length manyCalls = 1010" by (simp add: manyCalls_def)
  have keys: "map callKey manyCalls = replicate 1010 ''default''"
    by (simp add: manyCalls_def callKey_def fileKeyOf_def comp_def map_replicate_const)
  have all: "\<forall>c \<in> set manyCalls. callKey c = ''default''"
    by (simp add: manyCalls_def callKey_def fileKeyOf_def)
  from capture_log_bounded_fifo [of smallCalls] small
  have "length [stamp demoInput ''u1'' ''t1''] \<le> 1000
        \<and> [stamp demoInput ''u1'' ''t1''] = takeLast 1000 (sentTo ''default'' smallCalls)"
    by blast
  moreover from capture_log_bounded_fifo [of manyCalls "''default''"] len all
  have "size_log (logAll manyCalls) = 1000
        \<and> getCaptures (logAll manyCalls) = drop 10 (map callCapture manyCalls)"
    by blast
  ultimately show ?thesis using small len keys by blast
qed

section \<open>Strings, paths and the file system\<close>

subsection \<open>JavaScript string operations\<close>

text \<open>\<^verbatim>\<open>s.startsWith(p)\<close>, \<^verbatim>\<open>s.endsWith(p)\<close> and \<^verbatim>\<open>s.includes(p)\<close>.\<close>

fun startsWith :: "string \<Rightarrow> string \<Rightarrow> bool" where
  "startsWith s [] = True"
| "startsWith [] (p # ps) = False"
| "startsWith (c # cs) (p # ps) = (c = p \<and> startsWith cs ps)"

definition endsWith :: "string \<Rightarrow> string \<Rightarrow> bool" where
  "endsWith s p = startsWith (rev s) (rev p)"

fun includesStr :: "string \<Rightarrow> string \<Rightarrow> bool" where
  "includesStr [] p = (p = [])"
| "includesStr (c # cs) p = (startsWith (c # cs) p \<or> includesStr cs p)"

text \<open>\<^verbatim>\<open>s.split(c)\<close> for a one-character separator: never empty, \<^verbatim>\<open>''.split(c)\<close> is \<^verbatim>\<open>['']\<close>.\<close>

fun splitOn :: "char \<Rightarrow> string \<Rightarrow> string list" where
  "splitOn c [] = [[]]"
| "splitOn c (x # xs) =
     (if x = c then [] # splitOn c xs
      else (case splitOn c xs of [] \<Rightarrow> [[x]] | s # ss \<Rightarrow> (x # s) # ss))"

text \<open>\<^verbatim>\<open>parts.join(sep)\<close>.\<close>

fun joinWith :: "string \<Rightarrow> string list \<Rightarrow> string" where
  "joinWith sep [] = []"
| "joinWith sep [s] = s"
| "joinWith sep (s # t # ss) = s @ sep @ joinWith sep (t # ss)"

text \<open>The decimal digits of a number, as a template literal prints it.\<close>

definition digitChar :: "nat \<Rightarrow> char" where
  "digitChar d = char_of (48 + d)"

function string_of_nat :: "nat \<Rightarrow> string" where
  "string_of_nat n =
     (if n < 10 then [digitChar n] else string_of_nat (n div 10) @ [digitChar (n mod 10)])"
  by pat_completeness auto
termination
  by (relation "measure (\<lambda>n. n)") auto

declare string_of_nat.simps [simp del]

subsection \<open>JavaScript numbers\<close>

text \<open>
  A JavaScript number is an IEEE 754 double. A finite double is modelled by the real
  number it denotes; \<open>binary64 x\<close> is the double nearest to \<open>x\<close>, the one with the even
  significand when two are equally near. This is the value of a numeric literal and of
  every arithmetic operation: \<^verbatim>\<open>a / b\<close> is \<open>binary64 (a / b)\<close> and \<^verbatim>\<open>a * b\<close> is
  \<open>binary64 (a * b)\<close>, while \<^verbatim>\<open><=\<close> compares the two values as they are. A double has
  53 significant bits and its exponent is at least -1022; below that the spacing of the
  doubles stays \<open>2 ^ -1074\<close>. The quotients and products of this program are far below
  \<open>2 ^ 1024\<close>, where a double would be \<^verbatim>\<open>Infinity\<close>.
\<close>

text \<open>The number of binary digits of a positive integer.\<close>

function bitLength :: "int \<Rightarrow> int" where
  "bitLength n = (if n \<le> 0 then 0 else 1 + bitLength (n div 2))"
  by pat_completeness auto
termination
  by (relation "measure nat") auto

declare bitLength.simps [simp del]

definition pow2 :: "int \<Rightarrow> real" where
  "pow2 q = (if 0 \<le> q then 2 ^ nat q else 1 / 2 ^ nat (- q))"

text \<open>For \<open>x > 0\<close>, the exponent \<open>e\<close> with \<open>2 ^ e \<le> x < 2 ^ (e + 1)\<close>.\<close>

definition exponentOf :: "real \<Rightarrow> int" where
  "exponentOf x =
     (if 1 \<le> x then bitLength \<lfloor>x\<rfloor> - 1
      else let k = bitLength \<lfloor>1 / x\<rfloor> - 1
           in if x * pow2 k = 1 then - k else - k - 1)"

definition roundTiesToEven :: "real \<Rightarrow> int" where
  "roundTiesToEven y =
     (let f = \<lfloor>y\<rfloor>; r = y - of_int f
      in if r < 1 / 2 then f else if 1 / 2 < r then f + 1 else if even f then f else f + 1)"

definition binary64 :: "real \<Rightarrow> real" where
  "binary64 x =
     (if x = 0 then 0
      else let a = \<bar>x\<bar>;
               q = max (exponentOf a) (- 1022) - 52
           in sgn x * of_int (roundTiesToEven (a / pow2 q)) * pow2 q)"

definition numDiv :: "real \<Rightarrow> real \<Rightarrow> real" where
  "numDiv a b = binary64 (a / b)"

definition numMul :: "real \<Rightarrow> real \<Rightarrow> real" where
  "numMul a b = binary64 (a * b)"

subsection \<open>Node's \<^verbatim>\<open>path\<close> module on POSIX\<close>

text \<open>
  The library's \<^verbatim>\<open>normalizeString\<close> walks the segments between slashes: an empty
  segment and \<^verbatim>\<open>.\<close> are dropped, \<^verbatim>\<open>..\<close> removes the segment before it and, when
  there is none, is kept only in a relative path. \<open>acc\<close> is the result so far, last
  segment first.
\<close>

fun normSegs :: "bool \<Rightarrow> string list \<Rightarrow> string list \<Rightarrow> string list" where
  "normSegs allowAboveRoot acc [] = rev acc"
| "normSegs allowAboveRoot acc (s # ss) =
     (if s = [] \<or> s = ''.'' then normSegs allowAboveRoot acc ss
      else if s = ''..'' then
        (case acc of
           [] \<Rightarrow> normSegs allowAboveRoot (if allowAboveRoot then [''..''] else []) ss
         | t # ts \<Rightarrow>
             (if t \<noteq> ''..'' then normSegs allowAboveRoot ts ss
              else normSegs allowAboveRoot (if allowAboveRoot then ''..'' # acc else acc) ss))
      else normSegs allowAboveRoot (s # acc) ss)"

definition normalizeString :: "string \<Rightarrow> bool \<Rightarrow> string" where
  "normalizeString p allowAboveRoot =
     joinWith ''/'' (normSegs allowAboveRoot [] (splitOn CHR ''/'' p))"

definition isAbsolute :: "string \<Rightarrow> bool" where
  "isAbsolute p = startsWith p ''/''"

definition path_normalize :: "string \<Rightarrow> string" where
  "path_normalize p =
     (if p = [] then ''.''
      else let trailingSeparator = endsWith p ''/'';
               r = normalizeString p (\<not> isAbsolute p)
           in if r = [] then (if isAbsolute p then ''/''
                              else if trailingSeparator then ''./'' else ''.'')
              else (if isAbsolute p then ''/'' else []) @ r
                   @ (if trailingSeparator then ''/'' else []))"

text \<open>\<^verbatim>\<open>path.join(...args)\<close>: the non-empty arguments joined by slashes, normalised.\<close>

definition path_join :: "string list \<Rightarrow> string" where
  "path_join args =
     (let parts = filter (\<lambda>a. a \<noteq> []) args
      in if parts = [] then ''.'' else path_normalize (joinWith ''/'' parts))"

text \<open>
  \<^verbatim>\<open>path.resolve(p)\<close> with one argument; \<open>cwd\<close> is \<^verbatim>\<open>process.cwd()\<close>, which is
  absolute. The result is absolute, normalised and has no trailing slash.
\<close>

definition path_resolve :: "string \<Rightarrow> string \<Rightarrow> string" where
  "path_resolve cwd p =
     (let full = (if p = [] then cwd else if isAbsolute p then p else cwd @ ''/'' @ p)
      in ''/'' @ normalizeString full False)"

text \<open>
  \<^verbatim>\<open>path.dirname(p)\<close> for a path without a trailing slash: what precedes the last
  slash, \<^verbatim>\<open>/\<close> when that slash is the first character, \<^verbatim>\<open>.\<close> when there is none.
\<close>

definition path_dirname :: "string \<Rightarrow> string" where
  "path_dirname p =
     (if CHR ''/'' \<notin> set p then ''.''
      else let d = rev (tl (dropWhile (\<lambda>c. c \<noteq> CHR ''/'') (rev p)))
           in if d = [] then ''/'' else d)"

text \<open>
  \<^verbatim>\<open>path.basename(file, '.png')\<close> for a directory entry \<open>file\<close> that ends in
  \<^verbatim>\<open>.png\<close>: the entry without that suffix (the empty name for the entry \<^verbatim>\<open>.png\<close>).
\<close>

definition basename_png :: "string \<Rightarrow> string" where
  "basename_png file = take (length file - 4) file"

subsection \<open>The file system\<close>

text \<open>
  The part of the file system the program touches. \<open>files\<close> maps the path of a regular
  file to its bytes, \<open>dirs\<close> is the set of directories, \<open>listing\<close> is what
  \<^verbatim>\<open>readdir\<close> returns for a directory when the run scans it (the program lists
  directories only before it writes), and \<open>fault\<close> names the operations the operating
  system refuses (permissions, a full disk) with the message of the error it raises.
  \<open>events\<close> records the calls to the image libraries, in order.
\<close>

datatype fs_op =
    OpRead string
  | OpWrite string
  | OpMkdir string
  | OpReaddir string
  | OpCopy string string
  | OpRemove string

datatype lib_event =
    Decoded string
  | PixelCompared string
  | Encoded string

record world =
  files :: "string \<rightharpoonup> string"
  dirs :: "string set"
  listing :: "string \<Rightarrow> string list"
  fault :: "fs_op \<Rightarrow> string option"
  events :: "lib_event list"

text \<open>
  Node words the error of a failed system call as code, description, system call and the
  path (for a copy both paths) in single quotes.
\<close>

definition quoted :: "string \<Rightarrow> string" where
  "quoted p = [CHR 0x27] @ p @ [CHR 0x27]"

definition existsSync :: "world \<Rightarrow> string \<Rightarrow> bool" where
  "existsSync w p = (files w p \<noteq> None \<or> p \<in> dirs w)"

definition readFile :: "world \<Rightarrow> string \<Rightarrow> string + string" where
  "readFile w p =
     (case fault w (OpRead p) of
        Some msg \<Rightarrow> Inl msg
      | None \<Rightarrow>
          (case files w p of
             Some bytes \<Rightarrow> Inr bytes
           | None \<Rightarrow> if p \<in> dirs w
                     then Inl ''EISDIR: illegal operation on a directory, read''
                     else Inl (''ENOENT: no such file or directory, open '' @ quoted p)))"

definition writeFile :: "world \<Rightarrow> string \<Rightarrow> string \<Rightarrow> string + world" where
  "writeFile w p bytes =
     (case fault w (OpWrite p) of
        Some msg \<Rightarrow> Inl msg
      | None \<Rightarrow>
          if p \<in> dirs w
          then Inl (''EISDIR: illegal operation on a directory, open '' @ quoted p)
          else if path_dirname p \<notin> dirs w
          then Inl (''ENOENT: no such file or directory, open '' @ quoted p)
          else Inr (w\<lparr>files := (files w)(p \<mapsto> bytes)\<rparr>))"

text \<open>\<^verbatim>\<open>fs.ensureDir(d)\<close> of fs-extra: creates the directory unless it is there.\<close>

definition ensureDir :: "world \<Rightarrow> string \<Rightarrow> string + world" where
  "ensureDir w d =
     (case fault w (OpMkdir d) of
        Some msg \<Rightarrow> Inl msg
      | None \<Rightarrow>
          if files w d \<noteq> None then Inl (''EEXIST: file already exists, mkdir '' @ quoted d)
          else Inr (w\<lparr>dirs := insert d (dirs w)\<rparr>))"

definition readdir :: "world \<Rightarrow> string \<Rightarrow> string + string list" where
  "readdir w d =
     (case fault w (OpReaddir d) of
        Some msg \<Rightarrow> Inl msg
      | None \<Rightarrow>
          if d \<in> dirs w then Inr (listing w d)
          else if files w d \<noteq> None then Inl (''ENOTDIR: not a directory, scandir '' @ quoted d)
          else Inl (''ENOENT: no such file or directory, scandir '' @ quoted d))"

text \<open>
  \<^verbatim>\<open>fs.copyFile(src, dest)\<close>: the destination is overwritten; a copy of a file onto
  itself leaves it as it is.
\<close>

definition copyFile :: "world \<Rightarrow> string \<Rightarrow> string \<Rightarrow> string + world" where
  "copyFile w src dest =
     (case fault w (OpCopy src dest) of
        Some msg \<Rightarrow> Inl msg
      | None \<Rightarrow>
          (case files w src of
             None \<Rightarrow> if src \<in> dirs w
                     then Inl (''EISDIR: illegal operation on a directory, copyfile ''
                               @ quoted src @ '' -> '' @ quoted dest)
                     else Inl (''ENOENT: no such file or directory, copyfile ''
                               @ quoted src @ '' -> '' @ quoted dest)
           | Some bytes \<Rightarrow>
               if dest \<in> dirs w
               then Inl (''EISDIR: illegal operation on a directory, copyfile ''
                         @ quoted src @ '' -> '' @ quoted dest)
               else if path_dirname dest \<notin> dirs w
               then Inl (''ENOENT: no such file or directory, copyfile ''
                         @ quoted src @ '' -> '' @ quoted dest)
               else Inr (w\<lparr>files := (files w)(dest \<mapsto> bytes)\<rparr>)))"

text \<open>\<^verbatim>\<open>fs.remove(p)\<close> of fs-extra: removes a file or a directory; no error when absent.\<close>

definition remove :: "world \<Rightarrow> string \<Rightarrow> string + world" where
  "remove w p =
     (case fault w (OpRemove p) of
        Some msg \<Rightarrow> Inl msg
      | None \<Rightarrow> Inr (w\<lparr>files := (files w)(p := None), dirs := dirs w - {p}\<rparr>))"

section \<open>Configuration (core/ConfigService.ts)\<close>

subsection \<open>Parsed JSON\<close>

text \<open>
  What \<^verbatim>\<open>JSON.parse\<close> returns. An object lists its properties in enumeration order,
  each name once. A number is the double that the parser read; a literal too large for a
  double, which the parser reads as \<^verbatim>\<open>Infinity\<close>, has no value here.
\<close>

datatype json =
    JNull
  | JBool bool
  | JNum real
  | JStr string
  | JArr "json list"
  | JObj "(string \<times> json) list"

text \<open>
  \<^verbatim>\<open>v.key\<close> for a value that is not \<^verbatim>\<open>null\<close>; \<open>None\<close> is \<^verbatim>\<open>undefined\<close>. The names
  the program reads are neither array indices nor \<^verbatim>\<open>length\<close>, so only an object has them.
\<close>

fun getProp :: "json \<Rightarrow> string \<Rightarrow> json option" where
  "getProp (JObj kvs) k = map_of kvs k"
| "getProp v k = None"

text \<open>\<^verbatim>\<open>!v\<close> is false for these values.\<close>

fun truthy :: "json option \<Rightarrow> bool" where
  "truthy None = False"
| "truthy (Some JNull) = False"
| "truthy (Some (JBool b)) = b"
| "truthy (Some (JNum n)) = (n \<noteq> 0)"
| "truthy (Some (JStr s)) = (s \<noteq> [])"
| "truthy (Some (JArr xs)) = True"
| "truthy (Some (JObj kvs)) = True"

text \<open>\<^verbatim>\<open>typeof v\<close>.\<close>

fun typeof :: "json option \<Rightarrow> string" where
  "typeof None = ''undefined''"
| "typeof (Some JNull) = ''object''"
| "typeof (Some (JBool b)) = ''boolean''"
| "typeof (Some (JNum n)) = ''number''"
| "typeof (Some (JStr s)) = ''string''"
| "typeof (Some (JArr xs)) = ''object''"
| "typeof (Some (JObj kvs)) = ''object''"

text \<open>\<^verbatim>\<open>Object.keys(v)\<close> with the values: an array has its indices as keys.\<close>

fun entriesOf :: "json \<Rightarrow> (string \<times> json) list" where
  "entriesOf (JObj kvs) = kvs"
| "entriesOf (JArr xs) = zip (map string_of_nat [0..<length xs]) xs"
| "entriesOf v = []"

subsection \<open>The configuration object\<close>

record PathsConfig =
  baseline :: string
  current :: string
  diff :: string
  reports :: string

record VisualEngineConfig =
  engineType :: string
  engineThreshold :: real
  includeAA :: "bool option"
  alpha :: "real option"
  diffColor :: "(real \<times> real \<times> real) option"

record EnvironmentConfig =
  env_width :: real
  env_height :: real
  deviceScaleFactor :: "real option"

record ApiConfig =
  endpoint :: string
  enabled :: bool

record TestivAIConfig =
  artifactRoot :: string
  paths :: PathsConfig
  visualEngine :: VisualEngineConfig
  environments :: "(string \<times> EnvironmentConfig) list"
  api :: "ApiConfig option"

definition DEFAULT_CONFIG :: TestivAIConfig where
  "DEFAULT_CONFIG = \<lparr>
     artifactRoot = ''.testivai/artifacts'',
     paths = \<lparr>
       baseline = ''.testivai/artifacts/baselines'',
       current = ''.testivai/artifacts/current'',
       diff = ''.testivai/artifacts/diffs'',
       reports = ''.testivai/reports''\<rparr>,
     visualEngine = \<lparr>
       engineType = ''pixelmatch'',
       engineThreshold = binary64 0.1,
       includeAA = Some True,
       alpha = Some (binary64 0.1),
       diffColor = Some (255, 0, 0)\<rparr>,
     environments = [(''desktop-hd'',
       \<lparr>env_width = 1920, env_height = 1080, deviceScaleFactor = Some 1\<rparr>)],
     api = None\<rparr>"

text \<open>
  \<^verbatim>\<open>validateConfig\<close>: \<open>Inl\<close> is the message of the error it throws. Reading a property
  of \<^verbatim>\<open>null\<close> raises a \<^verbatim>\<open>TypeError\<close>.
\<close>

definition requiredPaths :: "string list" where
  "requiredPaths = [''baseline'', ''current'', ''diff'', ''reports'']"

fun validatePaths :: "json \<Rightarrow> string list \<Rightarrow> string + unit" where
  "validatePaths ps [] = Inr ()"
| "validatePaths ps (pathKey # rest) =
     (if \<not> truthy (getProp ps pathKey) \<or> typeof (getProp ps pathKey) \<noteq> ''string''
      then Inl (''Invalid config: paths.'' @ pathKey @ '' is required and must be a string'')
      else validatePaths ps rest)"

fun validateEnvironments :: "(string \<times> json) list \<Rightarrow> string + unit" where
  "validateEnvironments [] = Inr ()"
| "validateEnvironments ((envKey, env) # rest) =
     (if env = JNull then Inl ''Cannot read properties of null (reading 'width')''
      else if typeof (getProp env ''width'') \<noteq> ''number''
              \<or> typeof (getProp env ''height'') \<noteq> ''number''
      then Inl (''Invalid config: environment '' @ [CHR 0x22] @ envKey @ [CHR 0x22]
                @ '' must have width and height as numbers'')
      else validateEnvironments rest)"

definition validateApi :: "json option \<Rightarrow> string + unit" where
  "validateApi a =
     (if truthy a then
        (case a of
           None \<Rightarrow> Inr ()
         | Some av \<Rightarrow>
             if typeof a \<noteq> ''object'' then Inl ''Invalid config: api must be an object''
             else if typeof (getProp av ''endpoint'') \<noteq> ''string''
                     \<or> typeof (getProp av ''enabled'') \<noteq> ''boolean''
             then Inl ''Invalid config: api.endpoint must be a string and api.enabled must be a boolean''
             else Inr ())
      else Inr ())"

text \<open>The checks run in order and the first that fails throws.\<close>

fun andThen :: "string + unit \<Rightarrow> string + unit \<Rightarrow> string + unit" where
  "andThen (Inl msg) next = Inl msg"
| "andThen (Inr u) next = next"

definition checkArtifactRoot :: "json \<Rightarrow> string + unit" where
  "checkArtifactRoot config =
     (if \<not> truthy (getProp config ''artifactRoot'')
         \<or> typeof (getProp config ''artifactRoot'') \<noteq> ''string''
      then Inl ''Invalid config: artifactRoot is required and must be a string''
      else Inr ())"

definition checkPaths :: "json \<Rightarrow> string + unit" where
  "checkPaths config =
     (case getProp config ''paths'' of
        None \<Rightarrow> Inl ''Invalid config: paths is required and must be an object''
      | Some ps \<Rightarrow>
          if \<not> truthy (Some ps) \<or> typeof (Some ps) \<noteq> ''object''
          then Inl ''Invalid config: paths is required and must be an object''
          else validatePaths ps requiredPaths)"

definition checkVisualEngine :: "json \<Rightarrow> string + unit" where
  "checkVisualEngine config =
     (case getProp config ''visualEngine'' of
        None \<Rightarrow> Inl ''Invalid config: visualEngine is required and must be an object''
      | Some ve \<Rightarrow>
          if \<not> truthy (Some ve) \<or> typeof (Some ve) \<noteq> ''object''
          then Inl ''Invalid config: visualEngine is required and must be an object''
          else if getProp ve ''type'' \<noteq> Some (JStr ''pixelmatch'')
          then Inl (''Invalid config: visualEngine.type must be '' @ [CHR 0x22]
                    @ ''pixelmatch'' @ [CHR 0x22])
          else if typeof (getProp ve ''threshold'') \<noteq> ''number''
          then Inl ''Invalid config: visualEngine.threshold is required and must be a number''
          else Inr ())"

definition checkEnvironments :: "json \<Rightarrow> string + unit" where
  "checkEnvironments config =
     (case getProp config ''environments'' of
        None \<Rightarrow> Inl ''Invalid config: environments is required and must be an object''
      | Some envs \<Rightarrow>
          if \<not> truthy (Some envs) \<or> typeof (Some envs) \<noteq> ''object''
          then Inl ''Invalid config: environments is required and must be an object''
          else if length (entriesOf envs) = 0
          then Inl ''Invalid config: at least one environment must be defined''
          else validateEnvironments (entriesOf envs))"

definition validateConfig :: "json \<Rightarrow> string + unit" where
  "validateConfig config =
     (if config = JNull then Inl ''Cannot read properties of null (reading 'artifactRoot')''
      else andThen (checkArtifactRoot config)
          (andThen (checkPaths config)
          (andThen (checkVisualEngine config)
          (andThen (checkEnvironments config)
                   (validateApi (getProp config ''api''))))))"

text \<open>
  \<^verbatim>\<open>config as TestivAIConfig\<close>: the parsed object read through the interface's fields.
  On a validated object the required fields are present with their types; an optional
  field of another type than the interface gives reads as absent.
\<close>

definition strField :: "json \<Rightarrow> string \<Rightarrow> string" where
  "strField v k = (case getProp v k of Some (JStr s) \<Rightarrow> s | _ \<Rightarrow> [])"

definition numField :: "json \<Rightarrow> string \<Rightarrow> real" where
  "numField v k = (case getProp v k of Some (JNum n) \<Rightarrow> n | _ \<Rightarrow> 0)"

definition optNumField :: "json \<Rightarrow> string \<Rightarrow> real option" where
  "optNumField v k = (case getProp v k of Some (JNum n) \<Rightarrow> Some n | _ \<Rightarrow> None)"

definition optBoolField :: "json \<Rightarrow> string \<Rightarrow> bool option" where
  "optBoolField v k = (case getProp v k of Some (JBool b) \<Rightarrow> Some b | _ \<Rightarrow> None)"

definition objField :: "json \<Rightarrow> string \<Rightarrow> json" where
  "objField v k = (case getProp v k of Some o' \<Rightarrow> o' | None \<Rightarrow> JNull)"

definition asPaths :: "json \<Rightarrow> PathsConfig" where
  "asPaths ps = \<lparr>baseline = strField ps ''baseline'', current = strField ps ''current'',
                 diff = strField ps ''diff'', reports = strField ps ''reports''\<rparr>"

definition asVisualEngine :: "json \<Rightarrow> VisualEngineConfig" where
  "asVisualEngine ve = \<lparr>
     engineType = strField ve ''type'',
     engineThreshold = numField ve ''threshold'',
     includeAA = optBoolField ve ''includeAA'',
     alpha = optNumField ve ''alpha'',
     diffColor = (case getProp ve ''diffColor'' of
                    Some (JArr [JNum r, JNum g, JNum b]) \<Rightarrow> Some (r, g, b)
                  | _ \<Rightarrow> None)\<rparr>"

definition asEnvironment :: "json \<Rightarrow> EnvironmentConfig" where
  "asEnvironment e = \<lparr>env_width = numField e ''width'', env_height = numField e ''height'',
                       deviceScaleFactor = optNumField e ''deviceScaleFactor''\<rparr>"

definition asApi :: "json option \<Rightarrow> ApiConfig option" where
  "asApi a = (case a of
                Some (JObj kvs) \<Rightarrow> Some \<lparr>endpoint = strField (JObj kvs) ''endpoint'',
                                         enabled = (optBoolField (JObj kvs) ''enabled'' = Some True)\<rparr>
              | _ \<Rightarrow> None)"

definition asConfig :: "json \<Rightarrow> TestivAIConfig" where
  "asConfig config = \<lparr>
     artifactRoot = strField config ''artifactRoot'',
     paths = asPaths (objField config ''paths''),
     visualEngine = asVisualEngine (objField config ''visualEngine''),
     environments = map (\<lambda>(k, e). (k, asEnvironment e))
                      (entriesOf (objField config ''environments'')),
     api = asApi (getProp config ''api'')\<rparr>"

subsection \<open>Loading the configuration\<close>

text \<open>The libraries the program calls; they are parameters of the model.\<close>

record image =
  img_width :: nat
  img_height :: nat
  img_data :: "nat list"

record pixelmatchOptions =
  pm_threshold :: real
  pm_includeAA :: bool
  pm_alpha :: real
  pm_diffColor :: "nat \<times> nat \<times> nat"

record libs =
  jsonParse :: "string \<Rightarrow> string + json"
  pngRead :: "string \<Rightarrow> string + image"
  pngWrite :: "image \<Rightarrow> string"
  pixelmatch :: "nat list \<Rightarrow> nat list \<Rightarrow> nat \<Rightarrow> nat \<Rightarrow> pixelmatchOptions \<Rightarrow> nat \<times> nat list"

text \<open>
  The content of a file is the list of its bytes, and a string of the program is the list
  of the bytes of its UTF-8 encoding. \<^verbatim>\<open>line.trim()\<close> removes, at both ends, the white
  space and the line terminators of ECMAScript: tab, line feed, vertical tab, form feed,
  carriage return, space, U+00A0, U+1680, U+2000 to U+200A, U+2028, U+2029, U+202F,
  U+205F, U+3000 and U+FEFF (the byte order mark). \<open>whiteSpace\<close> lists their encodings.
\<close>

definition whiteSpace :: "string list" where
  "whiteSpace =
     [[CHR 0x09], [CHR 0x0A], [CHR 0x0B], [CHR 0x0C], [CHR 0x0D], [CHR 0x20],
      [CHR 0xC2, CHR 0xA0],
      [CHR 0xE1, CHR 0x9A, CHR 0x80],
      [CHR 0xE2, CHR 0x80, CHR 0x80], [CHR 0xE2, CHR 0x80, CHR 0x81],
      [CHR 0xE2, CHR 0x80, CHR 0x82], [CHR 0xE2, CHR 0x80, CHR 0x83],
      [CHR 0xE2, CHR 0x80, CHR 0x84], [CHR 0xE2, CHR 0x80, CHR 0x85],
      [CHR 0xE2, CHR 0x80, CHR 0x86], [CHR 0xE2, CHR 0x80, CHR 0x87],
      [CHR 0xE2, CHR 0x80, CHR 0x88], [CHR 0xE2, CHR 0x80, CHR 0x89],
      [CHR 0xE2, CHR 0x80, CHR 0x8A],
      [CHR 0xE2, CHR 0x80, CHR 0xA8], [CHR 0xE2, CHR 0x80, CHR 0xA9],
      [CHR 0xE2, CHR 0x80, CHR 0xAF],
      [CHR 0xE2, CHR 0x81, CHR 0x9F],
      [CHR 0xE3, CHR 0x80, CHR 0x80],
      [CHR 0xEF, CHR 0xBB, CHR 0xBF]]"

text \<open>What follows the first of the prefixes \<open>ps\<close> that \<open>s\<close> starts with, if there is one.\<close>

fun afterPrefix :: "string list \<Rightarrow> string \<Rightarrow> string option" where
  "afterPrefix [] s = None"
| "afterPrefix (p # ps) s =
     (if p \<noteq> [] \<and> startsWith s p then Some (drop (length p) s) else afterPrefix ps s)"

lemma afterPrefix_shorter: "afterPrefix ps s = Some t \<Longrightarrow> length t < length s"
proof (induction ps)
  case Nil
  then show ?case by simp
next
  case (Cons p ps)
  have "startsWith s p \<Longrightarrow> length p \<le> length s" for s p
    by (induction s p rule: startsWith.induct) simp_all
  with Cons show ?case by (auto split: if_splits) (metis diff_less length_greater_0_conv
        order_less_le_trans)
qed

function dropAll :: "string list \<Rightarrow> string \<Rightarrow> string" where
  "dropAll ps s = (case afterPrefix ps s of None \<Rightarrow> s | Some t \<Rightarrow> dropAll ps t)"
  by pat_completeness auto
termination
  by (relation "measure (\<lambda>(ps, s). length s)") (auto dest: afterPrefix_shorter)

declare dropAll.simps [simp del]

definition trimStart :: "string \<Rightarrow> string" where
  "trimStart s = dropAll whiteSpace s"

definition trimEnd :: "string \<Rightarrow> string" where
  "trimEnd s = rev (dropAll (map rev whiteSpace) (rev s))"

definition trim :: "string \<Rightarrow> string" where
  "trim s = trimEnd (trimStart s)"

definition stripComments :: "string \<Rightarrow> string" where
  "stripComments configContent =
     joinWith [CHR 0x0A]
       (filter (\<lambda>line. \<not> startsWith (trim line) ''//'') (splitOn (CHR 0x0A) configContent))"

definition configFilePathOf :: "string \<Rightarrow> string option \<Rightarrow> string" where
  "configFilePathOf cwd configPath =
     (case configPath of
        None \<Rightarrow> path_join [cwd, ''testivai.config.json'']
      | Some p \<Rightarrow> if p = [] then path_join [cwd, ''testivai.config.json''] else p)"

text \<open>
  \<^verbatim>\<open>loadConfig\<close>: \<open>Inl\<close> is the message of the error it throws. A
  \<^verbatim>\<open>SyntaxError\<close> of the parser is wrapped, every other error is thrown on as it is.
\<close>

definition loadConfig :: "libs \<Rightarrow> string \<Rightarrow> string option \<Rightarrow> world \<Rightarrow> string + TestivAIConfig" where
  "loadConfig L cwd configPath w =
     (let configFilePath = configFilePathOf cwd configPath
      in if \<not> existsSync w configFilePath then Inr DEFAULT_CONFIG
         else
           (case readFile w configFilePath of
              Inl msg \<Rightarrow> Inl msg
            | Inr configContent \<Rightarrow>
                (case jsonParse L (stripComments configContent) of
                   Inl msg \<Rightarrow> Inl (''Failed to parse testivai.config.json: '' @ msg)
                 | Inr config \<Rightarrow>
                     (case validateConfig config of
                        Inl msg \<Rightarrow> Inl msg
                      | Inr u \<Rightarrow> Inr (asConfig config)))))"

definition getDefaultConfig :: TestivAIConfig where
  "getDefaultConfig = DEFAULT_CONFIG"

section \<open>Comparison engine (core/VRTProcessor.ts)\<close>

datatype ComparisonStatus = Passed | Failed | New | Missing | Error

record ComparisonResult =
  name :: string
  status :: ComparisonStatus
  diffPixelRatio :: real
  diffPixelCount :: nat
  totalPixels :: nat
  baselinePath :: "string option"
  currentPath :: "string option"
  diffPath :: "string option"
  error :: "string option"
  threshold :: real

record VerificationSummary =
  total :: nat
  passed :: nat
  failed :: nat
  new :: nat
  missing :: nat
  errors :: nat
  results :: "ComparisonResult list"
  timestamp :: string

text \<open>
  The functions below run in the file system: they take the world and return the new
  one, with \<open>Inl\<close> the message of a thrown error.
\<close>

definition loadImage :: "libs \<Rightarrow> string \<Rightarrow> world \<Rightarrow> (string + image) \<times> world" where
  "loadImage L imagePath w =
     (case readFile w imagePath of
        Inl msg \<Rightarrow> (Inl msg, w)
      | Inr buffer \<Rightarrow> (pngRead L buffer, w\<lparr>events := events w @ [Decoded imagePath]\<rparr>))"

definition saveImage :: "libs \<Rightarrow> image \<Rightarrow> string \<Rightarrow> world \<Rightarrow> (string + unit) \<times> world" where
  "saveImage L img outputPath w =
     (let buffer = pngWrite L img;
          w1 = w\<lparr>events := events w @ [Encoded outputPath]\<rparr>
      in case ensureDir w1 (path_dirname outputPath) of
           Inl msg \<Rightarrow> (Inl msg, w1)
         | Inr w2 \<Rightarrow>
             (case writeFile w2 outputPath buffer of
                Inl msg \<Rightarrow> (Inl msg, w2)
              | Inr w3 \<Rightarrow> (Inr (), w3)))"

definition dimensionsMessage :: "image \<Rightarrow> image \<Rightarrow> string" where
  "dimensionsMessage b c =
     ''Image dimensions mismatch: baseline ('' @ string_of_nat (img_width b) @ ''x''
       @ string_of_nat (img_height b) @ '') vs current ('' @ string_of_nat (img_width c)
       @ ''x'' @ string_of_nat (img_height c) @ '')''"

text \<open>
  \<^verbatim>\<open>compareImages\<close>. \<^verbatim>\<open>new PNG({ width, height })\<close> allocates four bytes per pixel,
  so the number of pixels of a decoded image is far below \<open>2 ^ 53\<close> and the product
  \<^verbatim>\<open>width * height\<close> is exact.
  The library's \<^verbatim>\<open>pixelmatch\<close> throws only when the three buffers differ in size, which
  two decoded images of equal dimensions and this difference image do not.
\<close>

definition compareImages ::
  "libs \<Rightarrow> string \<Rightarrow> string \<Rightarrow> string \<Rightarrow> real \<Rightarrow> world \<Rightarrow> (string + nat \<times> nat) \<times> world" where
  "compareImages L bPath cPath dPath thr w =
     (case loadImage L bPath w of
        (Inl msg, w1) \<Rightarrow> (Inl msg, w1)
      | (Inr b, w1) \<Rightarrow>
     (case loadImage L cPath w1 of
        (Inl msg, w2) \<Rightarrow> (Inl msg, w2)
      | (Inr c, w2) \<Rightarrow>
     if img_width b \<noteq> img_width c \<or> img_height b \<noteq> img_height c
     then (Inl (dimensionsMessage b c), w2)
     else
       let width = img_width b;
           height = img_height b;
           totalPixels = width * height;
           (diffPixelCount, diffData) =
              pixelmatch L (img_data b) (img_data c) width height
                \<lparr>pm_threshold = thr, pm_includeAA = True, pm_alpha = binary64 0.1,
                 pm_diffColor = (255, 0, 0)\<rparr>;
           diffImage = \<lparr>img_width = width, img_height = height, img_data = diffData\<rparr>;
           w3 = w2\<lparr>events := events w2 @ [PixelCompared dPath]\<rparr>
       in (case saveImage L diffImage dPath w3 of
             (Inl msg, w4) \<Rightarrow> (Inl msg, w4)
           | (Inr u, w4) \<Rightarrow> (Inr (diffPixelCount, totalPixels), w4))))"

text \<open>
  A path argument is \<^verbatim>\<open>string | null\<close>; \<^verbatim>\<open>!p\<close> holds for \<^verbatim>\<open>null\<close> and for the empty
  string, and \<^verbatim>\<open>p || undefined\<close> drops both.
\<close>

definition orUndefined :: "string option \<Rightarrow> string option" where
  "orUndefined p = (case p of None \<Rightarrow> None | Some s \<Rightarrow> if s = [] then None else Some s)"

definition present :: "world \<Rightarrow> string option \<Rightarrow> bool" where
  "present w p = (case orUndefined p of None \<Rightarrow> False | Some s \<Rightarrow> existsSync w s)"

definition missingMessage :: string where
  "missingMessage = ''Current screenshot is missing. Test may have been deleted.''"

definition processComparison ::
  "libs \<Rightarrow> string \<Rightarrow> string option \<Rightarrow> string option \<Rightarrow> string \<Rightarrow> real \<Rightarrow> world
     \<Rightarrow> ComparisonResult \<times> world" where
  "processComparison L nm bPath cPath dPath thr w =
     (let result = \<lparr>name = nm, status = Error, diffPixelRatio = 0, diffPixelCount = 0,
                     totalPixels = 0, baselinePath = None, currentPath = None,
                     diffPath = None, error = None, threshold = thr\<rparr>
      in if \<not> present w bPath
         then (result\<lparr>status := New, currentPath := orUndefined cPath\<rparr>, w)
         else if \<not> present w cPath
         then (result\<lparr>status := Missing, baselinePath := bPath,
                       error := Some missingMessage\<rparr>, w)
         else
           (case (bPath, cPath) of
              (Some b, Some c) \<Rightarrow>
                (let result1 = result\<lparr>baselinePath := Some b, currentPath := Some c,
                                       diffPath := Some dPath\<rparr>
                 in case compareImages L b c dPath thr w of
                      (Inr (cnt, tot), w') \<Rightarrow>
                        (let ratio = (if tot > 0 then numDiv (real cnt) (real tot) else 0)
                         in (result1\<lparr>diffPixelCount := cnt, totalPixels := tot,
                                      diffPixelRatio := ratio,
                                      status := (if ratio \<le> thr then Passed else Failed)\<rparr>,
                             w'))
                    | (Inl msg, w') \<Rightarrow>
                        (result1\<lparr>status := Error, error := Some msg,
                                  baselinePath := orUndefined bPath,
                                  currentPath := orUndefined cPath\<rparr>, w'))
            | _ \<Rightarrow> (result, w)))"

text \<open>
  \<^verbatim>\<open>getScreenshots\<close>: the \<^verbatim>\<open>.png\<close> entries of a directory as a map from snapshot name
  to full path, in the order of the listing.
\<close>

definition addScreenshot :: "string \<Rightarrow> (string \<times> string) list \<Rightarrow> string \<Rightarrow> (string \<times> string) list" where
  "addScreenshot directory screenshots file =
     (if endsWith file ''.png''
      then AList.update (basename_png file) (path_join [directory, file]) screenshots
      else screenshots)"

definition getScreenshots :: "world \<Rightarrow> string \<Rightarrow> string + (string \<times> string) list" where
  "getScreenshots w directory =
     (if \<not> existsSync w directory then Inr []
      else (case readdir w directory of
              Inl msg \<Rightarrow> Inl msg
            | Inr entries \<Rightarrow> Inr (foldl (addScreenshot directory) [] entries)))"

text \<open>\<^verbatim>\<open>new Set([...a, ...b])\<close>: each value once, where it first occurs.\<close>

definition unionNames :: "string list \<Rightarrow> string list \<Rightarrow> string list" where
  "unionNames a b = rev (remdups (rev (a @ b)))"

fun processAll ::
  "libs \<Rightarrow> (string \<times> string) list \<Rightarrow> (string \<times> string) list \<Rightarrow> string \<Rightarrow> real
     \<Rightarrow> string list \<Rightarrow> world \<Rightarrow> ComparisonResult list \<times> world" where
  "processAll L baselines currents diffDir thr [] w = ([], w)"
| "processAll L baselines currents diffDir thr (nm # names) w =
     (let bPath = orUndefined (map_of baselines nm);
          cPath = orUndefined (map_of currents nm);
          dPath = path_join [diffDir, nm @ ''.png''];
          (result, w1) = processComparison L nm bPath cPath dPath thr w;
          (rest, w2) = processAll L baselines currents diffDir thr names w1
      in (result # rest, w2))"

definition countStatus :: "ComparisonStatus \<Rightarrow> ComparisonResult list \<Rightarrow> nat" where
  "countStatus st rs = length (filter (\<lambda>r. status r = st) rs)"

definition summarize :: "ComparisonResult list \<Rightarrow> string \<Rightarrow> VerificationSummary" where
  "summarize rs now = \<lparr>
     total = length rs,
     passed = countStatus Passed rs,
     failed = countStatus Failed rs,
     new = countStatus New rs,
     missing = countStatus Missing rs,
     errors = countStatus Error rs,
     results = rs,
     timestamp = now\<rparr>"

text \<open>
  What \<^verbatim>\<open>runVerification\<close> does before it compares: it loads the configuration, makes
  sure the directory of the difference images exists and scans the two directories.
\<close>

record scanned =
  sc_config :: TestivAIConfig
  sc_diffDir :: string
  sc_baselines :: "(string \<times> string) list"
  sc_currents :: "(string \<times> string) list"
  sc_world :: world

definition scanDirs :: "TestivAIConfig \<Rightarrow> string \<Rightarrow> world \<Rightarrow> string + scanned" where
  "scanDirs config cwd w =
     (let baselineDir = path_join [cwd, baseline (paths config)];
          currentDir = path_join [cwd, current (paths config)];
          diffDir = path_join [cwd, diff (paths config)]
      in case ensureDir w diffDir of
           Inl msg \<Rightarrow> Inl msg
         | Inr w1 \<Rightarrow>
             (case getScreenshots w1 baselineDir of
                Inl msg \<Rightarrow> Inl msg
              | Inr baselines \<Rightarrow>
                  (case getScreenshots w1 currentDir of
                     Inl msg \<Rightarrow> Inl msg
                   | Inr currents \<Rightarrow>
                       Inr \<lparr>sc_config = config, sc_diffDir = diffDir,
                            sc_baselines = baselines, sc_currents = currents,
                            sc_world = w1\<rparr>)))"

definition scan :: "libs \<Rightarrow> string \<Rightarrow> world \<Rightarrow> string + scanned" where
  "scan L cwd w =
     (case loadConfig L cwd None w of
        Inl msg \<Rightarrow> Inl msg
      | Inr config \<Rightarrow> scanDirs config cwd w)"

definition allNamesOf :: "scanned \<Rightarrow> string list" where
  "allNamesOf sc = unionNames (map fst (sc_baselines sc)) (map fst (sc_currents sc))"

text \<open>\<open>now\<close> is \<^verbatim>\<open>new Date().toISOString()\<close> at the end of the run.\<close>

definition runVerification ::
  "libs \<Rightarrow> string \<Rightarrow> string \<Rightarrow> world \<Rightarrow> string + VerificationSummary \<times> world" where
  "runVerification L cwd now w =
     (case scan L cwd w of
        Inl msg \<Rightarrow> Inl msg
      | Inr sc \<Rightarrow>
          (let thr = engineThreshold (visualEngine (sc_config sc));
               (rs, w') = processAll L (sc_baselines sc) (sc_currents sc) (sc_diffDir sc) thr
                            (allNamesOf sc) (sc_world sc)
           in Inr (summarize rs now, w')))"

subsection \<open>A concrete run\<close>

text \<open>
  A toy image format stands for PNG: the first two bytes of a file are width and height,
  the rest is the pixel data. The comparison counts the pixels whose four bytes differ.
  The world has no configuration file; snapshot \<open>a\<close> is in both directories, \<open>b\<close> only
  in the baselines, \<open>c\<close> only in the current screenshots, and the two images of \<open>d\<close>
  have different widths.
\<close>

definition demoPngRead :: "string \<Rightarrow> string + image" where
  "demoPngRead bytes = (case bytes of
       a # b # rest \<Rightarrow> Inr \<lparr>img_width = of_char a, img_height = of_char b, img_data = map of_char rest\<rparr>
     | _ \<Rightarrow> Inl ''Invalid file signature'')"

definition demoPngWrite :: "image \<Rightarrow> string" where
  "demoPngWrite img = char_of (img_width img) # char_of (img_height img) # map char_of (img_data img)"

definition demoPixelmatch :: "nat list \<Rightarrow> nat list \<Rightarrow> nat \<Rightarrow> nat \<Rightarrow> pixelmatchOptions \<Rightarrow> nat \<times> nat list" where
  "demoPixelmatch d1 d2 wd ht opts =
     (length (filter (\<lambda>i. take 4 (drop (4 * i) d1) \<noteq> take 4 (drop (4 * i) d2)) [0..<wd * ht]), d1)"

definition demoLibs :: libs where
  "demoLibs = \<lparr>jsonParse = (\<lambda>s. Inl ''Unexpected token''), pngRead = demoPngRead,
                pngWrite = demoPngWrite, pixelmatch = demoPixelmatch\<rparr>"

definition demoFiles :: "(string \<times> string) list" where
  "demoFiles = [
     (''/w/.testivai/artifacts/baselines/a.png'', [CHR 0x01, CHR 0x02, CHR 0x00, CHR 0x00, CHR 0x00, CHR 0x00, CHR 0x00, CHR 0x00, CHR 0x00, CHR 0x00]),
     (''/w/.testivai/artifacts/current/a.png'', [CHR 0x01, CHR 0x02, CHR 0x00, CHR 0x00, CHR 0x00, CHR 0x00, CHR 0x00, CHR 0x00, CHR 0x00, CHR 0x00]),
     (''/w/.testivai/artifacts/baselines/b.png'', [CHR 0x01, CHR 0x01, CHR 0x00, CHR 0x00, CHR 0x00, CHR 0x00]),
     (''/w/.testivai/artifacts/current/c.png'', [CHR 0x01, CHR 0x01, CHR 0x00, CHR 0x00, CHR 0x00, CHR 0x00]),
     (''/w/.testivai/artifacts/baselines/d.png'', [CHR 0x01, CHR 0x01, CHR 0x00, CHR 0x00, CHR 0x00, CHR 0x00]),
     (''/w/.testivai/artifacts/current/d.png'', [CHR 0x02, CHR 0x01, CHR 0x00, CHR 0x00, CHR 0x00, CHR 0x00, CHR 0x00, CHR 0x00, CHR 0x00, CHR 0x00])]"

definition demoWorld :: world where
  "demoWorld = \<lparr>
     files = map_of demoFiles,
     dirs = {''/w'', ''/w/.testivai/artifacts/baselines'', ''/w/.testivai/artifacts/current''},
     listing = (\<lambda>d. if d = ''/w/.testivai/artifacts/baselines'' then [''a.png'', ''b.png'', ''d.png'', ''notes.txt'']
                     else if d = ''/w/.testivai/artifacts/current'' then [''a.png'', ''c.png'', ''d.png''] else []),
     fault = (\<lambda>op. None),
     events = []\<rparr>"

text \<open>
  \<open>decodes L w p img\<close>: the file at \<open>p\<close> exists, can be read and is decoded to \<open>img\<close>.
  \<open>canWrite w p\<close>: the directory of \<open>p\<close> can be made and the file \<open>p\<close> written.
  \<open>readOnlyDiffs\<close> is the concrete world with the write of one difference image refused.
\<close>

definition decodes :: "libs \<Rightarrow> world \<Rightarrow> string \<Rightarrow> image \<Rightarrow> bool" where
  "decodes L w p img =
     (p \<noteq> [] \<and> (case fault w (OpRead p) of
        Some msg \<Rightarrow> False
      | None \<Rightarrow> (case files w p of None \<Rightarrow> False | Some bytes \<Rightarrow> pngRead L bytes = Inr img)))"

definition canWrite :: "world \<Rightarrow> string \<Rightarrow> bool" where
  "canWrite w p =
     (fault w (OpMkdir (path_dirname p)) = None \<and> files w (path_dirname p) = None
      \<and> fault w (OpWrite p) = None \<and> p \<notin> dirs w \<and> p \<noteq> path_dirname p)"

definition readOnlyDiffs :: world where
  "readOnlyDiffs = demoWorld\<lparr>fault :=
     (\<lambda>op. if op = OpWrite ''/w/.testivai/artifacts/diffs/a.png''
           then Some (''EACCES: permission denied, open ''
                      @ quoted ''/w/.testivai/artifacts/diffs/a.png'')
           else None)\<rparr>"

text \<open>
  In \<open>boundaryWorld\<close> the two images of snapshot \<open>t\<close> are three pixels wide and one high,
  and one pixel differs.
\<close>

definition boundaryWorld :: world where
  "boundaryWorld = \<lparr>
     files = map_of [
       (''/w/.testivai/artifacts/baselines/t.png'',
        [CHR 0x03, CHR 0x01, CHR 0x00, CHR 0x00, CHR 0x00, CHR 0x00, CHR 0x00, CHR 0x00,
         CHR 0x00, CHR 0x00, CHR 0x00, CHR 0x00, CHR 0x00, CHR 0x00]),
       (''/w/.testivai/artifacts/current/t.png'',
        [CHR 0x03, CHR 0x01, CHR 0x01, CHR 0x01, CHR 0x01, CHR 0x01, CHR 0x00, CHR 0x00,
         CHR 0x00, CHR 0x00, CHR 0x00, CHR 0x00, CHR 0x00, CHR 0x00])],
     dirs = {''/w'', ''/w/.testivai/artifacts/baselines'', ''/w/.testivai/artifacts/current''},
     listing = (\<lambda>d. if d = ''/w/.testivai/artifacts/baselines'' then [''t.png'']
                     else if d = ''/w/.testivai/artifacts/current'' then [''t.png''] else []),
     fault = (\<lambda>op. None),
     events = []\<rparr>"

text \<open>
  The loop of \<^verbatim>\<open>runVerification\<close> seen from one of its turns. \<open>loopBody L sc nm w\<close> is
  what the body of the loop does with the name \<open>nm\<close> in the world \<open>w\<close>; \<open>turnWorld L sc i\<close>
  is the world that the bodies of the turns before the \<open>i\<close>-th have left, one after the
  other, and \<open>turnResult L sc i\<close> is what the body makes of the \<open>i\<close>-th name in that
  world. \<open>diffPaths sc names\<close> are the paths of the difference images of \<open>names\<close>.
\<close>

definition loopBody :: "libs \<Rightarrow> scanned \<Rightarrow> string \<Rightarrow> world \<Rightarrow> ComparisonResult \<times> world" where
  "loopBody L sc nm w =
     processComparison L nm
       (orUndefined (map_of (sc_baselines sc) nm)) (orUndefined (map_of (sc_currents sc) nm))
       (path_join [sc_diffDir sc, nm @ ''.png''])
       (engineThreshold (visualEngine (sc_config sc))) w"

definition turnWorld :: "libs \<Rightarrow> scanned \<Rightarrow> nat \<Rightarrow> world" where
  "turnWorld L sc i =
     foldl (\<lambda>w nm. snd (loopBody L sc nm w)) (sc_world sc) (take i (allNamesOf sc))"

definition turnResult :: "libs \<Rightarrow> scanned \<Rightarrow> nat \<Rightarrow> ComparisonResult" where
  "turnResult L sc i = fst (loopBody L sc (allNamesOf sc ! i) (turnWorld L sc i))"

definition diffPaths :: "scanned \<Rightarrow> string list \<Rightarrow> string set" where
  "diffPaths sc names = (\<lambda>nm. path_join [sc_diffDir sc, nm @ ''.png'']) ` set names"

subsection \<open>Properties of the comparison engine\<close>

lemma path_normalize_nonempty: "path_normalize p \<noteq> []"
  by (auto simp: path_normalize_def Let_def)

lemma path_join_nonempty: "path_join args \<noteq> []"
  by (simp add: path_join_def Let_def path_normalize_nonempty)

lemma count_partition:
  "countStatus Passed rs + countStatus Failed rs + countStatus New rs
     + countStatus Missing rs + countStatus Error rs = length rs"
proof (induction rs)
  case Nil
  show ?case by (simp add: countStatus_def)
next
  case (Cons r rs)
  then show ?case by (cases "status r") (simp_all add: countStatus_def)
qed

lemma processComparison_name:
  "name (fst (processComparison L nm bPath cPath dPath thr w)) = nm"
  by (auto simp: processComparison_def Let_def split: option.splits prod.splits sum.splits)

lemma processComparison_threshold:
  "threshold (fst (processComparison L nm bPath cPath dPath thr w)) = thr"
  by (auto simp: processComparison_def Let_def split: option.splits prod.splits sum.splits)

lemma processAll_Cons:
  "processAll L bs cs dd thr (nm # names) w =
     (let pc = processComparison L nm (orUndefined (map_of bs nm)) (orUndefined (map_of cs nm))
                 (path_join [dd, nm @ ''.png'']) thr w;
          pa = processAll L bs cs dd thr names (snd pc)
      in (fst pc # fst pa, snd pa))"
  by (simp add: Let_def case_prod_beta)

lemma processAll_names:
  "map name (fst (processAll L bs cs dd thr names w)) = names"
  by (induction names arbitrary: w)
     (simp_all add: processAll_Cons Let_def processComparison_name del: processAll.simps(2))

lemma processAll_thresholds:
  "\<forall>r \<in> set (fst (processAll L bs cs dd thr names w)). threshold r = thr"
  by (induction names arbitrary: w)
     (simp_all add: processAll_Cons Let_def processComparison_threshold del: processAll.simps(2))

lemma runVerification_of_scan:
  assumes "scan L cwd w = Inr sc"
  shows "runVerification L cwd now w =
     Inr (summarize (fst (processAll L (sc_baselines sc) (sc_currents sc) (sc_diffDir sc)
              (engineThreshold (visualEngine (sc_config sc))) (allNamesOf sc) (sc_world sc))) now,
          snd (processAll L (sc_baselines sc) (sc_currents sc) (sc_diffDir sc)
              (engineThreshold (visualEngine (sc_config sc))) (allNamesOf sc) (sc_world sc)))"
  using assms by (simp add: runVerification_def Let_def case_prod_beta)

lemma runVerification_Inr_scan:
  assumes "runVerification L cwd now w = Inr (s, w')"
  obtains sc where "scan L cwd w = Inr sc"
  using assms by (cases "scan L cwd w") (auto simp: runVerification_def)

text \<open>
  C9. In every summary that \<^verbatim>\<open>runVerification\<close> returns, \<open>total\<close> is the length of the
  result list, each of the five counts is the number of results with that status, and the
  five counts add up to \<open>total\<close>.
\<close>

theorem summary_counts:
  assumes "runVerification L cwd now w = Inr (s, w')"
  shows "total s = length (results s)
       \<and> passed s = length (filter (\<lambda>r. status r = Passed) (results s))
       \<and> failed s = length (filter (\<lambda>r. status r = Failed) (results s))
       \<and> new s = length (filter (\<lambda>r. status r = New) (results s))
       \<and> missing s = length (filter (\<lambda>r. status r = Missing) (results s))
       \<and> errors s = length (filter (\<lambda>r. status r = Error) (results s))
       \<and> passed s + failed s + new s + missing s + errors s = total s"
proof -
  from assms obtain sc where sc: "scan L cwd w = Inr sc" by (rule runVerification_Inr_scan)
  from runVerification_of_scan [OF sc, of now] assms
  obtain rs where s: "s = summarize rs now" by simp
  show ?thesis
    unfolding s using count_partition [of rs] by (simp add: summarize_def countStatus_def)
qed

theorem summary_counts_witness:
  "\<exists>s w'. runVerification demoLibs ''/w'' ''now'' demoWorld = Inr (s, w')
     \<and> map status (results s) = [Passed, Missing, Error, New]
     \<and> total s = 4 \<and> passed s = 1 \<and> failed s = 0 \<and> new s = 1 \<and> missing s = 1
     \<and> errors s = 1 \<and> passed s + failed s + new s + missing s + errors s = total s"
proof -
  have "\<not> isl (runVerification demoLibs ''/w'' ''now'' demoWorld)" by code_simp
  then obtain s w' where run: "runVerification demoLibs ''/w'' ''now'' demoWorld = Inr (s, w')"
    by (cases "runVerification demoLibs ''/w'' ''now'' demoWorld") auto
  have "(case runVerification demoLibs ''/w'' ''now'' demoWorld of
           Inl m \<Rightarrow> [] | Inr (s, w') \<Rightarrow> map status (results s))
        = [Passed, Missing, Error, New]"
    by code_simp
  then have st: "map status (results s) = [Passed, Missing, Error, New]"
    by (simp add: run)
  have "length (map status (results s)) = length [Passed, Missing, Error, New]"
    by (simp only: st)
  then have len: "length (results s) = 4" by simp
  have cnt: "length (filter (\<lambda>r. status r = x) (results s))
             = length (filter (\<lambda>y. y = x) (map status (results s)))" for x
    by (simp add: filter_map comp_def)
  from summary_counts [OF run] show ?thesis
    using run st len by (simp add: cnt)
qed

lemma processComparison_new:
  "\<not> present w bPath \<Longrightarrow>
   processComparison L nm bPath cPath dPath thr w =
     (\<lparr>name = nm, status = New, diffPixelRatio = 0, diffPixelCount = 0, totalPixels = 0,
       baselinePath = None, currentPath = orUndefined cPath, diffPath = None, error = None,
       threshold = thr\<rparr>, w)"
  by (simp add: processComparison_def)

lemma processComparison_missing:
  "present w bPath \<Longrightarrow> \<not> present w cPath \<Longrightarrow>
   processComparison L nm bPath cPath dPath thr w =
     (\<lparr>name = nm, status = Missing, diffPixelRatio = 0, diffPixelCount = 0, totalPixels = 0,
       baselinePath = bPath, currentPath = None, diffPath = None,
       error = Some missingMessage, threshold = thr\<rparr>, w)"
  by (simp add: processComparison_def)

lemma existsSync_events [simp]: "existsSync (w\<lparr>events := e\<rparr>) p = existsSync w p"
  by (simp add: existsSync_def)

lemma existsSync_ensureDir:
  "ensureDir w d = Inr w' \<Longrightarrow> existsSync w p \<Longrightarrow> existsSync w' p"
  by (auto simp: ensureDir_def existsSync_def split: option.splits if_splits)

lemma existsSync_writeFile:
  "writeFile w f b = Inr w' \<Longrightarrow> existsSync w p \<Longrightarrow> existsSync w' p"
  by (auto simp: writeFile_def existsSync_def split: option.splits if_splits)

lemma existsSync_loadImage:
  "existsSync w p \<Longrightarrow> existsSync (snd (loadImage L f w)) p"
  by (auto simp: loadImage_def split: sum.splits)

lemma existsSync_saveImage:
  "existsSync w p \<Longrightarrow> existsSync (snd (saveImage L img f w)) p"
  by (auto simp: saveImage_def Let_def split: sum.splits
           dest: existsSync_ensureDir existsSync_writeFile)

lemma existsSync_compareImages:
  assumes "existsSync w p"
  shows "existsSync (snd (compareImages L b c d thr w)) p"
proof -
  obtain rb w1 where lb: "loadImage L b w = (rb, w1)" by (cases "loadImage L b w") auto
  have e1: "existsSync w1 p" using existsSync_loadImage [OF assms, of L b] lb by simp
  obtain rc w2 where lc: "loadImage L c w1 = (rc, w2)" by (cases "loadImage L c w1") auto
  have e2: "existsSync w2 p" using existsSync_loadImage [OF e1, of L c] lc by simp
  show ?thesis
  proof (cases rb)
    case (Inl m)
    then show ?thesis using lb e1 by (simp add: compareImages_def)
  next
    case (Inr bi)
    note rb = this
    show ?thesis
    proof (cases rc)
      case (Inl m)
      then show ?thesis using lb lc rb e2 by (simp add: compareImages_def)
    next
      case (Inr ci)
      show ?thesis
        using lb lc rb Inr e2
          existsSync_saveImage [of "w2\<lparr>events := events w2 @ [PixelCompared d]\<rparr>" p]
        by (auto simp: compareImages_def Let_def case_prod_beta split: sum.splits prod.splits)
    qed
  qed
qed

lemma existsSync_processComparison:
  "existsSync w p \<Longrightarrow> existsSync (snd (processComparison L nm bPath cPath dPath thr w)) p"
  using existsSync_compareImages [of w p L _ _ dPath thr]
  by (auto simp: processComparison_def Let_def split: option.splits prod.splits sum.splits)
     (metis snd_conv)+

lemma existsSync_processAll:
  "existsSync w p \<Longrightarrow> existsSync (snd (processAll L bs cs dd thr names w)) p"
  by (induction names arbitrary: w)
     (simp_all add: processAll_Cons Let_def existsSync_processComparison
        del: processAll.simps(2))

lemma orUndefined_Some: "p \<noteq> [] \<Longrightarrow> orUndefined (Some p) = Some p"
  by (simp add: orUndefined_def)

lemma present_Some: "p \<noteq> [] \<Longrightarrow> present w (Some p) = existsSync w p"
  by (simp add: present_def orUndefined_def)

lemma present_None: "\<not> present w (orUndefined None)"
  by (simp add: present_def orUndefined_def)

lemma orUndefined_idem: "orUndefined (orUndefined p) = orUndefined p"
  by (simp add: orUndefined_def split: option.splits)

text \<open>The decision table along the loop, for maps whose paths are not empty.\<close>

lemma processAll_decisions:
  assumes ne: "\<And>n p. map_of bs n = Some p \<Longrightarrow> p \<noteq> []"
  shows "\<forall>r \<in> set (fst (processAll L bs cs dd thr names w)).
           (map_of bs (name r) = None \<longrightarrow>
              status r = New \<and> currentPath r = orUndefined (map_of cs (name r))
              \<and> baselinePath r = None \<and> diffPath r = None)
         \<and> (\<forall>bp. map_of bs (name r) = Some bp \<and> existsSync w bp
                  \<and> map_of cs (name r) = None \<longrightarrow>
              status r = Missing \<and> error r = Some missingMessage
              \<and> baselinePath r = Some bp \<and> currentPath r = None \<and> diffPath r = None)"
proof (induction names arbitrary: w)
  case Nil
  show ?case by simp
next
  case (Cons nm names)
  define pc where "pc = processComparison L nm (orUndefined (map_of bs nm))
                 (orUndefined (map_of cs nm)) (path_join [dd, nm @ ''.png'']) thr w"
  have nm: "name (fst pc) = nm" by (simp add: pc_def processComparison_name)
  have hd1: "status (fst pc) = New \<and> currentPath (fst pc) = orUndefined (map_of cs nm)
             \<and> baselinePath (fst pc) = None \<and> diffPath (fst pc) = None"
    if "map_of bs nm = None"
    using processComparison_new [of w "orUndefined None" L nm "orUndefined (map_of cs nm)"] that
    by (simp add: pc_def present_None orUndefined_idem)
  have hd2: "status (fst pc) = Missing \<and> error (fst pc) = Some missingMessage
             \<and> baselinePath (fst pc) = Some bp \<and> currentPath (fst pc) = None
             \<and> diffPath (fst pc) = None"
    if "map_of bs nm = Some bp" "existsSync w bp" "map_of cs nm = None" for bp
    using processComparison_missing [of w "Some bp" "orUndefined None" L nm] that ne [OF that(1)]
    by (simp add: pc_def present_None present_Some orUndefined_Some)
  have tl: "\<forall>r \<in> set (fst (processAll L bs cs dd thr names (snd pc))).
           (map_of bs (name r) = None \<longrightarrow>
              status r = New \<and> currentPath r = orUndefined (map_of cs (name r))
              \<and> baselinePath r = None \<and> diffPath r = None)
         \<and> (\<forall>bp. map_of bs (name r) = Some bp \<and> existsSync w bp
                  \<and> map_of cs (name r) = None \<longrightarrow>
              status r = Missing \<and> error r = Some missingMessage
              \<and> baselinePath r = Some bp \<and> currentPath r = None \<and> diffPath r = None)"
    using Cons.IH [of "snd pc"] existsSync_processComparison [of w _ L nm]
    unfolding pc_def by blast
  have unfold: "fst (processAll L bs cs dd thr (nm # names) w)
                = fst pc # fst (processAll L bs cs dd thr names (snd pc))"
    by (simp add: processAll_Cons Let_def pc_def del: processAll.simps(2))
  show ?case
    unfolding unfold using hd1 hd2 tl nm by auto
qed


lemma foldl_addScreenshot_nonempty:
  "(\<And>n p. map_of acc n = Some p \<Longrightarrow> p \<noteq> []) \<Longrightarrow>
   map_of (foldl (addScreenshot d) acc es) n = Some p \<Longrightarrow> p \<noteq> []"
proof (induction es arbitrary: acc)
  case Nil
  then show ?case by simp
next
  case (Cons e es)
  have "\<And>n p. map_of (addScreenshot d acc e) n = Some p \<Longrightarrow> p \<noteq> []"
    using Cons.prems(1)
    by (auto simp: addScreenshot_def update_conv' path_join_nonempty split: if_splits)
  then show ?case using Cons.IH [of "addScreenshot d acc e"] Cons.prems(2) by simp
qed

lemma getScreenshots_nonempty:
  "getScreenshots w d = Inr m \<Longrightarrow> map_of m n = Some p \<Longrightarrow> p \<noteq> []"
  using foldl_addScreenshot_nonempty [of "[]" d _ n p]
  by (auto simp: getScreenshots_def split: if_splits sum.splits)

lemma scan_facts:
  assumes "scan L cwd w = Inr sc"
  shows "map_of (sc_baselines sc) n = Some p \<Longrightarrow> p \<noteq> []"
    and "map_of (sc_currents sc) n = Some p \<Longrightarrow> p \<noteq> []"
    and "existsSync w p \<Longrightarrow> existsSync (sc_world sc) p"
  using assms
  by (auto simp: scan_def scanDirs_def Let_def split: sum.splits
           dest: getScreenshots_nonempty existsSync_ensureDir)

lemma set_unionNames: "set (unionNames a b) = set a \<union> set b"
  by (auto simp: unionNames_def)

text \<open>
  C4. The decision table of \<^verbatim>\<open>processComparison\<close>, in its order. Without a baseline
  file the result is \<open>new\<close> with the current path recorded; with a baseline file and
  without a current file it is \<open>missing\<close>, with the message that the current screenshot
  is missing and the baseline path recorded. In both cases the world is returned as it
  was: the image libraries are called (the world's \<open>events\<close> grow) only when both files
  exist. In \<^verbatim>\<open>runVerification\<close> the results are those of the names found in the two
  directories, each once: a name that the scan of the baselines did not find is \<open>new\<close>,
  never \<open>passed\<close> or \<open>failed\<close>, and a name with an existing baseline that the scan of
  the current screenshots did not find is \<open>missing\<close>.
\<close>

theorem decision_table_new_missing:
  "(\<not> present w bPath \<longrightarrow>
      processComparison L nm bPath cPath dPath thr w =
        (\<lparr>name = nm, status = New, diffPixelRatio = 0, diffPixelCount = 0, totalPixels = 0,
          baselinePath = None, currentPath = orUndefined cPath, diffPath = None,
          error = None, threshold = thr\<rparr>, w))
   \<and> (present w bPath \<and> \<not> present w cPath \<longrightarrow>
      processComparison L nm bPath cPath dPath thr w =
        (\<lparr>name = nm, status = Missing, diffPixelRatio = 0, diffPixelCount = 0,
          totalPixels = 0, baselinePath = bPath, currentPath = None, diffPath = None,
          error = Some ''Current screenshot is missing. Test may have been deleted.'',
          threshold = thr\<rparr>, w))
   \<and> (events (snd (processComparison L nm bPath cPath dPath thr w)) \<noteq> events w \<longrightarrow>
      present w bPath \<and> present w cPath)
   \<and> (scan L cwd w0 = Inr sc \<longrightarrow>
      (\<exists>s w'. runVerification L cwd now w0 = Inr (s, w')
         \<and> map name (results s) = allNamesOf sc
         \<and> set (allNamesOf sc) = fst ` set (sc_baselines sc) \<union> fst ` set (sc_currents sc)
         \<and> (\<forall>r \<in> set (results s).
              (map_of (sc_baselines sc) (name r) = None \<longrightarrow>
                 status r = New \<and> currentPath r \<noteq> None
                 \<and> currentPath r = map_of (sc_currents sc) (name r))
            \<and> (\<forall>bp. map_of (sc_baselines sc) (name r) = Some bp \<and> existsSync w0 bp
                     \<and> map_of (sc_currents sc) (name r) = None \<longrightarrow>
                 status r = Missing \<and> baselinePath r = Some bp
                 \<and> error r = Some ''Current screenshot is missing. Test may have been deleted.''))))"
proof (intro conjI impI)
  assume "\<not> present w bPath"
  then show "processComparison L nm bPath cPath dPath thr w =
        (\<lparr>name = nm, status = New, diffPixelRatio = 0, diffPixelCount = 0, totalPixels = 0,
          baselinePath = None, currentPath = orUndefined cPath, diffPath = None,
          error = None, threshold = thr\<rparr>, w)"
    by (rule processComparison_new)
next
  assume "present w bPath \<and> \<not> present w cPath"
  then show "processComparison L nm bPath cPath dPath thr w =
        (\<lparr>name = nm, status = Missing, diffPixelRatio = 0, diffPixelCount = 0,
          totalPixels = 0, baselinePath = bPath, currentPath = None, diffPath = None,
          error = Some ''Current screenshot is missing. Test may have been deleted.'',
          threshold = thr\<rparr>, w)"
    using processComparison_missing [of w bPath cPath L nm dPath thr]
    by (simp add: missingMessage_def)
next
  assume ev: "events (snd (processComparison L nm bPath cPath dPath thr w)) \<noteq> events w"
  have b: "present w bPath"
  proof (rule ccontr)
    assume "\<not> present w bPath"
    then have "snd (processComparison L nm bPath cPath dPath thr w) = w"
      by (simp add: processComparison_new)
    with ev show False by simp
  qed
  have c: "present w cPath"
  proof (rule ccontr)
    assume "\<not> present w cPath"
    with b have "snd (processComparison L nm bPath cPath dPath thr w) = w"
      by (simp add: processComparison_missing)
    with ev show False by simp
  qed
  from b show "present w bPath" .
  from c show "present w cPath" .
next
  assume sc: "scan L cwd w0 = Inr sc"
  let ?thr = "engineThreshold (visualEngine (sc_config sc))"
  let ?pa = "processAll L (sc_baselines sc) (sc_currents sc) (sc_diffDir sc) ?thr
               (allNamesOf sc) (sc_world sc)"
  have run: "runVerification L cwd now w0 = Inr (summarize (fst ?pa) now, snd ?pa)"
    by (rule runVerification_of_scan [OF sc])
  have names: "map name (fst ?pa) = allNamesOf sc" by (rule processAll_names)
  have keys: "set (allNamesOf sc) = fst ` set (sc_baselines sc) \<union> fst ` set (sc_currents sc)"
    by (simp add: allNamesOf_def set_unionNames)
  have dec: "\<forall>r \<in> set (fst ?pa).
           (map_of (sc_baselines sc) (name r) = None \<longrightarrow>
              status r = New \<and> currentPath r = orUndefined (map_of (sc_currents sc) (name r))
              \<and> baselinePath r = None \<and> diffPath r = None)
         \<and> (\<forall>bp. map_of (sc_baselines sc) (name r) = Some bp \<and> existsSync (sc_world sc) bp
                  \<and> map_of (sc_currents sc) (name r) = None \<longrightarrow>
              status r = Missing \<and> error r = Some missingMessage
              \<and> baselinePath r = Some bp \<and> currentPath r = None \<and> diffPath r = None)"
    by (rule processAll_decisions) (rule scan_facts(1) [OF sc])
  have each: "(map_of (sc_baselines sc) (name r) = None \<longrightarrow>
                 status r = New \<and> currentPath r \<noteq> None
                 \<and> currentPath r = map_of (sc_currents sc) (name r))
            \<and> (\<forall>bp. map_of (sc_baselines sc) (name r) = Some bp \<and> existsSync w0 bp
                     \<and> map_of (sc_currents sc) (name r) = None \<longrightarrow>
                 status r = Missing \<and> baselinePath r = Some bp
                 \<and> error r = Some ''Current screenshot is missing. Test may have been deleted.'')"
    if r: "r \<in> set (fst ?pa)" for r
  proof (intro conjI impI allI)
    assume none: "map_of (sc_baselines sc) (name r) = None"
    have "name r \<in> set (allNamesOf sc)" using r names by (metis image_eqI set_map)
    moreover have "name r \<notin> fst ` set (sc_baselines sc)"
      using none by (simp add: map_of_eq_None_iff)
    ultimately have "name r \<in> fst ` set (sc_currents sc)" using keys by auto
    then obtain cp where cp: "map_of (sc_currents sc) (name r) = Some cp"
      by (cases "map_of (sc_currents sc) (name r)") (auto simp: map_of_eq_None_iff)
    then have "cp \<noteq> []" by (rule scan_facts(2) [OF sc])
    then have ou: "orUndefined (map_of (sc_currents sc) (name r)) = Some cp"
      by (simp add: cp orUndefined_Some)
    from dec r none show "status r = New" by blast
    from dec r none ou show "currentPath r \<noteq> None" by auto
    from dec r none ou cp show "currentPath r = map_of (sc_currents sc) (name r)" by auto
  next
    fix bp
    assume h: "map_of (sc_baselines sc) (name r) = Some bp \<and> existsSync w0 bp
                     \<and> map_of (sc_currents sc) (name r) = None"
    then have "existsSync (sc_world sc) bp" using scan_facts(3) [OF sc] by blast
    with dec r h have m: "status r = Missing \<and> error r = Some missingMessage
              \<and> baselinePath r = Some bp" by blast
    from m show "status r = Missing" by simp
    from m show "baselinePath r = Some bp" by simp
    from m show "error r = Some ''Current screenshot is missing. Test may have been deleted.''"
      by (simp add: missingMessage_def)
  qed
  have res: "results (summarize (fst ?pa) now) = fst ?pa" by (simp add: summarize_def)
  show "\<exists>s w'. runVerification L cwd now w0 = Inr (s, w')
         \<and> map name (results s) = allNamesOf sc
         \<and> set (allNamesOf sc) = fst ` set (sc_baselines sc) \<union> fst ` set (sc_currents sc)
         \<and> (\<forall>r \<in> set (results s).
              (map_of (sc_baselines sc) (name r) = None \<longrightarrow>
                 status r = New \<and> currentPath r \<noteq> None
                 \<and> currentPath r = map_of (sc_currents sc) (name r))
            \<and> (\<forall>bp. map_of (sc_baselines sc) (name r) = Some bp \<and> existsSync w0 bp
                     \<and> map_of (sc_currents sc) (name r) = None \<longrightarrow>
                 status r = Missing \<and> baselinePath r = Some bp
                 \<and> error r = Some ''Current screenshot is missing. Test may have been deleted.''))"
  proof (intro exI conjI)
    show "runVerification L cwd now w0 = Inr (summarize (fst ?pa) now, snd ?pa)"
      by (rule run)
    show "map name (results (summarize (fst ?pa) now)) = allNamesOf sc"
      unfolding res by (rule names)
    show "set (allNamesOf sc) = fst ` set (sc_baselines sc) \<union> fst ` set (sc_currents sc)"
      by (rule keys)
    show "\<forall>r \<in> set (results (summarize (fst ?pa) now)).
              (map_of (sc_baselines sc) (name r) = None \<longrightarrow>
                 status r = New \<and> currentPath r \<noteq> None
                 \<and> currentPath r = map_of (sc_currents sc) (name r))
            \<and> (\<forall>bp. map_of (sc_baselines sc) (name r) = Some bp \<and> existsSync w0 bp
                     \<and> map_of (sc_currents sc) (name r) = None \<longrightarrow>
                 status r = Missing \<and> baselinePath r = Some bp
                 \<and> error r = Some ''Current screenshot is missing. Test may have been deleted.'')"
      unfolding res using each by blast
  qed
qed


theorem decision_table_new_missing_witness:
  "processComparison demoLibs ''c'' None (Some ''/w/.testivai/artifacts/current/c.png'')
      ''/w/.testivai/artifacts/diffs/c.png'' (1/10) demoWorld =
        (\<lparr>name = ''c'', status = New, diffPixelRatio = 0, diffPixelCount = 0, totalPixels = 0,
          baselinePath = None, currentPath = Some ''/w/.testivai/artifacts/current/c.png'',
          diffPath = None, error = None, threshold = 1/10\<rparr>, demoWorld)
   \<and> processComparison demoLibs ''b'' (Some ''/w/.testivai/artifacts/baselines/b.png'') None
      ''/w/.testivai/artifacts/diffs/b.png'' (1/10) demoWorld =
        (\<lparr>name = ''b'', status = Missing, diffPixelRatio = 0, diffPixelCount = 0,
          totalPixels = 0, baselinePath = Some ''/w/.testivai/artifacts/baselines/b.png'',
          currentPath = None, diffPath = None,
          error = Some ''Current screenshot is missing. Test may have been deleted.'',
          threshold = 1/10\<rparr>, demoWorld)
   \<and> present demoWorld (Some ''/w/.testivai/artifacts/baselines/a.png'')
   \<and> present demoWorld (Some ''/w/.testivai/artifacts/current/a.png'')
   \<and> (\<exists>s w'. runVerification demoLibs ''/w'' ''now'' demoWorld = Inr (s, w')
         \<and> map name (results s) = [''a'', ''b'', ''d'', ''c''])"
proof -
  have h1: "\<not> present demoWorld None" by (simp add: present_def orUndefined_def)
  have h2: "present demoWorld (Some ''/w/.testivai/artifacts/baselines/b.png'')
            \<and> \<not> present demoWorld None"
    using h1 by code_simp
  have h3: "events (snd (processComparison demoLibs ''a''
               (Some ''/w/.testivai/artifacts/baselines/a.png'')
               (Some ''/w/.testivai/artifacts/current/a.png'')
               ''/w/.testivai/artifacts/diffs/a.png'' (1/10) demoWorld)) \<noteq> events demoWorld"
    by code_simp
  have "\<not> isl (scan demoLibs ''/w'' demoWorld)" by code_simp
  then have h4: "scan demoLibs ''/w'' demoWorld = Inr (projr (scan demoLibs ''/w'' demoWorld))"
    by simp
  have names: "allNamesOf (projr (scan demoLibs ''/w'' demoWorld)) = [''a'', ''b'', ''d'', ''c'']"
    by code_simp
  have ou: "orUndefined (Some ''/w/.testivai/artifacts/current/c.png'')
            = Some ''/w/.testivai/artifacts/current/c.png''"
    by (simp add: orUndefined_def)
  note T = decision_table_new_missing
  from T [of demoWorld None demoLibs "''c''" "Some ''/w/.testivai/artifacts/current/c.png''"
            "''/w/.testivai/artifacts/diffs/c.png''" "1/10"] h1 ou
  have c1: "processComparison demoLibs ''c'' None (Some ''/w/.testivai/artifacts/current/c.png'')
      ''/w/.testivai/artifacts/diffs/c.png'' (1/10) demoWorld =
        (\<lparr>name = ''c'', status = New, diffPixelRatio = 0, diffPixelCount = 0, totalPixels = 0,
          baselinePath = None, currentPath = Some ''/w/.testivai/artifacts/current/c.png'',
          diffPath = None, error = None, threshold = 1/10\<rparr>, demoWorld)"
    by simp
  from T [of demoWorld "Some ''/w/.testivai/artifacts/baselines/b.png''" demoLibs "''b''" None
            "''/w/.testivai/artifacts/diffs/b.png''" "1/10"] h2
  have c2: "processComparison demoLibs ''b'' (Some ''/w/.testivai/artifacts/baselines/b.png'') None
      ''/w/.testivai/artifacts/diffs/b.png'' (1/10) demoWorld =
        (\<lparr>name = ''b'', status = Missing, diffPixelRatio = 0, diffPixelCount = 0,
          totalPixels = 0, baselinePath = Some ''/w/.testivai/artifacts/baselines/b.png'',
          currentPath = None, diffPath = None,
          error = Some ''Current screenshot is missing. Test may have been deleted.'',
          threshold = 1/10\<rparr>, demoWorld)"
    by blast
  from T [of demoWorld "Some ''/w/.testivai/artifacts/baselines/a.png''" demoLibs "''a''"
            "Some ''/w/.testivai/artifacts/current/a.png''"
            "''/w/.testivai/artifacts/diffs/a.png''" "1/10"] h3
  have c3: "present demoWorld (Some ''/w/.testivai/artifacts/baselines/a.png'')
            \<and> present demoWorld (Some ''/w/.testivai/artifacts/current/a.png'')"
    by blast
  from T [of _ _ demoLibs _ _ _ _ "''/w''" demoWorld "projr (scan demoLibs ''/w'' demoWorld)"
            "''now''"] h4
  have c4: "\<exists>s w'. runVerification demoLibs ''/w'' ''now'' demoWorld = Inr (s, w')
         \<and> map name (results s) = allNamesOf (projr (scan demoLibs ''/w'' demoWorld))"
    by blast
  from c1 c2 c3 c4 show ?thesis by (simp only: names)
qed

lemma decodes_present: "decodes L w p img \<Longrightarrow> present w (Some p)"
  by (auto simp: decodes_def present_def orUndefined_def existsSync_def split: option.splits)

lemma decodes_loadImage:
  "decodes L w p img \<Longrightarrow> loadImage L p w = (Inr img, w\<lparr>events := events w @ [Decoded p]\<rparr>)"
  by (auto simp: decodes_def loadImage_def readFile_def split: option.splits)

lemma decodes_events [simp]: "decodes L (w\<lparr>events := e\<rparr>) p img = decodes L w p img"
  by (auto simp: decodes_def split: option.splits)

lemma canWrite_saveImage:
  "canWrite w p \<Longrightarrow> fst (saveImage L img p w) = Inr ()"
  by (auto simp: canWrite_def saveImage_def ensureDir_def writeFile_def Let_def
           split: option.splits)

lemma canWrite_events [simp]: "canWrite (w\<lparr>events := e\<rparr>) p = canWrite w p"
  by (simp add: canWrite_def)

lemma compareImages_equal_dims:
  assumes b: "decodes L w b bi" and c: "decodes L w c ci"
    and dims: "img_width bi = img_width ci" "img_height bi = img_height ci"
    and wr: "canWrite w d"
  shows "fst (compareImages L b c d thr w) =
           Inr (fst (pixelmatch L (img_data bi) (img_data ci) (img_width bi) (img_height bi)
                      \<lparr>pm_threshold = thr, pm_includeAA = True, pm_alpha = binary64 0.1,
                       pm_diffColor = (255, 0, 0)\<rparr>),
                img_width bi * img_height bi)"
proof -
  let ?w1 = "w\<lparr>events := events w @ [Decoded b]\<rparr>"
  let ?w2 = "?w1\<lparr>events := events ?w1 @ [Decoded c]\<rparr>"
  let ?w3 = "?w2\<lparr>events := events ?w2 @ [PixelCompared d]\<rparr>"
  have l1: "loadImage L b w = (Inr bi, ?w1)" by (rule decodes_loadImage [OF b])
  have "decodes L ?w1 c ci" using c by simp
  then have l2: "loadImage L c ?w1 = (Inr ci, ?w2)" by (rule decodes_loadImage)
  have "canWrite ?w3 d" using wr by simp
  then have sv: "fst (saveImage L img d ?w3) = Inr ()" for img by (rule canWrite_saveImage)
  obtain cnt dd where pm: "pixelmatch L (img_data bi) (img_data ci) (img_width bi) (img_height bi)
                      \<lparr>pm_threshold = thr, pm_includeAA = True, pm_alpha = binary64 0.1,
                       pm_diffColor = (255, 0, 0)\<rparr> = (cnt, dd)"
    by (cases "pixelmatch L (img_data bi) (img_data ci) (img_width bi) (img_height bi)
                      \<lparr>pm_threshold = thr, pm_includeAA = True, pm_alpha = binary64 0.1,
                       pm_diffColor = (255, 0, 0)\<rparr>") auto
  obtain u w4 where s4: "saveImage L \<lparr>img_width = img_width bi, img_height = img_height bi,
                            img_data = dd\<rparr> d ?w3 = (Inr u, w4)"
    using sv [of "\<lparr>img_width = img_width bi, img_height = img_height bi, img_data = dd\<rparr>"]
    by (cases "saveImage L \<lparr>img_width = img_width bi, img_height = img_height bi,
                            img_data = dd\<rparr> d ?w3") auto
  show ?thesis
    using dims pm s4 by (simp add: compareImages_def l1 l2 Let_def)
qed

lemma compareImages_mismatch:
  assumes b: "decodes L w b bi" and c: "decodes L w c ci"
    and dims: "img_width bi \<noteq> img_width ci \<or> img_height bi \<noteq> img_height ci"
  shows "fst (compareImages L b c d thr w) = Inl (dimensionsMessage bi ci)"
proof -
  let ?w1 = "w\<lparr>events := events w @ [Decoded b]\<rparr>"
  let ?w2 = "?w1\<lparr>events := events ?w1 @ [Decoded c]\<rparr>"
  have l1: "loadImage L b w = (Inr bi, ?w1)" by (rule decodes_loadImage [OF b])
  have "decodes L ?w1 c ci" using c by simp
  then have l2: "loadImage L c ?w1 = (Inr ci, ?w2)" by (rule decodes_loadImage)
  show ?thesis
    using dims by (auto simp: compareImages_def l1 l2)
qed

lemma processComparison_compare:
  assumes "present w (Some b)" "present w (Some c)"
  shows "fst (processComparison L nm (Some b) (Some c) d thr w) =
     (case fst (compareImages L b c d thr w) of
        Inr (cnt, tot) \<Rightarrow>
          \<lparr>name = nm, status = (if (if tot > 0 then numDiv (real cnt) (real tot) else 0) \<le> thr
                                 then Passed else Failed),
           diffPixelRatio = (if tot > 0 then numDiv (real cnt) (real tot) else 0),
           diffPixelCount = cnt, totalPixels = tot, baselinePath = Some b,
           currentPath = Some c, diffPath = Some d, error = None, threshold = thr\<rparr>
      | Inl msg \<Rightarrow>
          \<lparr>name = nm, status = Error, diffPixelRatio = 0, diffPixelCount = 0, totalPixels = 0,
           baselinePath = orUndefined (Some b), currentPath = orUndefined (Some c),
           diffPath = Some d, error = Some msg, threshold = thr\<rparr>)"
  using assms
  by (cases "compareImages L b c d thr w")
     (auto simp: processComparison_def Let_def split: sum.splits prod.splits)


text \<open>
  C5 (amended). When the baseline and the current file both exist and decode to images of
  equal dimensions, and the difference image can be written, the result has
  \<open>totalPixels = width * height\<close>, \<open>diffPixelCount\<close> is what \<^verbatim>\<open>pixelmatch\<close> counted,
  \<open>diffPixelRatio\<close> is the quotient \<^verbatim>\<open>diffPixelCount / totalPixels\<close> as JavaScript
  computes it, the double nearest to the exact quotient (0 when \<open>totalPixels = 0\<close>), and
  the status is \<open>passed\<close> exactly when \<open>diffPixelRatio \<le> threshold\<close>, otherwise
  \<open>failed\<close>; a ratio equal to the threshold is \<open>passed\<close>.
\<close>

theorem ratio_and_threshold_classification:
  assumes "decodes L w b bi" and "decodes L w c ci"
    and "img_width bi = img_width ci" and "img_height bi = img_height ci"
    and "canWrite w d"
    and "r = fst (processComparison L nm (Some b) (Some c) d thr w)"
  shows "totalPixels r = img_width bi * img_height bi
       \<and> diffPixelCount r = fst (pixelmatch L (img_data bi) (img_data ci) (img_width bi)
            (img_height bi) \<lparr>pm_threshold = thr, pm_includeAA = True, pm_alpha = binary64 0.1,
                             pm_diffColor = (255, 0, 0)\<rparr>)
       \<and> diffPixelRatio r = (if totalPixels r = 0 then 0
                             else binary64 (real (diffPixelCount r) / real (totalPixels r)))
       \<and> (status r = Passed \<longleftrightarrow> diffPixelRatio r \<le> thr)
       \<and> (status r = Failed \<longleftrightarrow> \<not> diffPixelRatio r \<le> thr)
       \<and> (diffPixelRatio r = thr \<longrightarrow> status r = Passed)
       \<and> threshold r = thr"
proof -
  have pb: "present w (Some b)" and pc: "present w (Some c)"
    using assms(1,2) by (auto dest: decodes_present)
  show ?thesis
    unfolding assms(6) processComparison_compare [OF pb pc]
      compareImages_equal_dims [OF assms(1-5)]
    by (simp add: numDiv_def)
qed

theorem ratio_and_threshold_classification_witness:
  "decodes demoLibs boundaryWorld ''/w/.testivai/artifacts/baselines/t.png''
     \<lparr>img_width = 3, img_height = 1, img_data = [0, 0, 0, 0, 0, 0, 0, 0, 0, 0, 0, 0]\<rparr>
   \<and> decodes demoLibs boundaryWorld ''/w/.testivai/artifacts/current/t.png''
     \<lparr>img_width = 3, img_height = 1, img_data = [1, 1, 1, 1, 0, 0, 0, 0, 0, 0, 0, 0]\<rparr>
   \<and> canWrite boundaryWorld ''/w/.testivai/artifacts/diffs/t.png''
   \<and> diffPixelCount (fst (processComparison demoLibs ''t''
        (Some ''/w/.testivai/artifacts/baselines/t.png'')
        (Some ''/w/.testivai/artifacts/current/t.png'')
        ''/w/.testivai/artifacts/diffs/t.png'' (binary64 0.3333333333333333) boundaryWorld)) = 1
   \<and> totalPixels (fst (processComparison demoLibs ''t''
        (Some ''/w/.testivai/artifacts/baselines/t.png'')
        (Some ''/w/.testivai/artifacts/current/t.png'')
        ''/w/.testivai/artifacts/diffs/t.png'' (binary64 0.3333333333333333) boundaryWorld)) = 3
   \<and> diffPixelRatio (fst (processComparison demoLibs ''t''
        (Some ''/w/.testivai/artifacts/baselines/t.png'')
        (Some ''/w/.testivai/artifacts/current/t.png'')
        ''/w/.testivai/artifacts/diffs/t.png'' (binary64 0.3333333333333333) boundaryWorld))
       = 6004799503160661 / 18014398509481984
   \<and> binary64 0.3333333333333333 = 6004799503160661 / 18014398509481984
   \<and> status (fst (processComparison demoLibs ''t''
        (Some ''/w/.testivai/artifacts/baselines/t.png'')
        (Some ''/w/.testivai/artifacts/current/t.png'')
        ''/w/.testivai/artifacts/diffs/t.png'' (binary64 0.3333333333333333) boundaryWorld))
       = Passed
   \<and> status (fst (processComparison demoLibs ''t''
        (Some ''/w/.testivai/artifacts/baselines/t.png'')
        (Some ''/w/.testivai/artifacts/current/t.png'')
        ''/w/.testivai/artifacts/diffs/t.png'' (binary64 0.33) boundaryWorld)) = Failed"
proof -
  let ?bi = "\<lparr>img_width = 3, img_height = 1, img_data = [0, 0, 0, 0, 0, 0, 0, 0, 0, 0, 0, 0]\<rparr>"
  let ?ci = "\<lparr>img_width = 3, img_height = 1, img_data = [1, 1, 1, 1, 0, 0, 0, 0, 0, 0, 0, 0]\<rparr>"
  let ?r = "\<lambda>thr. fst (processComparison demoLibs ''t''
        (Some ''/w/.testivai/artifacts/baselines/t.png'')
        (Some ''/w/.testivai/artifacts/current/t.png'')
        ''/w/.testivai/artifacts/diffs/t.png'' thr boundaryWorld)"
  have b: "decodes demoLibs boundaryWorld ''/w/.testivai/artifacts/baselines/t.png'' ?bi"
    by code_simp
  have c: "decodes demoLibs boundaryWorld ''/w/.testivai/artifacts/current/t.png'' ?ci"
    by code_simp
  have d: "canWrite boundaryWorld ''/w/.testivai/artifacts/diffs/t.png''"
    by code_simp
  have pm: "fst (pixelmatch demoLibs (img_data ?bi) (img_data ?ci) (img_width ?bi)
            (img_height ?bi) \<lparr>pm_threshold = thr, pm_includeAA = True, pm_alpha = binary64 0.1,
                             pm_diffColor = (255, 0, 0)\<rparr>) = 1" for thr
    by code_simp
  have third: "binary64 (1 / 3) = 6004799503160661 / 18014398509481984" by code_simp
  have thr1: "binary64 0.3333333333333333 = 6004799503160661 / 18014398509481984" by code_simp
  have thr2: "binary64 0.33 < 6004799503160661 / 18014398509481984" by code_simp
  have T: "totalPixels (?r thr) = 3 \<and> diffPixelCount (?r thr) = 1
         \<and> diffPixelRatio (?r thr) = 6004799503160661 / 18014398509481984
         \<and> (status (?r thr) = Passed \<longleftrightarrow> 6004799503160661 / 18014398509481984 \<le> thr)
         \<and> (status (?r thr) = Failed \<longleftrightarrow> \<not> 6004799503160661 / 18014398509481984 \<le> thr)" for thr
    using ratio_and_threshold_classification [OF b c _ _ d refl, of "''t''" thr] pm [of thr]
    by (simp add: third)
  have p: "status (?r (binary64 0.3333333333333333)) = Passed"
    using T [of "binary64 0.3333333333333333"] by (simp only: thr1)
  have f: "status (?r (binary64 0.33)) = Failed"
    using T [of "binary64 0.33"] thr2 by simp
  from b c d T [of "binary64 0.3333333333333333"] thr1 p f show ?thesis by blast
qed

text \<open>
  C5 as stated fails when the difference image cannot be written: both files exist and
  decode to 1x2 images, the ratio of the result (0) is within the threshold, yet the
  status is \<open>error\<close>, with the message of the failed write.
\<close>

theorem classification_needs_diff_written:
  "decodes demoLibs readOnlyDiffs ''/w/.testivai/artifacts/baselines/a.png''
     \<lparr>img_width = 1, img_height = 2, img_data = [0, 0, 0, 0, 0, 0, 0, 0]\<rparr>
   \<and> decodes demoLibs readOnlyDiffs ''/w/.testivai/artifacts/current/a.png''
     \<lparr>img_width = 1, img_height = 2, img_data = [0, 0, 0, 0, 0, 0, 0, 0]\<rparr>
   \<and> diffPixelRatio (fst (processComparison demoLibs ''a''
        (Some ''/w/.testivai/artifacts/baselines/a.png'')
        (Some ''/w/.testivai/artifacts/current/a.png'')
        ''/w/.testivai/artifacts/diffs/a.png'' (binary64 0.1) readOnlyDiffs)) \<le> binary64 0.1
   \<and> status (fst (processComparison demoLibs ''a''
        (Some ''/w/.testivai/artifacts/baselines/a.png'')
        (Some ''/w/.testivai/artifacts/current/a.png'')
        ''/w/.testivai/artifacts/diffs/a.png'' (binary64 0.1) readOnlyDiffs)) = Error
   \<and> error (fst (processComparison demoLibs ''a''
        (Some ''/w/.testivai/artifacts/baselines/a.png'')
        (Some ''/w/.testivai/artifacts/current/a.png'')
        ''/w/.testivai/artifacts/diffs/a.png'' (binary64 0.1) readOnlyDiffs))
       = Some (''EACCES: permission denied, open ''
               @ quoted ''/w/.testivai/artifacts/diffs/a.png'')"
  by code_simp

text \<open>What a comparison leaves untouched: the refusals, and every file but the difference image.\<close>

lemma frame_loadImage:
  "fault (snd (loadImage L f w)) = fault w \<and> files (snd (loadImage L f w)) = files w"
  by (auto simp: loadImage_def split: sum.splits)

lemma frame_saveImage:
  "fault (snd (saveImage L img d w)) = fault w
   \<and> (p \<noteq> d \<longrightarrow> files (snd (saveImage L img d w)) p = files w p)"
  by (auto simp: saveImage_def Let_def ensureDir_def writeFile_def
           split: sum.splits option.splits if_splits)

lemma frame_compareImages:
  "fault (snd (compareImages L b c d thr w)) = fault w
   \<and> (p \<noteq> d \<longrightarrow> files (snd (compareImages L b c d thr w)) p = files w p)"
proof -
  obtain rb w1 where lb: "loadImage L b w = (rb, w1)" by (cases "loadImage L b w") auto
  have f1: "fault w1 = fault w \<and> files w1 = files w"
    using frame_loadImage [of L b w] lb by simp
  obtain rc w2 where lc: "loadImage L c w1 = (rc, w2)" by (cases "loadImage L c w1") auto
  have f2: "fault w2 = fault w \<and> files w2 = files w"
    using frame_loadImage [of L c w1] lc f1 by simp
  show ?thesis
  proof (cases rb)
    case (Inl m)
    then show ?thesis using lb f1 by (simp add: compareImages_def)
  next
    case (Inr bi)
    note rb = this
    show ?thesis
    proof (cases rc)
      case (Inl m)
      then show ?thesis using lb lc rb f2 by (simp add: compareImages_def)
    next
      case (Inr ci)
      show ?thesis
        using lb lc rb Inr f2
          frame_saveImage [of L _ d "w2\<lparr>events := events w2 @ [PixelCompared d]\<rparr>" p]
        by (auto simp: compareImages_def Let_def case_prod_beta split: sum.splits prod.splits)
    qed
  qed
qed

lemma frame_processComparison:
  "fault (snd (processComparison L nm bPath cPath dPath thr w)) = fault w
   \<and> (p \<noteq> dPath \<longrightarrow> files (snd (processComparison L nm bPath cPath dPath thr w)) p = files w p)"
  using frame_compareImages [of L _ _ dPath thr w p]
  by (auto simp: processComparison_def Let_def split: option.splits prod.splits sum.splits)
     (metis snd_conv)+

lemma frame_processAll:
  "fault (snd (processAll L bs cs dd thr names w)) = fault w
   \<and> (p \<notin> (\<lambda>nm. path_join [dd, nm @ ''.png'']) ` set names \<longrightarrow>
        files (snd (processAll L bs cs dd thr names w)) p = files w p)"
proof (induction names arbitrary: w)
  case Nil
  show ?case by simp
next
  case (Cons nm names)
  define pc where "pc = processComparison L nm (orUndefined (map_of bs nm))
                 (orUndefined (map_of cs nm)) (path_join [dd, nm @ ''.png'']) thr w"
  have unfold: "snd (processAll L bs cs dd thr (nm # names) w)
                = snd (processAll L bs cs dd thr names (snd pc))"
    by (simp add: processAll_Cons Let_def pc_def del: processAll.simps(2))
  have hd: "fault (snd pc) = fault w
            \<and> (p \<noteq> path_join [dd, nm @ ''.png''] \<longrightarrow> files (snd pc) p = files w p)"
    unfolding pc_def by (rule frame_processComparison)
  show ?case
    unfolding unfold using Cons.IH [of "snd pc"] hd by auto
qed

text \<open>The results of the loop, one turn at a time.\<close>

lemma processAll_append:
  "processAll L bs cs dd thr (xs @ ys) w =
     (fst (processAll L bs cs dd thr xs w)
        @ fst (processAll L bs cs dd thr ys (snd (processAll L bs cs dd thr xs w))),
      snd (processAll L bs cs dd thr ys (snd (processAll L bs cs dd thr xs w))))"
  by (induction xs arbitrary: w)
     (simp_all add: processAll_Cons Let_def del: processAll.simps(2))

lemma processAll_length:
  "length (fst (processAll L bs cs dd thr names w)) = length names"
  using processAll_names [of L bs cs dd thr names w] by (metis length_map)

lemma processAll_nth:
  assumes "i < length names"
  shows "fst (processAll L bs cs dd thr names w) ! i =
           fst (processComparison L (names ! i) (orUndefined (map_of bs (names ! i)))
                  (orUndefined (map_of cs (names ! i))) (path_join [dd, (names ! i) @ ''.png''])
                  thr (snd (processAll L bs cs dd thr (take i names) w)))"
proof -
  have split: "names = take i names @ (names ! i) # drop (Suc i) names"
    using assms by (simp add: id_take_nth_drop)
  have len: "length (fst (processAll L bs cs dd thr (take i names) w)) = i"
    using assms by (simp add: processAll_length)
  have "fst (processAll L bs cs dd thr (take i names @ (names ! i) # drop (Suc i) names) w) ! i =
           fst (processComparison L (names ! i) (orUndefined (map_of bs (names ! i)))
                  (orUndefined (map_of cs (names ! i))) (path_join [dd, (names ! i) @ ''.png''])
                  thr (snd (processAll L bs cs dd thr (take i names) w)))"
    unfolding processAll_append
    by (simp add: nth_append len processAll_Cons Let_def del: processAll.simps(2))
  with split show ?thesis by simp
qed

lemma snd_processAll:
  "snd (processAll L bs cs dd thr names w) =
     foldl (\<lambda>w nm. snd (processComparison L nm (orUndefined (map_of bs nm))
                          (orUndefined (map_of cs nm)) (path_join [dd, nm @ ''.png'']) thr w))
           w names"
  by (induction names arbitrary: w)
     (simp_all add: processAll_Cons Let_def del: processAll.simps(2))

lemma turnWorld_processAll:
  "turnWorld L sc i =
     snd (processAll L (sc_baselines sc) (sc_currents sc) (sc_diffDir sc)
            (engineThreshold (visualEngine (sc_config sc))) (take i (allNamesOf sc))
            (sc_world sc))"
  by (simp add: turnWorld_def loopBody_def snd_processAll)

lemma mismatch_result:
  assumes "decodes L w b bi" and "decodes L w c ci"
    and "img_width bi \<noteq> img_width ci \<or> img_height bi \<noteq> img_height ci"
  shows "status (fst (processComparison L nm (Some b) (Some c) d thr w)) = Error
       \<and> error (fst (processComparison L nm (Some b) (Some c) d thr w))
           = Some (dimensionsMessage bi ci)"
proof -
  have pb: "present w (Some b)" and pc: "present w (Some c)"
    using assms(1,2) by (auto dest: decodes_present)
  have cmp: "fst (compareImages L b c d thr w) = Inl (dimensionsMessage bi ci)"
    using assms by (simp add: compareImages_mismatch)
  show ?thesis
    unfolding processComparison_compare [OF pb pc] cmp by simp
qed

text \<open>
  C6. When the baseline and the current file both exist and decode to images of different
  dimensions, the result of that snapshot has status \<open>error\<close> and its message states
  width x height of the baseline and of the current image. The failure stays in the item.
  Once \<^verbatim>\<open>runVerification\<close> has loaded the configuration and scanned the directories, it
  returns a summary with one result for every snapshot name, in order, and the result at
  every position is what the body of the loop makes of that name in the world that the
  bodies of the earlier turns have left, one after the other: these turns have changed no
  refusal and no file other than their own difference images. So a snapshot whose two files decode to different
  dimensions when its turn comes gets the \<open>error\<close> result with the dimensions message,
  wherever it stands in the batch, and every other snapshot is classified as it would be
  without it.
\<close>

theorem dimension_mismatch_isolated:
  "(decodes L w b bi \<and> decodes L w c ci
      \<and> (img_width bi \<noteq> img_width ci \<or> img_height bi \<noteq> img_height ci) \<longrightarrow>
      status (fst (processComparison L nm (Some b) (Some c) d thr w)) = Error
      \<and> error (fst (processComparison L nm (Some b) (Some c) d thr w)) =
          Some (''Image dimensions mismatch: baseline ('' @ string_of_nat (img_width bi)
                @ ''x'' @ string_of_nat (img_height bi) @ '') vs current (''
                @ string_of_nat (img_width ci) @ ''x'' @ string_of_nat (img_height ci)
                @ '')''))
   \<and> (scan L cwd w0 = Inr sc \<longrightarrow>
      (\<exists>s w'. runVerification L cwd now w0 = Inr (s, w')
         \<and> map name (results s) = allNamesOf sc
         \<and> length (results s) = length (allNamesOf sc)
         \<and> w' = turnWorld L sc (length (allNamesOf sc))
         \<and> (\<forall>i < length (allNamesOf sc).
              results s ! i = turnResult L sc i
            \<and> fault (turnWorld L sc i) = fault (sc_world sc)
            \<and> (\<forall>p. p \<notin> diffPaths sc (take i (allNamesOf sc)) \<longrightarrow>
                   files (turnWorld L sc i) p = files (sc_world sc) p)
            \<and> (\<forall>bp cp bi' ci'.
                   map_of (sc_baselines sc) (allNamesOf sc ! i) = Some bp
                 \<and> map_of (sc_currents sc) (allNamesOf sc ! i) = Some cp
                 \<and> decodes L (turnWorld L sc i) bp bi' \<and> decodes L (turnWorld L sc i) cp ci'
                 \<and> (img_width bi' \<noteq> img_width ci' \<or> img_height bi' \<noteq> img_height ci') \<longrightarrow>
                   name (results s ! i) = allNamesOf sc ! i
                 \<and> status (results s ! i) = Error
                 \<and> error (results s ! i) =
                     Some (''Image dimensions mismatch: baseline (''
                           @ string_of_nat (img_width bi') @ ''x''
                           @ string_of_nat (img_height bi') @ '') vs current (''
                           @ string_of_nat (img_width ci') @ ''x''
                           @ string_of_nat (img_height ci') @ '')'')))))"
proof (intro conjI impI)
  assume h: "decodes L w b bi \<and> decodes L w c ci
      \<and> (img_width bi \<noteq> img_width ci \<or> img_height bi \<noteq> img_height ci)"
  then have m: "status (fst (processComparison L nm (Some b) (Some c) d thr w)) = Error
       \<and> error (fst (processComparison L nm (Some b) (Some c) d thr w))
           = Some (dimensionsMessage bi ci)"
    by (intro mismatch_result) simp_all
  from m show "status (fst (processComparison L nm (Some b) (Some c) d thr w)) = Error"
    by simp
  from m show "error (fst (processComparison L nm (Some b) (Some c) d thr w)) =
          Some (''Image dimensions mismatch: baseline ('' @ string_of_nat (img_width bi)
                @ ''x'' @ string_of_nat (img_height bi) @ '') vs current (''
                @ string_of_nat (img_width ci) @ ''x'' @ string_of_nat (img_height ci)
                @ '')'')"
    by (simp add: dimensionsMessage_def)
next
  assume sc: "scan L cwd w0 = Inr sc"
  let ?thr = "engineThreshold (visualEngine (sc_config sc))"
  let ?pa = "processAll L (sc_baselines sc) (sc_currents sc) (sc_diffDir sc) ?thr
               (allNamesOf sc) (sc_world sc)"
  have res: "results (summarize (fst ?pa) now) = fst ?pa" by (simp add: summarize_def)
  have names: "map name (fst ?pa) = allNamesOf sc" by (rule processAll_names)
  have each: "fst ?pa ! i = turnResult L sc i
            \<and> fault (turnWorld L sc i) = fault (sc_world sc)
            \<and> (\<forall>p. p \<notin> diffPaths sc (take i (allNamesOf sc)) \<longrightarrow>
                   files (turnWorld L sc i) p = files (sc_world sc) p)
            \<and> (\<forall>bp cp bi' ci'.
                   map_of (sc_baselines sc) (allNamesOf sc ! i) = Some bp
                 \<and> map_of (sc_currents sc) (allNamesOf sc ! i) = Some cp
                 \<and> decodes L (turnWorld L sc i) bp bi' \<and> decodes L (turnWorld L sc i) cp ci'
                 \<and> (img_width bi' \<noteq> img_width ci' \<or> img_height bi' \<noteq> img_height ci') \<longrightarrow>
                   name (fst ?pa ! i) = allNamesOf sc ! i
                 \<and> status (fst ?pa ! i) = Error
                 \<and> error (fst ?pa ! i) =
                     Some (''Image dimensions mismatch: baseline (''
                           @ string_of_nat (img_width bi') @ ''x''
                           @ string_of_nat (img_height bi') @ '') vs current (''
                           @ string_of_nat (img_width ci') @ ''x''
                           @ string_of_nat (img_height ci') @ '')''))"
    if i: "i < length (allNamesOf sc)" for i
  proof (intro conjI allI impI)
    show tr: "fst ?pa ! i = turnResult L sc i"
      unfolding turnResult_def loopBody_def turnWorld_processAll by (rule processAll_nth [OF i])
    show "fault (turnWorld L sc i) = fault (sc_world sc)"
      unfolding turnWorld_processAll using frame_processAll by blast
    show "files (turnWorld L sc i) p = files (sc_world sc) p"
      if "p \<notin> diffPaths sc (take i (allNamesOf sc))" for p
      using that frame_processAll [of L "sc_baselines sc" "sc_currents sc" "sc_diffDir sc" ?thr
          "take i (allNamesOf sc)" "sc_world sc" p]
      unfolding turnWorld_processAll diffPaths_def by blast
    fix bp cp bi' ci'
    assume h: "map_of (sc_baselines sc) (allNamesOf sc ! i) = Some bp
                 \<and> map_of (sc_currents sc) (allNamesOf sc ! i) = Some cp
                 \<and> decodes L (turnWorld L sc i) bp bi' \<and> decodes L (turnWorld L sc i) cp ci'
                 \<and> (img_width bi' \<noteq> img_width ci' \<or> img_height bi' \<noteq> img_height ci')"
    have bne: "bp \<noteq> []" using h scan_facts(1) [OF sc] by blast
    have cne: "cp \<noteq> []" using h scan_facts(2) [OF sc] by blast
    have tr': "turnResult L sc i =
        fst (processComparison L (allNamesOf sc ! i) (Some bp) (Some cp)
               (path_join [sc_diffDir sc, (allNamesOf sc ! i) @ ''.png'']) ?thr
               (turnWorld L sc i))"
      using h bne cne by (simp add: turnResult_def loopBody_def orUndefined_Some)
    have m: "status (turnResult L sc i) = Error
             \<and> error (turnResult L sc i) = Some (dimensionsMessage bi' ci')"
      unfolding tr' using h by (intro mismatch_result) simp_all
    show "name (fst ?pa ! i) = allNamesOf sc ! i"
      unfolding tr by (simp add: turnResult_def loopBody_def processComparison_name)
    from m show "status (fst ?pa ! i) = Error" unfolding tr by simp
    from m show "error (fst ?pa ! i) =
                     Some (''Image dimensions mismatch: baseline (''
                           @ string_of_nat (img_width bi') @ ''x''
                           @ string_of_nat (img_height bi') @ '') vs current (''
                           @ string_of_nat (img_width ci') @ ''x''
                           @ string_of_nat (img_height ci') @ '')'')"
      unfolding tr by (simp add: dimensionsMessage_def)
  qed
  show "\<exists>s w'. runVerification L cwd now w0 = Inr (s, w')
         \<and> map name (results s) = allNamesOf sc
         \<and> length (results s) = length (allNamesOf sc)
         \<and> w' = turnWorld L sc (length (allNamesOf sc))
         \<and> (\<forall>i < length (allNamesOf sc).
              results s ! i = turnResult L sc i
            \<and> fault (turnWorld L sc i) = fault (sc_world sc)
            \<and> (\<forall>p. p \<notin> diffPaths sc (take i (allNamesOf sc)) \<longrightarrow>
                   files (turnWorld L sc i) p = files (sc_world sc) p)
            \<and> (\<forall>bp cp bi' ci'.
                   map_of (sc_baselines sc) (allNamesOf sc ! i) = Some bp
                 \<and> map_of (sc_currents sc) (allNamesOf sc ! i) = Some cp
                 \<and> decodes L (turnWorld L sc i) bp bi' \<and> decodes L (turnWorld L sc i) cp ci'
                 \<and> (img_width bi' \<noteq> img_width ci' \<or> img_height bi' \<noteq> img_height ci') \<longrightarrow>
                   name (results s ! i) = allNamesOf sc ! i
                 \<and> status (results s ! i) = Error
                 \<and> error (results s ! i) =
                     Some (''Image dimensions mismatch: baseline (''
                           @ string_of_nat (img_width bi') @ ''x''
                           @ string_of_nat (img_height bi') @ '') vs current (''
                           @ string_of_nat (img_width ci') @ ''x''
                           @ string_of_nat (img_height ci') @ '')'')))"
  proof (intro exI conjI)
    show "runVerification L cwd now w0 = Inr (summarize (fst ?pa) now, snd ?pa)"
      by (rule runVerification_of_scan [OF sc])
    show "map name (results (summarize (fst ?pa) now)) = allNamesOf sc"
      unfolding res by (rule names)
    show "length (results (summarize (fst ?pa) now)) = length (allNamesOf sc)"
      unfolding res by (rule processAll_length)
    show "snd ?pa = turnWorld L sc (length (allNamesOf sc))"
      by (simp add: turnWorld_processAll)
    show "\<forall>i < length (allNamesOf sc).
              results (summarize (fst ?pa) now) ! i = turnResult L sc i
            \<and> fault (turnWorld L sc i) = fault (sc_world sc)
            \<and> (\<forall>p. p \<notin> diffPaths sc (take i (allNamesOf sc)) \<longrightarrow>
                   files (turnWorld L sc i) p = files (sc_world sc) p)
            \<and> (\<forall>bp cp bi' ci'.
                   map_of (sc_baselines sc) (allNamesOf sc ! i) = Some bp
                 \<and> map_of (sc_currents sc) (allNamesOf sc ! i) = Some cp
                 \<and> decodes L (turnWorld L sc i) bp bi' \<and> decodes L (turnWorld L sc i) cp ci'
                 \<and> (img_width bi' \<noteq> img_width ci' \<or> img_height bi' \<noteq> img_height ci') \<longrightarrow>
                   name (results (summarize (fst ?pa) now) ! i) = allNamesOf sc ! i
                 \<and> status (results (summarize (fst ?pa) now) ! i) = Error
                 \<and> error (results (summarize (fst ?pa) now) ! i) =
                     Some (''Image dimensions mismatch: baseline (''
                           @ string_of_nat (img_width bi') @ ''x''
                           @ string_of_nat (img_height bi') @ '') vs current (''
                           @ string_of_nat (img_width ci') @ ''x''
                           @ string_of_nat (img_height ci') @ '')''))"
      unfolding res using each by blast
  qed
qed

theorem dimension_mismatch_isolated_witness:
  "decodes demoLibs demoWorld ''/w/.testivai/artifacts/baselines/d.png''
     \<lparr>img_width = 1, img_height = 1, img_data = [0, 0, 0, 0]\<rparr>
   \<and> decodes demoLibs demoWorld ''/w/.testivai/artifacts/current/d.png''
     \<lparr>img_width = 2, img_height = 1, img_data = [0, 0, 0, 0, 0, 0, 0, 0]\<rparr>
   \<and> status (fst (processComparison demoLibs ''d''
        (Some ''/w/.testivai/artifacts/baselines/d.png'')
        (Some ''/w/.testivai/artifacts/current/d.png'')
        ''/w/.testivai/artifacts/diffs/d.png'' (1/10) demoWorld)) = Error
   \<and> error (fst (processComparison demoLibs ''d''
        (Some ''/w/.testivai/artifacts/baselines/d.png'')
        (Some ''/w/.testivai/artifacts/current/d.png'')
        ''/w/.testivai/artifacts/diffs/d.png'' (1/10) demoWorld))
       = Some ''Image dimensions mismatch: baseline (1x1) vs current (2x1)''
   \<and> (\<exists>s w'. runVerification demoLibs ''/w'' ''now'' demoWorld = Inr (s, w')
         \<and> map name (results s) = [''a'', ''b'', ''d'', ''c'']
         \<and> length (results s) = 4
         \<and> name (results s ! 2) = ''d''
         \<and> status (results s ! 2) = Error
         \<and> error (results s ! 2)
             = Some ''Image dimensions mismatch: baseline (1x1) vs current (2x1)''
         \<and> map status (results s) = [Passed, Missing, Error, New])"
proof -
  let ?bi = "\<lparr>img_width = 1, img_height = 1, img_data = [0, 0, 0, 0]\<rparr>"
  let ?ci = "\<lparr>img_width = 2, img_height = 1, img_data = [0, 0, 0, 0, 0, 0, 0, 0]\<rparr>"
  let ?sc = "projr (scan demoLibs ''/w'' demoWorld)"
  have b: "decodes demoLibs demoWorld ''/w/.testivai/artifacts/baselines/d.png'' ?bi"
    by code_simp
  have c: "decodes demoLibs demoWorld ''/w/.testivai/artifacts/current/d.png'' ?ci"
    by code_simp
  have msg: "''Image dimensions mismatch: baseline ('' @ string_of_nat (img_width ?bi)
                @ ''x'' @ string_of_nat (img_height ?bi) @ '') vs current (''
                @ string_of_nat (img_width ?ci) @ ''x'' @ string_of_nat (img_height ?ci)
                @ '')'' = ''Image dimensions mismatch: baseline (1x1) vs current (2x1)''"
    by code_simp
  have "\<not> isl (scan demoLibs ''/w'' demoWorld)" by code_simp
  then have sc: "scan demoLibs ''/w'' demoWorld = Inr ?sc"
    by simp
  have names: "allNamesOf ?sc = [''a'', ''b'', ''d'', ''c'']"
    by code_simp
  have nth: "allNamesOf ?sc ! 2 = ''d''" by (simp add: names)
  have mb: "map_of (sc_baselines ?sc) ''d'' = Some ''/w/.testivai/artifacts/baselines/d.png''"
    by code_simp
  have mc: "map_of (sc_currents ?sc) ''d'' = Some ''/w/.testivai/artifacts/current/d.png''"
    by code_simp
  have tb: "decodes demoLibs (turnWorld demoLibs ?sc 2) ''/w/.testivai/artifacts/baselines/d.png'' ?bi"
    by code_simp
  have tc: "decodes demoLibs (turnWorld demoLibs ?sc 2) ''/w/.testivai/artifacts/current/d.png'' ?ci"
    by code_simp
  note T = dimension_mismatch_isolated [of demoLibs demoWorld
      "''/w/.testivai/artifacts/baselines/d.png''" ?bi
      "''/w/.testivai/artifacts/current/d.png''" ?ci "''d''"
      "''/w/.testivai/artifacts/diffs/d.png''" "1/10" "''/w''" demoWorld ?sc "''now''"]
  have dims: "img_width ?bi \<noteq> img_width ?ci \<or> img_height ?bi \<noteq> img_height ?ci" by simp
  from T b c dims have "status (fst (processComparison demoLibs ''d''
        (Some ''/w/.testivai/artifacts/baselines/d.png'')
        (Some ''/w/.testivai/artifacts/current/d.png'')
        ''/w/.testivai/artifacts/diffs/d.png'' (1/10) demoWorld)) = Error
   \<and> error (fst (processComparison demoLibs ''d''
        (Some ''/w/.testivai/artifacts/baselines/d.png'')
        (Some ''/w/.testivai/artifacts/current/d.png'')
        ''/w/.testivai/artifacts/diffs/d.png'' (1/10) demoWorld))
       = Some (''Image dimensions mismatch: baseline ('' @ string_of_nat (img_width ?bi)
                @ ''x'' @ string_of_nat (img_height ?bi) @ '') vs current (''
                @ string_of_nat (img_width ?ci) @ ''x'' @ string_of_nat (img_height ?ci)
                @ '')'')"
    by blast
  then have item: "status (fst (processComparison demoLibs ''d''
        (Some ''/w/.testivai/artifacts/baselines/d.png'')
        (Some ''/w/.testivai/artifacts/current/d.png'')
        ''/w/.testivai/artifacts/diffs/d.png'' (1/10) demoWorld)) = Error
   \<and> error (fst (processComparison demoLibs ''d''
        (Some ''/w/.testivai/artifacts/baselines/d.png'')
        (Some ''/w/.testivai/artifacts/current/d.png'')
        ''/w/.testivai/artifacts/diffs/d.png'' (1/10) demoWorld))
       = Some ''Image dimensions mismatch: baseline (1x1) vs current (2x1)''"
    by (simp only: msg)
  from T sc obtain s w' where run: "runVerification demoLibs ''/w'' ''now'' demoWorld = Inr (s, w')"
    and nm: "map name (results s) = allNamesOf ?sc"
    and len: "length (results s) = length (allNamesOf ?sc)"
    and turn: "\<forall>i < length (allNamesOf ?sc).
        (\<forall>bp cp bi' ci'.
                   map_of (sc_baselines ?sc) (allNamesOf ?sc ! i) = Some bp
                 \<and> map_of (sc_currents ?sc) (allNamesOf ?sc ! i) = Some cp
                 \<and> decodes demoLibs (turnWorld demoLibs ?sc i) bp bi'
                 \<and> decodes demoLibs (turnWorld demoLibs ?sc i) cp ci'
                 \<and> (img_width bi' \<noteq> img_width ci' \<or> img_height bi' \<noteq> img_height ci') \<longrightarrow>
                   name (results s ! i) = allNamesOf ?sc ! i
                 \<and> status (results s ! i) = Error
                 \<and> error (results s ! i) =
                     Some (''Image dimensions mismatch: baseline (''
                           @ string_of_nat (img_width bi') @ ''x''
                           @ string_of_nat (img_height bi') @ '') vs current (''
                           @ string_of_nat (img_width ci') @ ''x''
                           @ string_of_nat (img_height ci') @ '')''))"
    by blast
  have two: "2 < length (allNamesOf ?sc)" by (simp add: names)
  have mb': "map_of (sc_baselines ?sc) (allNamesOf ?sc ! 2)
               = Some ''/w/.testivai/artifacts/baselines/d.png''"
    using mb by (simp only: nth)
  have mc': "map_of (sc_currents ?sc) (allNamesOf ?sc ! 2)
               = Some ''/w/.testivai/artifacts/current/d.png''"
    using mc by (simp only: nth)
  from turn two mb' mc' tb tc dims
  have "name (results s ! 2) = allNamesOf ?sc ! 2
        \<and> status (results s ! 2) = Error
        \<and> error (results s ! 2) =
            Some (''Image dimensions mismatch: baseline ('' @ string_of_nat (img_width ?bi)
                @ ''x'' @ string_of_nat (img_height ?bi) @ '') vs current (''
                @ string_of_nat (img_width ?ci) @ ''x'' @ string_of_nat (img_height ?ci)
                @ '')'')"
    by blast
  then have third: "name (results s ! 2) = ''d'' \<and> status (results s ! 2) = Error
        \<and> error (results s ! 2)
            = Some ''Image dimensions mismatch: baseline (1x1) vs current (2x1)''"
    by (simp only: msg nth)
  have "(case runVerification demoLibs ''/w'' ''now'' demoWorld of
           Inl m \<Rightarrow> [] | Inr (s, w') \<Rightarrow> map status (results s))
        = [Passed, Missing, Error, New]"
    by code_simp
  then have st: "map status (results s) = [Passed, Missing, Error, New]"
    by (simp add: run)
  have nm': "map name (results s) = [''a'', ''b'', ''d'', ''c'']"
    using nm by (simp only: names)
  have len': "length (results s) = 4"
    using len by (simp add: names)
  from third have t1: "name (results s ! 2) = ''d''"
    and t2: "status (results s ! 2) = Error"
    and t3: "error (results s ! 2)
               = Some ''Image dimensions mismatch: baseline (1x1) vs current (2x1)''"
    by simp_all
  have batch: "\<exists>s w'. runVerification demoLibs ''/w'' ''now'' demoWorld = Inr (s, w')
         \<and> map name (results s) = [''a'', ''b'', ''d'', ''c'']
         \<and> length (results s) = 4
         \<and> name (results s ! 2) = ''d''
         \<and> status (results s ! 2) = Error
         \<and> error (results s ! 2)
             = Some ''Image dimensions mismatch: baseline (1x1) vs current (2x1)''
         \<and> map status (results s) = [Passed, Missing, Error, New]"
    by (intro exI conjI) (rule run, rule nm', rule len', rule t1, rule t2, rule t3, rule st)
  from item have i1: "status (fst (processComparison demoLibs ''d''
        (Some ''/w/.testivai/artifacts/baselines/d.png'')
        (Some ''/w/.testivai/artifacts/current/d.png'')
        ''/w/.testivai/artifacts/diffs/d.png'' (1/10) demoWorld)) = Error"
    and i2: "error (fst (processComparison demoLibs ''d''
        (Some ''/w/.testivai/artifacts/baselines/d.png'')
        (Some ''/w/.testivai/artifacts/current/d.png'')
        ''/w/.testivai/artifacts/diffs/d.png'' (1/10) demoWorld))
       = Some ''Image dimensions mismatch: baseline (1x1) vs current (2x1)''"
    by simp_all
  show ?thesis
    by (intro conjI) (rule b, rule c, rule i1, rule i2, rule batch)
qed

lemma loadConfig_no_file:
  "\<not> existsSync w (configFilePathOf cwd cp) \<Longrightarrow> loadConfig L cwd cp w = Inr DEFAULT_CONFIG"
  by (simp add: loadConfig_def)

lemma processComparison_status:
  "(status (fst (processComparison L nm bPath cPath dPath thr w)) = Passed \<longrightarrow>
      diffPixelRatio (fst (processComparison L nm bPath cPath dPath thr w)) \<le> thr)
   \<and> (status (fst (processComparison L nm bPath cPath dPath thr w)) = Failed \<longrightarrow>
      \<not> diffPixelRatio (fst (processComparison L nm bPath cPath dPath thr w)) \<le> thr)"
  by (auto simp: processComparison_def Let_def split: option.splits prod.splits sum.splits)

lemma processAll_status:
  "\<forall>r \<in> set (fst (processAll L bs cs dd thr names w)).
     (status r = Passed \<longrightarrow> diffPixelRatio r \<le> thr)
     \<and> (status r = Failed \<longrightarrow> \<not> diffPixelRatio r \<le> thr)"
  by (induction names arbitrary: w)
     (simp_all add: processAll_Cons Let_def processComparison_status del: processAll.simps(2))

text \<open>
  C2 (amended). When there is no configuration file, \<^verbatim>\<open>loadConfig\<close> returns the default
  configuration, whose threshold is 0.1 (the double that the literal \<^verbatim>\<open>0.1\<close> denotes),
  and every result of \<^verbatim>\<open>runVerification\<close> carries and was classified with the
  threshold 0.1.
\<close>

theorem default_threshold:
  assumes nofile: "\<not> existsSync w (path_join [cwd, ''testivai.config.json''])"
    and run: "runVerification L cwd now w = Inr (s, w')"
  shows "loadConfig L cwd None w = Inr DEFAULT_CONFIG
       \<and> engineThreshold (visualEngine DEFAULT_CONFIG) = binary64 0.1
       \<and> (\<forall>r \<in> set (results s). threshold r = binary64 0.1
             \<and> (status r = Passed \<longrightarrow> diffPixelRatio r \<le> binary64 0.1)
             \<and> (status r = Failed \<longrightarrow> \<not> diffPixelRatio r \<le> binary64 0.1))"
proof -
  have lc: "loadConfig L cwd None w = Inr DEFAULT_CONFIG"
    using nofile by (simp add: loadConfig_no_file configFilePathOf_def)
  have thr: "engineThreshold (visualEngine DEFAULT_CONFIG) = binary64 0.1"
    by (simp add: DEFAULT_CONFIG_def)
  from run obtain sc where sc: "scan L cwd w = Inr sc" by (rule runVerification_Inr_scan)
  have cfg: "sc_config sc = DEFAULT_CONFIG"
    using sc lc by (auto simp: scan_def scanDirs_def Let_def split: sum.splits)
  let ?pa = "processAll L (sc_baselines sc) (sc_currents sc) (sc_diffDir sc) (binary64 0.1)
               (allNamesOf sc) (sc_world sc)"
  have "runVerification L cwd now w = Inr (summarize (fst ?pa) now, snd ?pa)"
    using runVerification_of_scan [OF sc, of now] by (simp only: cfg thr)
  with run have "s = summarize (fst ?pa) now" by simp
  then have res: "results s = fst ?pa" by (simp add: summarize_def)
  show ?thesis
    unfolding res using lc thr processAll_thresholds [of L _ _ _ "binary64 0.1"]
      processAll_status [of L _ _ _ "binary64 0.1"] by blast
qed

theorem default_threshold_witness:
  "\<not> existsSync demoWorld (path_join [''/w'', ''testivai.config.json''])
   \<and> (\<exists>s w'. runVerification demoLibs ''/w'' ''now'' demoWorld = Inr (s, w')
        \<and> map threshold (results s) = [binary64 0.1, binary64 0.1, binary64 0.1, binary64 0.1]
        \<and> map status (results s) = [Passed, Missing, Error, New]
        \<and> diffPixelRatio (hd (results s)) \<le> binary64 0.1)"
proof -
  have nofile: "\<not> existsSync demoWorld (path_join [''/w'', ''testivai.config.json''])"
    by code_simp
  have "\<not> isl (runVerification demoLibs ''/w'' ''now'' demoWorld)" by code_simp
  then obtain s w' where run: "runVerification demoLibs ''/w'' ''now'' demoWorld = Inr (s, w')"
    by (cases "runVerification demoLibs ''/w'' ''now'' demoWorld") auto
  have "(case runVerification demoLibs ''/w'' ''now'' demoWorld of
           Inl m \<Rightarrow> [] | Inr (s, w') \<Rightarrow> map status (results s))
        = [Passed, Missing, Error, New]"
    by code_simp
  then have st: "map status (results s) = [Passed, Missing, Error, New]"
    by (simp add: run)
  then obtain r1 r2 r3 r4 where rs: "results s = [r1, r2, r3, r4]" by auto
  from default_threshold [OF nofile run] have
    all: "\<forall>r \<in> set (results s). threshold r = binary64 0.1
             \<and> (status r = Passed \<longrightarrow> diffPixelRatio r \<le> binary64 0.1)
             \<and> (status r = Failed \<longrightarrow> \<not> diffPixelRatio r \<le> binary64 0.1)"
    by blast
  have t1: "map threshold (results s) = [binary64 0.1, binary64 0.1, binary64 0.1, binary64 0.1]"
    using all by (simp add: rs)
  have t2: "diffPixelRatio (hd (results s)) \<le> binary64 0.1"
    using all st by (simp add: rs)
  have "\<exists>s w'. runVerification demoLibs ''/w'' ''now'' demoWorld = Inr (s, w')
        \<and> map threshold (results s) = [binary64 0.1, binary64 0.1, binary64 0.1, binary64 0.1]
        \<and> map status (results s) = [Passed, Missing, Error, New]
        \<and> diffPixelRatio (hd (results s)) \<le> binary64 0.1"
    by (intro exI conjI) (rule run, rule t1, rule st, rule t2)
  with nofile show ?thesis by (rule conjI)
qed

text \<open>
  C2 as stated fails: in the concrete world, which has no configuration file, every
  result of \<^verbatim>\<open>runVerification\<close> has the threshold 0.1, not 0.001.
\<close>

theorem default_threshold_not_0_001:
  "\<not> existsSync demoWorld (path_join [''/w'', ''testivai.config.json''])
   \<and> (case runVerification demoLibs ''/w'' ''now'' demoWorld of
         Inl m \<Rightarrow> [] | Inr (s, w') \<Rightarrow> map threshold (results s))
       = [binary64 0.1, binary64 0.1, binary64 0.1, binary64 0.1]
   \<and> binary64 0.1 \<noteq> binary64 0.001
   \<and> binary64 0.1 \<noteq> 0.001
   \<and> binary64 0.1 = 3602879701896397 / 36028797018963968"
  by code_simp

section \<open>Approval service (core/ApprovalService.ts)\<close>

text \<open>
  \<^verbatim>\<open>approveBaseline\<close> wraps its whole body in \<^verbatim>\<open>try\<close>; \<open>approveBaseline_try\<close> is the
  body, with \<open>Inl\<close> the message of a thrown error, and \<open>approveBaseline_catch\<close> is the
  handler. The field \<^verbatim>\<open>error\<close> of the result is \<open>approval_error\<close> here.
\<close>

record ApprovalResult =
  success :: bool
  message :: string
  snapshotName :: "string option"
  approval_error :: "string option"

definition approvedResult :: "string \<Rightarrow> ApprovalResult" where
  "approvedResult nm = \<lparr>success = True,
     message = ''Successfully approved baseline for: '' @ nm,
     snapshotName = Some nm, approval_error = None\<rparr>"

definition notFoundResult :: "string \<Rightarrow> ApprovalResult" where
  "notFoundResult nm = \<lparr>success = False,
     message = ''Current screenshot not found: '' @ nm,
     snapshotName = None, approval_error = Some ''FILE_NOT_FOUND''\<rparr>"

definition approveBaseline_try ::
  "libs \<Rightarrow> string \<Rightarrow> string \<Rightarrow> world \<Rightarrow> (string + ApprovalResult) \<times> world" where
  "approveBaseline_try L cwd nm w =
     (case loadConfig L cwd None w of
        Inl msg \<Rightarrow> (Inl msg, w)
      | Inr config \<Rightarrow>
          (let cPath = path_join [cwd, current (paths config), nm @ ''.png''];
               bPath = path_join [cwd, baseline (paths config), nm @ ''.png''];
               dPath = path_join [cwd, diff (paths config), nm @ ''.png'']
           in if \<not> existsSync w cPath
              then (Inr (notFoundResult nm), w)
              else
                (case ensureDir w (path_dirname bPath) of
                   Inl msg \<Rightarrow> (Inl msg, w)
                 | Inr w1 \<Rightarrow>
                     (case copyFile w1 cPath bPath of
                        Inl msg \<Rightarrow> (Inl msg, w1)
                      | Inr w2 \<Rightarrow>
                          if existsSync w2 dPath
                          then (case remove w2 dPath of
                                  Inl msg \<Rightarrow> (Inl msg, w2)
                                | Inr w3 \<Rightarrow> (Inr (approvedResult nm), w3))
                          else (Inr (approvedResult nm), w2)))))"

definition approveBaseline_catch :: "string \<Rightarrow> string \<Rightarrow> ApprovalResult" where
  "approveBaseline_catch nm errorMessage =
     (if includesStr errorMessage ''EACCES'' \<or> includesStr errorMessage ''permission denied''
      then \<lparr>success = False,
            message = ''Permission denied. Please check file permissions for: '' @ nm,
            snapshotName = None, approval_error = Some ''PERMISSION_DENIED''\<rparr>
      else if includesStr errorMessage ''ENOSPC'' \<or> includesStr errorMessage ''no space''
      then \<lparr>success = False,
            message = ''Insufficient disk space to approve: '' @ nm,
            snapshotName = None, approval_error = Some ''NO_SPACE''\<rparr>
      else \<lparr>success = False,
            message = ''Failed to approve baseline for '' @ nm @ '': '' @ errorMessage,
            snapshotName = None, approval_error = Some ''UNKNOWN_ERROR''\<rparr>)"

definition approveBaseline :: "libs \<Rightarrow> string \<Rightarrow> string \<Rightarrow> world \<Rightarrow> ApprovalResult \<times> world" where
  "approveBaseline L cwd nm w =
     (case approveBaseline_try L cwd nm w of
        (Inr r, w') \<Rightarrow> (r, w')
      | (Inl errorMessage, w') \<Rightarrow> (approveBaseline_catch nm errorMessage, w'))"

fun approveMultipleBaselines ::
  "libs \<Rightarrow> string \<Rightarrow> string list \<Rightarrow> world \<Rightarrow> ApprovalResult list \<times> world" where
  "approveMultipleBaselines L cwd [] w = ([], w)"
| "approveMultipleBaselines L cwd (nm # names) w =
     (let (r, w1) = approveBaseline L cwd nm w;
          (rs, w2) = approveMultipleBaselines L cwd names w1
      in (r # rs, w2))"

definition getApprovableSnapshots :: "libs \<Rightarrow> string \<Rightarrow> world \<Rightarrow> string list" where
  "getApprovableSnapshots L cwd w =
     (case loadConfig L cwd None w of
        Inl msg \<Rightarrow> []
      | Inr config \<Rightarrow>
          (let currentDir = path_join [cwd, current (paths config)]
           in if \<not> existsSync w currentDir then []
              else (case readdir w currentDir of
                      Inl msg \<Rightarrow> []
                    | Inr entries \<Rightarrow>
                        map basename_png (filter (\<lambda>file. endsWith file ''.png'') entries))))"






text \<open>The steps after the check, with the \<^verbatim>\<open>catch\<close> applied to each error.\<close>

definition promote :: "world \<Rightarrow> string \<Rightarrow> string \<Rightarrow> string \<Rightarrow> string \<Rightarrow> ApprovalResult \<times> world" where
  "promote w nm c b d =
     (case ensureDir w (path_dirname b) of
        Inl m \<Rightarrow> (approveBaseline_catch nm m, w)
      | Inr w1 \<Rightarrow>
          (case copyFile w1 c b of
             Inl m \<Rightarrow> (approveBaseline_catch nm m, w1)
           | Inr w2 \<Rightarrow>
               if existsSync w2 d
               then (case remove w2 d of
                       Inl m \<Rightarrow> (approveBaseline_catch nm m, w2)
                     | Inr w3 \<Rightarrow> (approvedResult nm, w3))
               else (approvedResult nm, w2)))"

subsection \<open>Properties of the approval service\<close>





lemma approve_absent:
  "loadConfig L cwd None w = Inr config \<Longrightarrow>
   \<not> existsSync w (path_join [cwd, current (paths config), nm @ ''.png'']) \<Longrightarrow>
   approveBaseline L cwd nm w = (notFoundResult nm, w)"
  by (simp add: approveBaseline_def approveBaseline_try_def Let_def)

lemma approve_present:
  "loadConfig L cwd None w = Inr config \<Longrightarrow>
   existsSync w (path_join [cwd, current (paths config), nm @ ''.png'']) \<Longrightarrow>
   approveBaseline L cwd nm w =
     promote w nm (path_join [cwd, current (paths config), nm @ ''.png''])
       (path_join [cwd, baseline (paths config), nm @ ''.png''])
       (path_join [cwd, diff (paths config), nm @ ''.png''])"
  by (simp add: approveBaseline_def approveBaseline_try_def promote_def Let_def
        split: sum.splits)










section \<open>Report (core/ReportGenerator.ts)\<close>

text \<open>
  The report is the string that \<^verbatim>\<open>generateHTMLReport\<close> returns, the bytes of the file
  that \<^verbatim>\<open>writeHTMLReport\<close> writes. A template literal is the concatenation of its
  text and of the values it interpolates, as they are: the program escapes none of them.
  \<open>nl\<close> is the line feed; a symbol outside ASCII is the bytes of its UTF-8 encoding.
\<close>

definition nl :: string where
  "nl = [CHR 0x0A]"

definition checkMark :: string where "checkMark = [CHR 0xE2, CHR 0x9C, CHR 0x93]"
definition crossMark :: string where "crossMark = [CHR 0xE2, CHR 0x9D, CHR 0x8C]"
definition warningSign :: string where
  "warningSign = [CHR 0xE2, CHR 0x9A, CHR 0xA0, CHR 0xEF, CHR 0xB8, CHR 0x8F]"
definition lockSign :: string where "lockSign = [CHR 0xF0, CHR 0x9F, CHR 0x94, CHR 0x92]"
definition magnifier :: string where "magnifier = [CHR 0xF0, CHR 0x9F, CHR 0x94, CHR 0x8D]"

definition statusName :: "ComparisonStatus \<Rightarrow> string" where
  "statusName st = (case st of Passed \<Rightarrow> ''passed'' | Failed \<Rightarrow> ''failed'' | New \<Rightarrow> ''new''
                    | Missing \<Rightarrow> ''missing'' | Error \<Rightarrow> ''error'')"

definition statusColor :: "ComparisonStatus \<Rightarrow> string" where
  "statusColor st = (case st of Passed \<Rightarrow> ''#10b981'' | Failed \<Rightarrow> ''#f59e0b''
                     | New \<Rightarrow> ''#3b82f6'' | Missing \<Rightarrow> ''#f59e0b'' | Error \<Rightarrow> ''#6b7280'')"

definition statusLabel :: "ComparisonStatus \<Rightarrow> string" where
  "statusLabel st = (case st of Passed \<Rightarrow> ''Passed'' | Failed \<Rightarrow> ''Diff Detected''
                     | New \<Rightarrow> ''New'' | Missing \<Rightarrow> ''Missing'' | Error \<Rightarrow> ''Error'')"

definition generateStatusBadge :: "ComparisonStatus \<Rightarrow> string" where
  "generateStatusBadge st =
       ''<span class=\"status-badge status-'' @ statusName st
       @ ''\" style=\"background-color: '' @ statusColor st @ ''\">'' @ statusLabel st
       @ ''</span>''"

text \<open>
  \<^verbatim>\<open>x.toFixed(2)\<close> prints the integer nearest to a hundred times the magnitude of \<open>x\<close>
  (the larger one of two that are equally near) with a point before its last two digits,
  after a minus sign when \<open>x\<close> is negative. From \<open>10 ^ 21\<close> on JavaScript prints an
  exponent instead; no percentage of this program is that large.
\<close>

definition toFixed2 :: "real \<Rightarrow> string" where
  "toFixed2 x =
     (let n = nat \<lfloor>\<bar>x\<bar> * 100 + 1 / 2\<rfloor>
      in (if x < 0 then ''-'' else []) @ string_of_nat (n div 100) @ ''.''
         @ [digitChar ((n div 10) mod 10), digitChar (n mod 10)])"

definition diffPercentage :: "ComparisonResult \<Rightarrow> string" where
  "diffPercentage r = toFixed2 (numMul (diffPixelRatio r) 100)"

text \<open>\<^verbatim>\<open>result.error || 'Unknown error occurred'\<close> and \<^verbatim>\<open>path || ''\<close>.\<close>

definition errorText :: "ComparisonResult \<Rightarrow> string" where
  "errorText r = (case error r of None \<Rightarrow> ''Unknown error occurred''
                  | Some m \<Rightarrow> if m = [] then ''Unknown error occurred'' else m)"

definition pathOrEmpty :: "string option \<Rightarrow> string" where
  "pathOrEmpty p = (case p of None \<Rightarrow> [] | Some s \<Rightarrow> s)"

definition imagesHTML :: "ComparisonResult \<Rightarrow> string" where
  "imagesHTML r =
     (if status r = New then
       nl
       @ ''      <div class=\"image-panel\">'' @ nl
       @ ''        <div class=\"image-container single\">'' @ nl
       @ ''          <div class=\"image-label\">Current (New)</div>'' @ nl
       @ ''          <img src=\"images/'' @ name r @ ''-current.png\" alt=\"'' @ name r
       @ '' current\" />'' @ nl
       @ ''        </div>'' @ nl
       @ ''      </div>'' @ nl
       @ ''    ''
      else if status r = Missing then
       nl
       @ ''      <div class=\"image-panel\">'' @ nl
       @ ''        <div class=\"image-container single\">'' @ nl
       @ ''          <div class=\"image-label\">Baseline (Missing Current)</div>'' @ nl
       @ ''          <img src=\"images/'' @ name r @ ''-baseline.png\" alt=\"'' @ name r
       @ '' baseline\" />'' @ nl
       @ ''        </div>'' @ nl
       @ ''      </div>'' @ nl
       @ ''      <div class=\"warning-message\">'' @ nl
       @ ''        '' @ warningSign
       @ '' Current screenshot is missing. This test may have been intentionally deleted.''
       @ nl
       @ ''      </div>'' @ nl
       @ ''    ''
      else if status r = Error then
       nl
       @ ''      <div class=\"error-message\">'' @ nl
       @ ''        '' @ crossMark @ '' Error: '' @ errorText r @ nl
       @ ''      </div>'' @ nl
       @ ''    ''
      else
       nl
       @ ''      <div class=\"image-panel three-panel\">'' @ nl
       @ ''        <div class=\"image-container\">'' @ nl
       @ ''          <div class=\"image-label\">Baseline</div>'' @ nl
       @ ''          <img src=\"images/'' @ name r @ ''-baseline.png\" alt=\"'' @ name r
       @ '' baseline\" />'' @ nl
       @ ''        </div>'' @ nl
       @ ''        <div class=\"image-container\">'' @ nl
       @ ''          <div class=\"image-label\">Current</div>'' @ nl
       @ ''          <img src=\"images/'' @ name r @ ''-current.png\" alt=\"'' @ name r
       @ '' current\" />'' @ nl
       @ ''        </div>'' @ nl
       @ ''        <div class=\"image-container\">'' @ nl
       @ ''          <div class=\"image-label\">Diff</div>'' @ nl
       @ ''          <img src=\"images/'' @ name r @ ''-diff.png\" alt=\"'' @ name r
       @ '' diff\" />'' @ nl
       @ ''        </div>'' @ nl
       @ ''      </div>'' @ nl
       @ ''    '')"

definition approveButton :: "ComparisonResult \<Rightarrow> string" where
  "approveButton r =
     (if status r = Failed \<or> status r = New then
       nl
       @ ''    <button '' @ nl
       @ ''      class=\"approve-btn\"'' @ nl
       @ ''      data-screenshot-name=\"'' @ name r @ ''\"'' @ nl
       @ ''      data-baseline-path=\"'' @ pathOrEmpty (baselinePath r) @ ''\"'' @ nl
       @ ''      data-current-path=\"'' @ pathOrEmpty (currentPath r) @ ''\"'' @ nl
       @ ''      data-action=\"approve\"'' @ nl
       @ ''      style=\"display: none;\"'' @ nl
       @ ''    >'' @ nl
       @ ''      '' @ checkMark @ '' Approve Change'' @ nl
       @ ''    </button>'' @ nl
       @ ''  ''
      else [])"

definition readOnlyMessage :: "ComparisonResult \<Rightarrow> string" where
  "readOnlyMessage r =
     (if status r = Failed \<or> status r = New then
       nl
       @ ''    <div class=\"read-only-message\" style=\"display: none;\">'' @ nl
       @ ''      <span class=\"read-only-icon\">'' @ lockSign @ ''</span>'' @ nl
       @ ''      <span class=\"read-only-text\">View-only mode - Start local server to approve changes</span>''
       @ nl
       @ ''      <code class=\"read-only-command\">npx tsvai serve</code>'' @ nl
       @ ''    </div>'' @ nl
       @ ''  ''
      else [])"

definition diffRatio :: "ComparisonResult \<Rightarrow> string" where
  "diffRatio r =
     (if status r = Passed \<or> status r = Failed then
       ''<span class=\"diff-ratio\">'' @ diffPercentage r @ ''% diff</span>''
      else [])"

text \<open>A string is true in a condition when it is not empty.\<close>

definition cardActions :: "ComparisonResult \<Rightarrow> string" where
  "cardActions r =
     (if approveButton r \<noteq> [] \<or> readOnlyMessage r \<noteq> [] then
       ''<div class=\"card-actions\">'' @ approveButton r @ readOnlyMessage r @ ''</div>''
      else [])"

definition generateComparisonCard :: "ComparisonResult \<Rightarrow> string" where
  "generateComparisonCard r =
       nl
       @ ''    <div class=\"comparison-card\" data-status=\"'' @ statusName (status r)
       @ ''\">'' @ nl
       @ ''      <div class=\"card-header\">'' @ nl
       @ ''        <h3 class=\"screenshot-name\">'' @ name r @ ''</h3>'' @ nl
       @ ''        <div class=\"card-meta\">'' @ nl
       @ ''          '' @ generateStatusBadge (status r) @ nl
       @ ''          '' @ diffRatio r @ nl
       @ ''        </div>'' @ nl
       @ ''      </div>'' @ nl
       @ ''      '' @ imagesHTML r @ nl
       @ ''      '' @ cardActions r @ nl
       @ ''    </div>'' @ nl
       @ ''  ''"

text \<open>\<^verbatim>\<open>summary.results.map(result => generateComparisonCard(result)).join('\n')\<close>.\<close>

definition cardsHTML :: "VerificationSummary \<Rightarrow> string" where
  "cardsHTML summary = joinWith nl (map generateComparisonCard (results summary))"

text \<open>
  The five cards of the counts that are not zero have one template each in the source,
  the same but for label, colour and count; likewise the filter buttons.
\<close>

definition summaryCard :: "string \<Rightarrow> string \<Rightarrow> nat \<Rightarrow> string" where
  "summaryCard label color n =
     (if n > 0 then
       nl
       @ ''        <div class=\"summary-card\">'' @ nl
       @ ''          <div class=\"label\">'' @ label @ ''</div>'' @ nl
       @ ''          <div class=\"value\" style=\"color: '' @ color @ ''\">'' @ string_of_nat n
       @ ''</div>'' @ nl
       @ ''        </div>'' @ nl
       @ ''        ''
      else [])"

definition filterButton :: "string \<Rightarrow> string \<Rightarrow> nat \<Rightarrow> string" where
  "filterButton f label n =
     (if n > 0 then
       ''<button class=\"filter-btn\" data-filter=\"'' @ f @ ''\">'' @ label @ ''</button>''
      else [])"

text \<open>
  The three blocks of the template that do not depend on the summary, line by line: the
  style sheet, the client script and the styles of the notifications.
\<close>

definition styleSheet :: string where
  "styleSheet = joinWith nl [
       ''    * {'',
       ''      margin: 0;'',
       ''      padding: 0;'',
       ''      box-sizing: border-box;'',
       ''    }'',
       [],
       ''    body {'',
       ''      font-family: -apple-system, BlinkMacSystemFont, 'Segoe UI', Roboto, 'Helvetica Neue', Arial, sans-serif;'',
       ''      background: #f9fafb;'',
       ''      color: #111827;'',
       ''      line-height: 1.5;'',
       ''    }'',
       [],
       ''    .container {'',
       ''      max-width: 1400px;'',
       ''      margin: 0 auto;'',
       ''      padding: 2rem;'',
       ''    }'',
       [],
       ''    .header {'',
       ''      background: white;'',
       ''      padding: 2rem;'',
       ''      border-radius: 8px;'',
       ''      box-shadow: 0 1px 3px rgba(0, 0, 0, 0.1);'',
       ''      margin-bottom: 2rem;'',
       ''    }'',
       [],
       ''    .header h1 {'',
       ''      font-size: 2rem;'',
       ''      font-weight: 700;'',
       ''      margin-bottom: 0.5rem;'',
       ''      color: #6366f1;'',
       ''    }'',
       [],
       ''    .header .subtitle {'',
       ''      color: #6b7280;'',
       ''      font-size: 0.875rem;'',
       ''    }'',
       [],
       ''    .summary {'',
       ''      display: grid;'',
       ''      grid-template-columns: repeat(auto-fit, minmax(150px, 1fr));'',
       ''      gap: 1rem;'',
       ''      margin-top: 1.5rem;'',
       ''    }'',
       [],
       ''    .summary-card {'',
       ''      background: #f9fafb;'',
       ''      padding: 1rem;'',
       ''      border-radius: 6px;'',
       ''      border: 1px solid #e5e7eb;'',
       ''    }'',
       [],
       ''    .summary-card .label {'',
       ''      font-size: 0.75rem;'',
       ''      text-transform: uppercase;'',
       ''      color: #6b7280;'',
       ''      font-weight: 600;'',
       ''      letter-spacing: 0.05em;'',
       ''    }'',
       [],
       ''    .summary-card .value {'',
       ''      font-size: 2rem;'',
       ''      font-weight: 700;'',
       ''      margin-top: 0.25rem;'',
       ''    }'',
       [],
       ''    .filters {'',
       ''      display: flex;'',
       ''      gap: 0.5rem;'',
       ''      margin-bottom: 2rem;'',
       ''      flex-wrap: wrap;'',
       ''    }'',
       [],
       ''    .filter-btn {'',
       ''      padding: 0.5rem 1rem;'',
       ''      border: 1px solid #d1d5db;'',
       ''      background: white;'',
       ''      border-radius: 6px;'',
       ''      cursor: pointer;'',
       ''      font-size: 0.875rem;'',
       ''      font-weight: 500;'',
       ''      transition: all 0.2s;'',
       ''    }'',
       [],
       ''    .filter-btn:hover {'',
       ''      background: #f3f4f6;'',
       ''    }'',
       [],
       ''    .filter-btn.active {'',
       ''      background: #6366f1;'',
       ''      color: white;'',
       ''      border-color: #6366f1;'',
       ''    }'',
       [],
       ''    .comparison-card {'',
       ''      background: white;'',
       ''      border-radius: 8px;'',
       ''      box-shadow: 0 1px 3px rgba(0, 0, 0, 0.1);'',
       ''      margin-bottom: 2rem;'',
       ''      overflow: hidden;'',
       ''    }'',
       [],
       ''    .card-header {'',
       ''      padding: 1.5rem;'',
       ''      border-bottom: 1px solid #e5e7eb;'',
       ''      display: flex;'',
       ''      justify-content: space-between;'',
       ''      align-items: center;'',
       ''    }'',
       [],
       ''    .screenshot-name {'',
       ''      font-size: 1.125rem;'',
       ''      font-weight: 600;'',
       ''    }'',
       [],
       ''    .card-meta {'',
       ''      display: flex;'',
       ''      gap: 0.75rem;'',
       ''      align-items: center;'',
       ''    }'',
       [],
       ''    .status-badge {'',
       ''      padding: 0.25rem 0.75rem;'',
       ''      border-radius: 9999px;'',
       ''      font-size: 0.75rem;'',
       ''      font-weight: 600;'',
       ''      color: white;'',
       ''      text-transform: uppercase;'',
       ''      letter-spacing: 0.05em;'',
       ''    }'',
       [],
       ''    .diff-ratio {'',
       ''      font-size: 0.875rem;'',
       ''      color: #6b7280;'',
       ''      font-weight: 500;'',
       ''    }'',
       [],
       ''    .image-panel {'',
       ''      padding: 1.5rem;'',
       ''      background: #f9fafb;'',
       ''    }'',
       [],
       ''    .image-panel.three-panel {'',
       ''      display: grid;'',
       ''      grid-template-columns: repeat(3, 1fr);'',
       ''      gap: 1rem;'',
       ''    }'',
       [],
       ''    .image-container {'',
       ''      background: white;'',
       ''      border-radius: 6px;'',
       ''      overflow: hidden;'',
       ''      border: 1px solid #e5e7eb;'',
       ''    }'',
       [],
       ''    .image-container.single {'',
       ''      max-width: 600px;'',
       ''      margin: 0 auto;'',
       ''    }'',
       [],
       ''    .image-label {'',
       ''      padding: 0.5rem 1rem;'',
       ''      background: #f3f4f6;'',
       ''      font-size: 0.75rem;'',
       ''      font-weight: 600;'',
       ''      text-transform: uppercase;'',
       ''      color: #6b7280;'',
       ''      letter-spacing: 0.05em;'',
       ''    }'',
       [],
       ''    .image-container img {'',
       ''      width: 100%;'',
       ''      height: auto;'',
       ''      display: block;'',
       ''    }'',
       [],
       ''    .card-actions {'',
       ''      padding: 1.5rem;'',
       ''      border-top: 1px solid #e5e7eb;'',
       ''      display: flex;'',
       ''      justify-content: flex-end;'',
       ''    }'',
       [],
       ''    .approve-btn {'',
       ''      padding: 0.75rem 1.5rem;'',
       ''      background: #10b981;'',
       ''      color: white;'',
       ''      border: none;'',
       ''      border-radius: 6px;'',
       ''      font-size: 0.875rem;'',
       ''      font-weight: 600;'',
       ''      cursor: pointer;'',
       ''      transition: background 0.2s;'',
       ''    }'',
       [],
       ''    .approve-btn:hover {'',
       ''      background: #059669;'',
       ''    }'',
       [],
       ''    .approve-btn:disabled {'',
       ''      background: #9ca3af;'',
       ''      cursor: not-allowed;'',
       ''    }'',
       [],
       ''    .read-only-message {'',
       ''      padding: 0.75rem 1rem;'',
       ''      background: #f3f4f6;'',
       ''      border: 1px solid #e5e7eb;'',
       ''      border-radius: 6px;'',
       ''      display: flex;'',
       ''      align-items: center;'',
       ''      gap: 0.5rem;'',
       ''      font-size: 0.875rem;'',
       ''      color: #6b7280;'',
       ''    }'',
       [],
       ''    .read-only-icon {'',
       ''      font-size: 1rem;'',
       ''    }'',
       [],
       ''    .read-only-text {'',
       ''      flex: 1;'',
       ''    }'',
       [],
       ''    .read-only-command {'',
       ''      padding: 0.25rem 0.5rem;'',
       ''      background: #1f2937;'',
       ''      color: #10b981;'',
       ''      border-radius: 4px;'',
       ''      font-family: 'Courier New', monospace;'',
       ''      font-size: 0.75rem;'',
       ''      white-space: nowrap;'',
       ''    }'',
       [],
       ''    .warning-message {'',
       ''      padding: 1rem 1.5rem;'',
       ''      background: #fef3c7;'',
       ''      color: #92400e;'',
       ''      border-left: 4px solid #f59e0b;'',
       ''      margin: 1rem 1.5rem;'',
       ''      border-radius: 4px;'',
       ''    }'',
       [],
       ''    .error-message {'',
       ''      padding: 1rem 1.5rem;'',
       ''      background: #fee2e2;'',
       ''      color: #991b1b;'',
       ''      border-left: 4px solid #ef4444;'',
       ''      margin: 1rem 1.5rem;'',
       ''      border-radius: 4px;'',
       ''    }'',
       [],
       ''    @media (max-width: 768px) {'',
       ''      .image-panel.three-panel {'',
       ''        grid-template-columns: 1fr;'',
       ''      }'',
       [],
       ''      .summary {'',
       ''        grid-template-columns: repeat(2, 1fr);'',
       ''      }'',
       ''    }'']"

definition clientScript :: string where
  "clientScript = joinWith nl [
       ''    // Security Gate: Check if local server is running'',
       ''    async function checkServerStatus() {'',
       ''      try {'',
       ''        const controller = new AbortController();'',
       ''        const timeoutId = setTimeout(() => controller.abort(), 5000); // 5 second timeout'',
       ''        '',
       ''        const response = await fetch('/api/status', {'',
       ''          method: 'GET','',
       ''          signal: controller.signal'',
       ''        });'',
       ''        '',
       ''        clearTimeout(timeoutId);'',
       ''        '',
       ''        if (response.ok) {'',
       ''          // Server is running - show approve buttons'',
       ''          const approveButtons = document.querySelectorAll('.approve-btn');'',
       ''          const readOnlyMessages = document.querySelectorAll('.read-only-message');'',
       ''          '',
       ''          approveButtons.forEach(btn => {'',
       ''            btn.style.display = 'inline-block';'',
       ''          });'',
       ''          '',
       ''          readOnlyMessages.forEach(msg => {'',
       ''            msg.style.display = 'none';'',
       ''          });'',
       ''          '',
       ''          console.log('' @ [CHR 0x27] @ checkMark @ '' Local server detected - Approve buttons enabled');'',
       ''          return true;'',
       ''        } else {'',
       ''          throw new Error('Server not responding');'',
       ''        }'',
       ''      } catch (error) {'',
       ''        // Server not running - show read-only message'',
       ''        const approveButtons = document.querySelectorAll('.approve-btn');'',
       ''        const readOnlyMessages = document.querySelectorAll('.read-only-message');'',
       ''        '',
       ''        approveButtons.forEach(btn => {'',
       ''          btn.style.display = 'none';'',
       ''        });'',
       ''        '',
       ''        readOnlyMessages.forEach(msg => {'',
       ''          msg.style.display = 'flex';'',
       ''        });'',
       ''        '',
       ''        console.log('' @ [CHR 0x27] @ [CHR 0xE2, CHR 0x84, CHR 0xB9] @ '' View-only mode - Start server with \"npx tsvai serve\" to approve changes');'',
       ''        return false;'',
       ''      }'',
       ''    }'',
       [],
       ''    // Run security check on page load'',
       ''    let isServerRunning = false;'',
       ''    checkServerStatus().then(result => {'',
       ''      isServerRunning = result;'',
       ''    });'',
       [],
       ''    // Filter functionality'',
       ''    const filterButtons = document.querySelectorAll('.filter-btn');'',
       ''    const comparisonCards = document.querySelectorAll('.comparison-card');'',
       [],
       ''    filterButtons.forEach(btn => {'',
       ''      btn.addEventListener('click', () => {'',
       ''        const filter = btn.dataset.filter;'',
       ''        '',
       ''        // Update active button'',
       ''        filterButtons.forEach(b => b.classList.remove('active'));'',
       ''        btn.classList.add('active');'',
       [],
       ''        // Filter cards'',
       ''        comparisonCards.forEach(card => {'',
       ''          const status = card.dataset.status;'',
       ''          if (filter === 'all' || status === filter) {'',
       ''            card.style.display = 'block';'',
       ''          } else {'',
       ''            card.style.display = 'none';'',
       ''          }'',
       ''        });'',
       ''      });'',
       ''    });'',
       [],
       ''    // Approve button functionality'',
       ''    const approveButtons = document.querySelectorAll('.approve-btn');'',
       ''    approveButtons.forEach(btn => {'',
       ''      btn.addEventListener('click', async () => {'',
       ''        const name = btn.dataset.screenshotName;'',
       ''        '',
       ''        // Disable button during request'',
       ''        btn.disabled = true;'',
       ''        btn.textContent = '' @ [CHR 0x27] @ [CHR 0xE2, CHR 0x8F, CHR 0xB3] @ '' Approving...';'',
       ''        '',
       ''        try {'',
       ''          const response = await fetch('/api/accept-baseline', {'',
       ''            method: 'POST','',
       ''            headers: {'',
       ''              'Content-Type': 'application/json','',
       ''            },'',
       ''            body: JSON.stringify({ snapshotName: name }),'',
       ''          });'',
       ''          '',
       ''          const result = await response.json();'',
       ''          '',
       ''          if (result.success) {'',
       ''            // Show success message'',
       ''            btn.textContent = '' @ [CHR 0x27] @ checkMark @ '' Approved!';'',
       ''            btn.style.backgroundColor = '#10b981';'',
       ''            '',
       ''            // Show success notification'',
       ''            showNotification('Success', `Baseline approved for: ${name}`, 'success');'',
       ''            '',
       ''            // Reload page after 1 second'',
       ''            setTimeout(() => {'',
       ''              window.location.reload();'',
       ''            }, 1000);'',
       ''          } else {'',
       ''            // Show error'',
       ''            btn.textContent = '' @ [CHR 0x27] @ [CHR 0xE2, CHR 0x9C, CHR 0x97] @ '' Failed';'',
       ''            btn.style.backgroundColor = '#ef4444';'',
       ''            showNotification('Error', result.message || 'Failed to approve baseline', 'error');'',
       ''            '',
       ''            // Re-enable button after 2 seconds'',
       ''            setTimeout(() => {'',
       ''              btn.disabled = false;'',
       ''              btn.textContent = '' @ [CHR 0x27] @ checkMark @ '' Approve Change';'',
       ''              btn.style.backgroundColor = '#10b981';'',
       ''            }, 2000);'',
       ''          }'',
       ''        } catch (error) {'',
       ''          btn.textContent = '' @ [CHR 0x27] @ [CHR 0xE2, CHR 0x9C, CHR 0x97] @ '' Network Error';'',
       ''          btn.style.backgroundColor = '#ef4444';'',
       ''          showNotification('Error', 'Failed to connect to server', 'error');'',
       ''          '',
       ''          // Re-enable button after 2 seconds'',
       ''          setTimeout(() => {'',
       ''            btn.disabled = false;'',
       ''            btn.textContent = '' @ [CHR 0x27] @ checkMark @ '' Approve Change';'',
       ''            btn.style.backgroundColor = '#10b981';'',
       ''          }, 2000);'',
       ''        }'',
       ''      });'',
       ''    });'',
       [],
       ''    // Notification system'',
       ''    function showNotification(title, message, type) {'',
       ''      const notification = document.createElement('div');'',
       ''      notification.style.cssText = `'',
       ''        position: fixed;'',
       ''        top: 20px;'',
       ''        right: 20px;'',
       ''        padding: 1rem 1.5rem;'',
       ''        background: ${type === 'success' ? '#10b981' : '#ef4444'};'',
       ''        color: white;'',
       ''        border-radius: 8px;'',
       ''        box-shadow: 0 4px 6px rgba(0, 0, 0, 0.1);'',
       ''        z-index: 1000;'',
       ''        animation: slideIn 0.3s ease-out;'',
       ''      `;'',
       ''      notification.innerHTML = `'',
       ''        <div style=\"font-weight: 600; margin-bottom: 0.25rem;\">${title}</div>'',
       ''        <div style=\"font-size: 0.875rem;\">${message}</div>'',
       ''      `;'',
       ''      '',
       ''      document.body.appendChild(notification);'',
       ''      '',
       ''      setTimeout(() => {'',
       ''        notification.style.animation = 'slideOut 0.3s ease-in';'',
       ''        setTimeout(() => notification.remove(), 300);'',
       ''      }, 3000);'',
       ''    }'',
       [],
       ''    // Auto-refresh every 10 seconds (only if server is running)'',
       ''    let autoRefreshInterval = null;'',
       ''    '',
       ''    checkServerStatus().then(serverRunning => {'',
       ''      if (serverRunning) {'',
       ''        autoRefreshInterval = setInterval(() => {'',
       ''          console.log('Auto-refreshing dashboard...');'',
       ''          window.location.reload();'',
       ''        }, 10000);'',
       ''      }'',
       ''    });'',
       [],
       ''    // Clear interval when page is hidden (user switched tabs)'',
       ''    document.addEventListener('visibilitychange', () => {'',
       ''      if (document.hidden) {'',
       ''        if (autoRefreshInterval) {'',
       ''          clearInterval(autoRefreshInterval);'',
       ''        }'',
       ''      } else if (isServerRunning) {'',
       ''        autoRefreshInterval = setInterval(() => {'',
       ''          window.location.reload();'',
       ''        }, 10000);'',
       ''      }'',
       ''    });'']"

definition animations :: string where
  "animations = joinWith nl [
       ''    @keyframes slideIn {'',
       ''      from {'',
       ''        transform: translateX(100%);'',
       ''        opacity: 0;'',
       ''      }'',
       ''      to {'',
       ''        transform: translateX(0);'',
       ''        opacity: 1;'',
       ''      }'',
       ''    }'',
       [],
       ''    @keyframes slideOut {'',
       ''      from {'',
       ''        transform: translateX(0);'',
       ''        opacity: 1;'',
       ''      }'',
       ''      to {'',
       ''        transform: translateX(100%);'',
       ''        opacity: 0;'',
       ''      }'',
       ''    }'']"

text \<open>
  \<^verbatim>\<open>generateHTMLReport\<close>. \<open>toLocaleString\<close> stands for
  \<^verbatim>\<open>new Date(t).toLocaleString()\<close>, which depends on the locale of the machine.
\<close>

definition generateHTMLReport :: "(string \<Rightarrow> string) \<Rightarrow> VerificationSummary \<Rightarrow> string" where
  "generateHTMLReport toLocaleString summary =
     ''<!DOCTYPE html>'' @ nl
     @ ''<html lang=\"en\">'' @ nl
     @ ''<head>'' @ nl
     @ ''  <meta charset=\"UTF-8\">'' @ nl
     @ ''  <meta name=\"viewport\" content=\"width=device-width, initial-scale=1.0\">'' @ nl
     @ ''  <title>TestivAI Insight Dashboard</title>'' @ nl
     @ ''  <style>'' @ nl
     @ styleSheet @ nl
     @ ''  </style>'' @ nl
     @ ''</head>'' @ nl
     @ ''<body>'' @ nl
     @ ''  <div class=\"container\">'' @ nl
     @ ''    <div class=\"header\">'' @ nl
     @ ''      <h1>'' @ magnifier @ '' TestivAI Insight Dashboard</h1>'' @ nl
     @ ''      <p class=\"subtitle\">Generated on '' @ toLocaleString (timestamp summary)
     @ ''</p>'' @ nl
     @ ''      '' @ nl
     @ ''      <div class=\"summary\">'' @ nl
     @ ''        <div class=\"summary-card\">'' @ nl
     @ ''          <div class=\"label\">Total</div>'' @ nl
     @ ''          <div class=\"value\">'' @ string_of_nat (total summary) @ ''</div>'' @ nl
     @ ''        </div>'' @ nl
     @ ''        '' @ summaryCard ''Passed'' ''#10b981'' (passed summary) @ nl
     @ ''        '' @ summaryCard ''Diff Detected'' ''#f59e0b'' (failed summary) @ nl
     @ ''        '' @ summaryCard ''New'' ''#3b82f6'' (new summary) @ nl
     @ ''        '' @ summaryCard ''Missing'' ''#f59e0b'' (missing summary) @ nl
     @ ''        '' @ summaryCard ''Errors'' ''#6b7280'' (errors summary) @ nl
     @ ''      </div>'' @ nl
     @ ''    </div>'' @ nl
     @ nl
     @ ''    <div class=\"filters\">'' @ nl
     @ ''      <button class=\"filter-btn active\" data-filter=\"all\">All</button>'' @ nl
     @ ''      '' @ filterButton ''failed'' ''Diff Detected'' (failed summary) @ nl
     @ ''      '' @ filterButton ''new'' ''New'' (new summary) @ nl
     @ ''      '' @ filterButton ''passed'' ''Passed'' (passed summary) @ nl
     @ ''      '' @ filterButton ''missing'' ''Missing'' (missing summary) @ nl
     @ ''      '' @ filterButton ''error'' ''Errors'' (errors summary) @ nl
     @ ''    </div>'' @ nl
     @ nl
     @ ''    <div class=\"comparisons\">'' @ nl
     @ ''      '' @ cardsHTML summary @ nl
     @ ''    </div>'' @ nl
     @ ''  </div>'' @ nl
     @ nl
     @ ''  <script>'' @ nl
     @ clientScript @ nl
     @ ''  </script>'' @ nl
     @ nl
     @ ''  <style>'' @ nl
     @ animations @ nl
     @ ''  </style>'' @ nl
     @ ''</body>'' @ nl
     @ ''</html>''"

text \<open>
  A directory of screenshots in which one snapshot is named \<^verbatim>\<open><button class=approve-btn>\<close>
  (its file is \<^verbatim>\<open><button class=approve-btn>.png\<close>): baseline and current image are the
  same image of one pixel. \<open>injectedResult\<close> is the result of that snapshot.
\<close>

definition injectedWorld :: world where
  "injectedWorld = \<lparr>
     files = map_of [
       (''/w/.testivai/artifacts/baselines/<button class=approve-btn>.png'',
        [CHR 0x01, CHR 0x01, CHR 0x00, CHR 0x00, CHR 0x00, CHR 0x00]),
       (''/w/.testivai/artifacts/current/<button class=approve-btn>.png'',
        [CHR 0x01, CHR 0x01, CHR 0x00, CHR 0x00, CHR 0x00, CHR 0x00])],
     dirs = {''/w'', ''/w/.testivai/artifacts/baselines'', ''/w/.testivai/artifacts/current''},
     listing = (\<lambda>d. if d = ''/w/.testivai/artifacts/baselines'' \<or> d = ''/w/.testivai/artifacts/current''
                     then [''<button class=approve-btn>.png''] else []),
     fault = (\<lambda>op. None),
     events = []\<rparr>"

definition injectedResult :: ComparisonResult where
  "injectedResult = \<lparr>
     name = ''<button class=approve-btn>'', status = Passed, diffPixelRatio = 0,
     diffPixelCount = 0, totalPixels = 1,
     baselinePath = Some ''/w/.testivai/artifacts/baselines/<button class=approve-btn>.png'',
     currentPath = Some ''/w/.testivai/artifacts/current/<button class=approve-btn>.png'',
     diffPath = Some ''/w/.testivai/artifacts/diffs/<button class=approve-btn>.png'',
     error = None, threshold = binary64 0.1\<rparr>"

subsection \<open>Markup in a snapshot name\<close>

lemma startsWith_append: "startsWith s p \<Longrightarrow> startsWith (s @ t) p"
  by (induction s p rule: startsWith.induct) simp_all

lemma includesStr_appendR: "includesStr s p \<Longrightarrow> includesStr (s @ t) p"
proof (induction s)
  case Nil
  then show ?case by (cases t) simp_all
next
  case (Cons c cs)
  then show ?case using startsWith_append [of "c # cs" p t] by auto
qed

lemma includesStr_appendL: "includesStr s p \<Longrightarrow> includesStr (t @ s) p"
proof (induction t)
  case Nil
  then show ?case by simp
next
  case (Cons c cs)
  then show ?case by simp
qed

text \<open>
  What the template does for the gate: it writes the approve button and the read-only
  notice for the statuses \<open>failed\<close> and \<open>new\<close> and for no other, and the button with
  the style \<^verbatim>\<open>display: none\<close>.
\<close>

lemma approve_button_template:
  "(approveButton r \<noteq> [] \<longleftrightarrow> status r = Failed \<or> status r = New)
   \<and> (readOnlyMessage r \<noteq> [] \<longleftrightarrow> status r = Failed \<or> status r = New)
   \<and> (status r = Failed \<or> status r = New \<longrightarrow>
        includesStr (approveButton r) ''style=\"display: none;\"'')"
proof (intro conjI impI)
  show "approveButton r \<noteq> [] \<longleftrightarrow> status r = Failed \<or> status r = New"
    by (simp add: approveButton_def nl_def)
  show "readOnlyMessage r \<noteq> [] \<longleftrightarrow> status r = Failed \<or> status r = New"
    by (simp add: readOnlyMessage_def nl_def)
  assume st: "status r = Failed \<or> status r = New"
  have "includesStr ''      style=\"display: none;\"'' ''style=\"display: none;\"''" by code_simp
  then have here: "includesStr (''      style=\"display: none;\"'' @ rest) ''style=\"display: none;\"''"
    for rest by (rule includesStr_appendR)
  show "includesStr (approveButton r) ''style=\"display: none;\"''"
    using st unfolding approveButton_def
    by (simp only: if_True) ((rule here | rule includesStr_appendL)+)
qed

text \<open>
  C1. The report is to have an approve control only for the results with status
  \<open>failed\<close> or \<open>new\<close>, each emitted with \<^verbatim>\<open>display: none\<close> next to a read-only notice,
  and the script is to show the controls only after a successful probe. The template
  does write the button and the notice only for these two statuses, with that style; but
  it writes the name of the snapshot into the markup as it is. For the snapshot named
  \<^verbatim>\<open><button class=approve-btn>\<close>, which \<^verbatim>\<open>runVerification\<close> finds and passes, the
  heading of the card is the markup of a button of class \<^verbatim>\<open>approve-btn\<close>: the report
  contains an approve control for a result with status \<open>passed\<close>, the card has no
  \<^verbatim>\<open>display: none\<close> and no read-only notice, and the control is there before any probe
  has been answered.
\<close>

theorem injected_approve_control:
  "(case runVerification demoLibs ''/w'' now injectedWorld of
      Inl m \<Rightarrow> [] | Inr (s, w') \<Rightarrow> results s) = [injectedResult]
   \<and> status injectedResult = Passed
   \<and> generateComparisonCard injectedResult =
       nl
       @ ''    <div class=\"comparison-card\" data-status=\"passed\">'' @ nl
       @ ''      <div class=\"card-header\">'' @ nl
       @ ''        <h3 class=\"screenshot-name\"><button class=approve-btn></h3>'' @ nl
       @ ''        <div class=\"card-meta\">'' @ nl
       @ ''          <span class=\"status-badge status-passed\" style=\"background-color: #10b981\">Passed</span>''
       @ nl
       @ ''          <span class=\"diff-ratio\">0.00% diff</span>'' @ nl
       @ ''        </div>'' @ nl
       @ ''      </div>'' @ nl
       @ ''      '' @ nl
       @ ''      <div class=\"image-panel three-panel\">'' @ nl
       @ ''        <div class=\"image-container\">'' @ nl
       @ ''          <div class=\"image-label\">Baseline</div>'' @ nl
       @ ''          <img src=\"images/<button class=approve-btn>-baseline.png\" alt=\"<button class=approve-btn> baseline\" />''
       @ nl
       @ ''        </div>'' @ nl
       @ ''        <div class=\"image-container\">'' @ nl
       @ ''          <div class=\"image-label\">Current</div>'' @ nl
       @ ''          <img src=\"images/<button class=approve-btn>-current.png\" alt=\"<button class=approve-btn> current\" />''
       @ nl
       @ ''        </div>'' @ nl
       @ ''        <div class=\"image-container\">'' @ nl
       @ ''          <div class=\"image-label\">Diff</div>'' @ nl
       @ ''          <img src=\"images/<button class=approve-btn>-diff.png\" alt=\"<button class=approve-btn> diff\" />''
       @ nl
       @ ''        </div>'' @ nl
       @ ''      </div>'' @ nl
       @ ''    '' @ nl
       @ ''      '' @ nl
       @ ''    </div>'' @ nl
       @ ''  ''
   \<and> includesStr (generateHTMLReport toLocaleString (summarize [injectedResult] now))
         ''<h3 class=\"screenshot-name\"><button class=approve-btn></h3>''
   \<and> \<not> includesStr (generateComparisonCard injectedResult) ''display: none''
   \<and> \<not> includesStr (generateComparisonCard injectedResult) ''read-only-message''"
proof (intro conjI)
  show "(case runVerification demoLibs ''/w'' now injectedWorld of
      Inl m \<Rightarrow> [] | Inr (s, w') \<Rightarrow> results s) = [injectedResult]"
    by code_simp
  show "status injectedResult = Passed" by (simp add: injectedResult_def)
  show "generateComparisonCard injectedResult =
       nl
       @ ''    <div class=\"comparison-card\" data-status=\"passed\">'' @ nl
       @ ''      <div class=\"card-header\">'' @ nl
       @ ''        <h3 class=\"screenshot-name\"><button class=approve-btn></h3>'' @ nl
       @ ''        <div class=\"card-meta\">'' @ nl
       @ ''          <span class=\"status-badge status-passed\" style=\"background-color: #10b981\">Passed</span>''
       @ nl
       @ ''          <span class=\"diff-ratio\">0.00% diff</span>'' @ nl
       @ ''        </div>'' @ nl
       @ ''      </div>'' @ nl
       @ ''      '' @ nl
       @ ''      <div class=\"image-panel three-panel\">'' @ nl
       @ ''        <div class=\"image-container\">'' @ nl
       @ ''          <div class=\"image-label\">Baseline</div>'' @ nl
       @ ''          <img src=\"images/<button class=approve-btn>-baseline.png\" alt=\"<button class=approve-btn> baseline\" />''
       @ nl
       @ ''        </div>'' @ nl
       @ ''        <div class=\"image-container\">'' @ nl
       @ ''          <div class=\"image-label\">Current</div>'' @ nl
       @ ''          <img src=\"images/<button class=approve-btn>-current.png\" alt=\"<button class=approve-btn> current\" />''
       @ nl
       @ ''        </div>'' @ nl
       @ ''        <div class=\"image-container\">'' @ nl
       @ ''          <div class=\"image-label\">Diff</div>'' @ nl
       @ ''          <img src=\"images/<button class=approve-btn>-diff.png\" alt=\"<button class=approve-btn> diff\" />''
       @ nl
       @ ''        </div>'' @ nl
       @ ''      </div>'' @ nl
       @ ''    '' @ nl
       @ ''      '' @ nl
       @ ''    </div>'' @ nl
       @ ''  ''"
    by code_simp
  have card: "includesStr (generateComparisonCard injectedResult)
                ''<h3 class=\"screenshot-name\"><button class=approve-btn></h3>''"
    by code_simp
  have cards: "cardsHTML (summarize [injectedResult] now) = generateComparisonCard injectedResult"
    by (simp add: cardsHTML_def summarize_def)
  have here: "includesStr (cardsHTML (summarize [injectedResult] now) @ rest)
                ''<h3 class=\"screenshot-name\"><button class=approve-btn></h3>''" for rest
    unfolding cards by (rule includesStr_appendR [OF card])
  show "includesStr (generateHTMLReport toLocaleString (summarize [injectedResult] now))
         ''<h3 class=\"screenshot-name\"><button class=approve-btn></h3>''"
    unfolding generateHTMLReport_def
    by (rule here | rule includesStr_appendL)+
  show "\<not> includesStr (generateComparisonCard injectedResult) ''display: none''"
    by code_simp
  show "\<not> includesStr (generateComparisonCard injectedResult) ''read-only-message''"
    by code_simp
qed

section \<open>Local server (cli/commands/serve.ts)\<close>

text \<open>
  The request listener of \<^verbatim>\<open>serveCommand\<close>. The approval endpoint is handed to
  \<^verbatim>\<open>handleAcceptBaseline\<close>, which calls \<^verbatim>\<open>approveBaseline\<close>; every other request is
  answered here.
\<close>

record httpResponse =
  statusCode :: nat
  contentType :: string
  body :: string

definition MIME_TYPES :: "(string \<times> string) list" where
  "MIME_TYPES = [
     (''.html'', ''text/html''),
     (''.css'', ''text/css''),
     (''.js'', ''text/javascript''),
     (''.json'', ''application/json''),
     (''.png'', ''image/png''),
     (''.jpg'', ''image/jpeg''),
     (''.jpeg'', ''image/jpeg''),
     (''.gif'', ''image/gif''),
     (''.svg'', ''image/svg+xml'')]"

definition path_extname :: "string \<Rightarrow> string" where
  "path_extname p =
     (let base = rev (takeWhile (\<lambda>c. c \<noteq> CHR ''/'') (rev p))
      in if base = ''..'' \<or> CHR ''.'' \<notin> set base then []
         else let ext = CHR ''.'' # rev (takeWhile (\<lambda>c. c \<noteq> CHR ''.'') (rev base))
              in if length ext = length base then [] else ext)"

definition serveStaticFile :: "world \<Rightarrow> string \<Rightarrow> httpResponse" where
  "serveStaticFile w filePath =
     (case readFile w filePath of
        Inr content \<Rightarrow>
          \<lparr>statusCode = 200,
           contentType = (case map_of MIME_TYPES (path_extname filePath) of
                            Some mimeType \<Rightarrow> mimeType
                          | None \<Rightarrow> ''application/octet-stream''),
           body = content\<rparr>
      | Inl msg \<Rightarrow> \<lparr>statusCode = 404, contentType = ''text/plain'', body = ''File not found''\<rparr>)"

datatype handled = Responded httpResponse | AcceptBaseline

definition statusOkBody :: string where
  "statusOkBody = ''{'' @ [CHR 0x22] @ ''status'' @ [CHR 0x22] @ '':'' @ [CHR 0x22] @ ''ok''
                  @ [CHR 0x22] @ ''}''"

definition requestListener ::
  "string \<Rightarrow> string \<Rightarrow> string \<Rightarrow> world \<Rightarrow> string \<Rightarrow> string \<Rightarrow> handled" where
  "requestListener cwd reportsDir indexPath w reqUrl reqMethod =
     (let url = (if reqUrl = [] then ''/'' else reqUrl)
      in if url = ''/api/status'' \<and> reqMethod = ''GET''
         then Responded \<lparr>statusCode = 200, contentType = ''application/json'',
                          body = statusOkBody\<rparr>
         else if url = ''/api/accept-baseline'' \<and> reqMethod = ''POST''
         then AcceptBaseline
         else
           (let filePath =
                  (if url = ''/'' \<or> url = ''/index.html'' then indexPath
                   else path_join [reportsDir, drop 1 (hd (splitOn CHR ''?'' url))]);
                resolvedPath = path_resolve cwd filePath;
                resolvedReportsDir = path_resolve cwd reportsDir
            in if \<not> startsWith resolvedPath resolvedReportsDir
               then Responded \<lparr>statusCode = 403, contentType = ''text/plain'',
                                body = ''Forbidden''\<rparr>
               else Responded (serveStaticFile w filePath)))"

text \<open>
  \<^verbatim>\<open>serveCommand\<close> up to the creation of the server: \<open>Inl\<close> when it exits, otherwise the
  report directory and the path of the index page that the request listener uses.
\<close>

definition serveCommand_start :: "libs \<Rightarrow> string \<Rightarrow> world \<Rightarrow> string + string \<times> string" where
  "serveCommand_start L cwd w =
     (case loadConfig L cwd None w of
        Inl msg \<Rightarrow> Inl msg
      | Inr config \<Rightarrow>
          (let reportsDir = path_join [cwd, reports (paths config)];
               indexPath = path_join [reportsDir, ''index.html'']
           in if \<not> existsSync w indexPath then Inl ''No report found''
              else Inr (reportsDir, indexPath)))"

text \<open>The containment the specification asks for: the path is the root or lies below it.\<close>

definition insideRoot :: "string \<Rightarrow> string \<Rightarrow> bool" where
  "insideRoot rootDir p = (p = rootDir \<or> startsWith p (rootDir @ ''/''))"

definition reportWorld :: world where
  "reportWorld = \<lparr>
     files = map_of [(''/w/.testivai/reports/index.html'', ''<html></html>''),
                     (''/w/.testivai/reports-private/secret.txt'', ''TOP SECRET''),
                     (''/etc/passwd'', ''root:x:0:0'')],
     dirs = {''/w'', ''/w/.testivai'', ''/w/.testivai/reports'', ''/w/.testivai/reports-private'',
             ''/etc''},
     listing = (\<lambda>d. []),
     fault = (\<lambda>op. None),
     events = []\<rparr>"

subsection \<open>Path containment\<close>

text \<open>
  C3. A request that is not for one of the two API endpoints is answered with a file only
  when its resolved path stays inside the report directory, and with 403 otherwise. The
  listener does not do this: it tests that the resolved path starts with the characters of
  the resolved report directory, so a sibling directory whose name continues the name of
  the report directory passes. With the report directory \<^verbatim>\<open>/w/.testivai/reports\<close>, the
  request \<^verbatim>\<open>GET /../reports-private/secret.txt\<close> resolves to a path outside it and is
  answered 200 with the content of that file. A traversal that leaves the prefix is
  refused with 403, and a file of the report directory is served.
\<close>

theorem sibling_directory_served:
  "serveCommand_start demoLibs ''/w'' reportWorld
     = Inr (''/w/.testivai/reports'', ''/w/.testivai/reports/index.html'')
   \<and> requestListener ''/w'' ''/w/.testivai/reports'' ''/w/.testivai/reports/index.html'' reportWorld
       ''/../reports-private/secret.txt'' ''GET''
     = Responded \<lparr>statusCode = 200, contentType = ''application/octet-stream'',
                   body = ''TOP SECRET''\<rparr>
   \<and> path_resolve ''/w'' (path_join [''/w/.testivai/reports'', ''../reports-private/secret.txt''])
     = ''/w/.testivai/reports-private/secret.txt''
   \<and> \<not> insideRoot ''/w/.testivai/reports'' ''/w/.testivai/reports-private/secret.txt''
   \<and> requestListener ''/w'' ''/w/.testivai/reports'' ''/w/.testivai/reports/index.html'' reportWorld
       ''/../../../etc/passwd'' ''GET''
     = Responded \<lparr>statusCode = 403, contentType = ''text/plain'', body = ''Forbidden''\<rparr>
   \<and> requestListener ''/w'' ''/w/.testivai/reports'' ''/w/.testivai/reports/index.html'' reportWorld
       ''/index.html?x=1'' ''GET''
     = Responded \<lparr>statusCode = 200, contentType = ''text/html'', body = ''<html></html>''\<rparr>"
  by code_simp

section \<open>Running with and without a configuration file\<close>

text \<open>
  A configuration file with two comment lines, the first after a byte order mark and the
  second indented by a no-break space, a parser that knows this one document, the world
  in which the file can be read and the world in which reading it is refused.
\<close>

definition validConfigJson :: json where
  "validConfigJson = JObj [
     (''artifactRoot'', JStr ''.custom/artifacts''),
     (''paths'', JObj [(''baseline'', JStr ''.custom/baseline''),
                       (''current'', JStr ''.custom/current''),
                       (''diff'', JStr ''.custom/diff''),
                       (''reports'', JStr ''.custom/reports'')]),
     (''visualEngine'', JObj [(''type'', JStr ''pixelmatch''),
                              (''threshold'', JNum (binary64 0.2))]),
     (''environments'', JObj [(''mobile'', JObj [(''width'', JNum 375), (''height'', JNum 667)])])]"

definition configText :: string where
  "configText = [CHR 0xEF, CHR 0xBB, CHR 0xBF] @ ''// custom configuration'' @ [CHR 0x0A]
                @ [CHR 0xC2, CHR 0xA0] @ '' // thresholds'' @ [CHR 0x0A] @ ''{ custom }''"

definition configLibs :: libs where
  "configLibs = demoLibs\<lparr>jsonParse :=
     (\<lambda>s. if s = ''{ custom }'' then Inr validConfigJson else Inl ''Unexpected token'')\<rparr>"

definition customWorld :: world where
  "customWorld = demoWorld\<lparr>files := (files demoWorld)(''/w/testivai.config.json'' \<mapsto> configText)\<rparr>"

definition unreadableConfig :: world where
  "unreadableConfig = customWorld\<lparr>fault :=
     (\<lambda>op. if op = OpRead ''/w/testivai.config.json''
           then Some (''EACCES: permission denied, open '' @ quoted ''/w/testivai.config.json'')
           else None)\<rparr>"

subsection \<open>Properties of loading the configuration\<close>

lemma loadConfig_throws_iff:
  "isl (loadConfig L cwd cp w) \<longleftrightarrow>
     existsSync w (configFilePathOf cwd cp)
     \<and> (case readFile w (configFilePathOf cwd cp) of
          Inl msg \<Rightarrow> True
        | Inr content \<Rightarrow>
            (case jsonParse L (stripComments content) of
               Inl msg \<Rightarrow> True
             | Inr config \<Rightarrow> isl (validateConfig config)))"
  by (auto simp: loadConfig_def Let_def split: sum.splits)

text \<open>
  C10 (amended). Without a configuration file \<^verbatim>\<open>loadConfig\<close> returns the default
  configuration (artifacts under \<^verbatim>\<open>.testivai/artifacts\<close>, reports under
  \<^verbatim>\<open>.testivai/reports\<close>, threshold 0.1). It throws exactly when the file exists and
  cannot be read, or what is left of its content when the lines that start with \<^verbatim>\<open>//\<close>
  after their leading white space are taken out is not parsed as JSON, or the parsed
  value fails the validation. So without a configuration file the verification scans the
  default directories, the approval works on the default paths and the server serves the
  default report directory.
\<close>

theorem loadConfig_default_or_throw:
  "(\<not> existsSync w (configFilePathOf cwd cp) \<longrightarrow> loadConfig L cwd cp w = Inr DEFAULT_CONFIG)
   \<and> paths DEFAULT_CONFIG = \<lparr>baseline = ''.testivai/artifacts/baselines'',
                              current = ''.testivai/artifacts/current'',
                              diff = ''.testivai/artifacts/diffs'',
                              reports = ''.testivai/reports''\<rparr>
   \<and> engineThreshold (visualEngine DEFAULT_CONFIG) = binary64 0.1
   \<and> (isl (loadConfig L cwd cp w) \<longleftrightarrow>
        existsSync w (configFilePathOf cwd cp)
        \<and> (case readFile w (configFilePathOf cwd cp) of
             Inl msg \<Rightarrow> True
           | Inr content \<Rightarrow>
               (case jsonParse L (stripComments content) of
                  Inl msg \<Rightarrow> True
                | Inr config \<Rightarrow> isl (validateConfig config))))
   \<and> (\<not> existsSync w (path_join [cwd, ''testivai.config.json'']) \<longrightarrow>
        scan L cwd w = scanDirs DEFAULT_CONFIG cwd w
        \<and> approveBaseline L cwd nm w =
            (if \<not> existsSync w (path_join [cwd, ''.testivai/artifacts/current'', nm @ ''.png''])
             then (notFoundResult nm, w)
             else promote w nm (path_join [cwd, ''.testivai/artifacts/current'', nm @ ''.png''])
                    (path_join [cwd, ''.testivai/artifacts/baselines'', nm @ ''.png''])
                    (path_join [cwd, ''.testivai/artifacts/diffs'', nm @ ''.png'']))
        \<and> serveCommand_start L cwd w =
            (if \<not> existsSync w (path_join [path_join [cwd, ''.testivai/reports''], ''index.html''])
             then Inl ''No report found''
             else Inr (path_join [cwd, ''.testivai/reports''],
                       path_join [path_join [cwd, ''.testivai/reports''], ''index.html''])))"
proof (intro conjI impI)
  assume "\<not> existsSync w (configFilePathOf cwd cp)"
  then show "loadConfig L cwd cp w = Inr DEFAULT_CONFIG" by (rule loadConfig_no_file)
next
  show "paths DEFAULT_CONFIG = \<lparr>baseline = ''.testivai/artifacts/baselines'',
                              current = ''.testivai/artifacts/current'',
                              diff = ''.testivai/artifacts/diffs'',
                              reports = ''.testivai/reports''\<rparr>"
    by (simp add: DEFAULT_CONFIG_def)
  show "engineThreshold (visualEngine DEFAULT_CONFIG) = binary64 0.1"
    by (simp add: DEFAULT_CONFIG_def)
  show "isl (loadConfig L cwd cp w) \<longleftrightarrow>
        existsSync w (configFilePathOf cwd cp)
        \<and> (case readFile w (configFilePathOf cwd cp) of
             Inl msg \<Rightarrow> True
           | Inr content \<Rightarrow>
               (case jsonParse L (stripComments content) of
                  Inl msg \<Rightarrow> True
                | Inr config \<Rightarrow> isl (validateConfig config)))"
    by (rule loadConfig_throws_iff)
next
  assume nofile: "\<not> existsSync w (path_join [cwd, ''testivai.config.json''])"
  then have cfg: "loadConfig L cwd None w = Inr DEFAULT_CONFIG"
    by (simp add: loadConfig_no_file configFilePathOf_def)
  have p: "current (paths DEFAULT_CONFIG) = ''.testivai/artifacts/current''"
    "baseline (paths DEFAULT_CONFIG) = ''.testivai/artifacts/baselines''"
    "diff (paths DEFAULT_CONFIG) = ''.testivai/artifacts/diffs''"
    "reports (paths DEFAULT_CONFIG) = ''.testivai/reports''"
    by (simp_all add: DEFAULT_CONFIG_def)
  show "scan L cwd w = scanDirs DEFAULT_CONFIG cwd w" by (simp add: scan_def cfg)
  show "approveBaseline L cwd nm w =
            (if \<not> existsSync w (path_join [cwd, ''.testivai/artifacts/current'', nm @ ''.png''])
             then (notFoundResult nm, w)
             else promote w nm (path_join [cwd, ''.testivai/artifacts/current'', nm @ ''.png''])
                    (path_join [cwd, ''.testivai/artifacts/baselines'', nm @ ''.png''])
                    (path_join [cwd, ''.testivai/artifacts/diffs'', nm @ ''.png'']))"
    using approve_absent [OF cfg, of nm] approve_present [OF cfg, of nm]
    by (simp only: p split: if_split) blast
  show "serveCommand_start L cwd w =
            (if \<not> existsSync w (path_join [path_join [cwd, ''.testivai/reports''], ''index.html''])
             then Inl ''No report found''
             else Inr (path_join [cwd, ''.testivai/reports''],
                       path_join [path_join [cwd, ''.testivai/reports''], ''index.html'']))"
    by (simp add: serveCommand_start_def cfg p Let_def)
qed

text \<open>
  C10 as stated fails for a configuration file that exists but cannot be read: its
  content is parsed and passes the validation, yet \<^verbatim>\<open>loadConfig\<close> throws the error of
  the read.
\<close>

theorem unreadable_config_throws:
  "existsSync unreadableConfig (configFilePathOf ''/w'' None)
   \<and> files unreadableConfig (configFilePathOf ''/w'' None) = Some configText
   \<and> jsonParse configLibs (stripComments configText) = Inr validConfigJson
   \<and> validateConfig validConfigJson = Inr ()
   \<and> loadConfig configLibs ''/w'' None unreadableConfig
       = Inl (''EACCES: permission denied, open '' @ quoted ''/w/testivai.config.json'')"
  by code_simp

theorem loadConfig_default_or_throw_witness:
  "loadConfig demoLibs ''/w'' None demoWorld = Inr DEFAULT_CONFIG
   \<and> existsSync customWorld (configFilePathOf ''/w'' None)
   \<and> \<not> isl (loadConfig configLibs ''/w'' None customWorld)
   \<and> isl (loadConfig demoLibs ''/w'' None customWorld)
   \<and> scan demoLibs ''/w'' demoWorld = scanDirs DEFAULT_CONFIG ''/w'' demoWorld
   \<and> serveCommand_start demoLibs ''/w'' demoWorld = Inl ''No report found''
   \<and> approveBaseline demoLibs ''/w'' ''zzz'' demoWorld = (notFoundResult ''zzz'', demoWorld)"
proof -
  have nofile: "\<not> existsSync demoWorld (configFilePathOf ''/w'' None)" by code_simp
  then have nofile': "\<not> existsSync demoWorld (path_join [''/w'', ''testivai.config.json''])"
    by (simp add: configFilePathOf_def)
  have ex: "existsSync customWorld (configFilePathOf ''/w'' None)" by code_simp
  have good: "\<not> (existsSync customWorld (configFilePathOf ''/w'' None)
        \<and> (case readFile customWorld (configFilePathOf ''/w'' None) of
             Inl msg \<Rightarrow> True
           | Inr content \<Rightarrow>
               (case jsonParse configLibs (stripComments content) of
                  Inl msg \<Rightarrow> True
                | Inr config \<Rightarrow> isl (validateConfig config))))"
    by code_simp
  have bad: "existsSync customWorld (configFilePathOf ''/w'' None)
        \<and> (case readFile customWorld (configFilePathOf ''/w'' None) of
             Inl msg \<Rightarrow> True
           | Inr content \<Rightarrow>
               (case jsonParse demoLibs (stripComments content) of
                  Inl msg \<Rightarrow> True
                | Inr config \<Rightarrow> isl (validateConfig config)))"
    by code_simp
  have noindex: "\<not> existsSync demoWorld
                   (path_join [path_join [''/w'', ''.testivai/reports''], ''index.html''])"
    by code_simp
  have nocur: "\<not> existsSync demoWorld (path_join [''/w'', ''.testivai/artifacts/current'', ''zzz.png''])"
    by code_simp
  note T = loadConfig_default_or_throw
  from T [of demoWorld "''/w''" None demoLibs] nofile
  have a: "loadConfig demoLibs ''/w'' None demoWorld = Inr DEFAULT_CONFIG" by blast
  from T [of customWorld "''/w''" None configLibs] good
  have b: "\<not> isl (loadConfig configLibs ''/w'' None customWorld)" by blast
  from T [of customWorld "''/w''" None demoLibs] bad
  have c: "isl (loadConfig demoLibs ''/w'' None customWorld)" by blast
  from T [of demoWorld "''/w''" None demoLibs "''zzz''"] nofile'
  have d: "scan demoLibs ''/w'' demoWorld = scanDirs DEFAULT_CONFIG ''/w'' demoWorld"
    and e: "approveBaseline demoLibs ''/w'' ''zzz'' demoWorld =
            (if \<not> existsSync demoWorld
                   (path_join [''/w'', ''.testivai/artifacts/current'', ''zzz'' @ ''.png''])
             then (notFoundResult ''zzz'', demoWorld)
             else promote demoWorld ''zzz''
                    (path_join [''/w'', ''.testivai/artifacts/current'', ''zzz'' @ ''.png''])
                    (path_join [''/w'', ''.testivai/artifacts/baselines'', ''zzz'' @ ''.png''])
                    (path_join [''/w'', ''.testivai/artifacts/diffs'', ''zzz'' @ ''.png'']))"
    and f: "serveCommand_start demoLibs ''/w'' demoWorld =
            (if \<not> existsSync demoWorld
                   (path_join [path_join [''/w'', ''.testivai/reports''], ''index.html''])
             then Inl ''No report found''
             else Inr (path_join [''/w'', ''.testivai/reports''],
                       path_join [path_join [''/w'', ''.testivai/reports''], ''index.html'']))"
    by blast+
  have e': "approveBaseline demoLibs ''/w'' ''zzz'' demoWorld = (notFoundResult ''zzz'', demoWorld)"
    using e nocur by simp
  have f': "serveCommand_start demoLibs ''/w'' demoWorld = Inl ''No report found''"
    using f noindex by simp
  from a ex b c d e' f' show ?thesis by blast
qed

end
